theory Spec2Isabelle
  imports Main "HOL-Library.Sublist"
begin

section \<open>Build-plan synthesis of the JVM build service\<close>

text \<open>
  A shallow embedding of \<^verbatim>\<open>pkg/reconciler/dependencybuild/buildrecipeyaml.go\<close>:
  of \<^verbatim>\<open>createPipelineSpec\<close>, which generates the plan of a build, and of the
  functions it calls. (The file also has \<^verbatim>\<open>createDeployPipelineSpec\<close> with its
  helper \<^verbatim>\<open>pipelineDeployCommands\<close>, for the deployment pipeline.)
  Go strings are byte sequences and are modelled as \<^typ>\<open>string\<close> (a list of
  \<^typ>\<open>char\<close>, one per byte); \<^verbatim>\<open>len\<close> is \<^const>\<open>length\<close> and a slice
  \<^verbatim>\<open>s[a:b]\<close> is \<^const>\<open>take\<close> after \<^const>\<open>drop\<close>. The integers of the
  source (\<^verbatim>\<open>int\<close>, \<^verbatim>\<open>int64\<close>) are only compared and printed, never added,
  and are modelled as \<^typ>\<open>int\<close>.
\<close>

subsection \<open>The Go standard library functions the file calls\<close>

text \<open>
  \<^verbatim>\<open>strings.ReplaceAll(s, old, new)\<close> replaces the non-overlapping occurrences of
  \<^verbatim>\<open>old\<close>, found from left to right. \<open>replaceFrom\<close> is the scan for a non-empty
  \<^verbatim>\<open>old\<close>: at a match it emits \<^verbatim>\<open>new\<close> and continues behind the match.
  For an empty \<^verbatim>\<open>old\<close> Go inserts \<^verbatim>\<open>new\<close> in front of every character and at
  the end; the model does so for every byte, which is the same for ASCII text. No call
  in this file takes that branch: every \<^verbatim>\<open>old\<close> is a non-empty constant or a
  reference \<^verbatim>\<open>$(params.name)\<close>.
\<close>

fun replaceFrom :: "string \<Rightarrow> string \<Rightarrow> string \<Rightarrow> string" where
  "replaceFrom old new [] = []"
| "replaceFrom old new (c # s) =
     (if prefix old (c # s) then new @ replaceFrom old new (drop (length old - 1) s)
      else c # replaceFrom old new s)"

definition ReplaceAll :: "string \<Rightarrow> string \<Rightarrow> string \<Rightarrow> string" where
  "ReplaceAll s old new =
     (if old = [] then new @ concat (map (\<lambda>c. c # new) s) else replaceFrom old new s)"

text \<open>\<^verbatim>\<open>strings.HasSuffix\<close>.\<close>

definition HasSuffix :: "string \<Rightarrow> string \<Rightarrow> bool" where
  "HasSuffix s suf = suffix suf s"

text \<open>\<^verbatim>\<open>strings.Join\<close>.\<close>

fun Join :: "string list \<Rightarrow> string \<Rightarrow> string" where
  "Join [] sep = []"
| "Join [x] sep = x"
| "Join (x # y # ys) sep = x @ sep @ Join (y # ys) sep"

text \<open>
  \<^verbatim>\<open>strings.LastIndex(s, ":")\<close> for a one-byte separator: the index of the last
  occurrence, or \<open>-1\<close>. The scan keeps the position and the last index found.
\<close>

fun LastIndexFrom :: "char \<Rightarrow> string \<Rightarrow> int \<Rightarrow> int \<Rightarrow> int" where
  "LastIndexFrom c [] pos found = found"
| "LastIndexFrom c (x # xs) pos found =
     LastIndexFrom c xs (pos + 1) (if x = c then pos else found)"

definition LastIndex :: "string \<Rightarrow> char \<Rightarrow> int" where
  "LastIndex s c = LastIndexFrom c s 0 (- 1)"

text \<open>
  \<^verbatim>\<open>strconv.Itoa\<close> and \<^verbatim>\<open>strconv.FormatInt(n, 10)\<close>, also \<^verbatim>\<open>%d\<close> of
  \<^verbatim>\<open>fmt.Sprintf\<close>: the decimal digits, with a minus sign for a negative number.
\<close>

definition digitChar :: "nat \<Rightarrow> char" where
  "digitChar d = ''0123456789'' ! (d mod 10)"

fun natDigits :: "nat \<Rightarrow> string" where
  "natDigits n = (if n < 10 then [digitChar n] else natDigits (n div 10) @ [digitChar (n mod 10)])"

declare natDigits.simps [simp del]

definition FormatInt :: "int \<Rightarrow> string" where
  "FormatInt n = (if n < 0 then CHR ''-'' # natDigits (nat (- n)) else natDigits (nat n))"

text \<open>
  \<^verbatim>\<open>strings.TrimSpace\<close> removes leading and trailing white space as Unicode defines it.
  On the UTF-8 bytes of a string these are the six ASCII characters tab, line feed,
  vertical tab, form feed, carriage return and space, and the encodings of U+0085,
  U+00A0, U+1680, U+2000 to U+200A, U+2028, U+2029, U+202F, U+205F and U+3000.
\<close>

definition asciiSpace :: "char \<Rightarrow> bool" where
  "asciiSpace c = (of_char c \<in> {9::nat, 10, 11, 12, 13, 32})"

definition unicodeSpaces :: "nat list list" where
  "unicodeSpaces =
     [[194, 133], [194, 160], [225, 154, 128],
      [226, 128, 128], [226, 128, 129], [226, 128, 130], [226, 128, 131], [226, 128, 132],
      [226, 128, 133], [226, 128, 134], [226, 128, 135], [226, 128, 136], [226, 128, 137],
      [226, 128, 138], [226, 128, 168], [226, 128, 169], [226, 128, 175], [226, 129, 159],
      [227, 128, 128]]"

definition leadingSpace :: "string \<Rightarrow> nat" where
  "leadingSpace s =
     (case s of [] \<Rightarrow> 0
      | c # _ \<Rightarrow> if asciiSpace c then 1
                 else (case filter (\<lambda>u. prefix u (map of_char s)) unicodeSpaces of
                         [] \<Rightarrow> 0 | u # _ \<Rightarrow> length u))"

fun trimLeft :: "nat \<Rightarrow> string \<Rightarrow> string" where
  "trimLeft 0 s = s"
| "trimLeft (Suc fuel) s =
     (if leadingSpace s = 0 then s else trimLeft fuel (drop (leadingSpace s) s))"

definition trailingSpace :: "string \<Rightarrow> nat" where
  "trailingSpace s =
     (case rev s of [] \<Rightarrow> 0
      | c # _ \<Rightarrow> if asciiSpace c then 1
                 else (case filter (\<lambda>u. suffix u (map of_char s)) unicodeSpaces of
                         [] \<Rightarrow> 0 | u # _ \<Rightarrow> length u))"

fun trimRight :: "nat \<Rightarrow> string \<Rightarrow> string" where
  "trimRight 0 s = s"
| "trimRight (Suc fuel) s =
     (if trailingSpace s = 0 then s
      else trimRight fuel (take (length s - trailingSpace s) s))"

text \<open>
  Every round removes at least one byte, so \<open>length s\<close> rounds reach the fixed point:
  the fuel never runs out.
\<close>

definition TrimSpace :: "string \<Rightarrow> string" where
  "TrimSpace s = (let t = trimLeft (length s) s in trimRight (length t) t)"

text \<open>
  \<^verbatim>\<open>strings.Split(s, sep)\<close> for a non-empty separator: the pieces between the
  non-overlapping occurrences of \<^verbatim>\<open>sep\<close>, found from left to right. (The only
  call passes \<^verbatim>\<open>"FROM"\<close>; for an empty separator Go splits into characters, here
  bytes.)
\<close>

fun splitFrom :: "string \<Rightarrow> string \<Rightarrow> string \<Rightarrow> string list" where
  "splitFrom sep cur [] = [cur]"
| "splitFrom sep cur (c # s) =
     (if prefix sep (c # s) then cur # splitFrom sep [] (drop (length sep - 1) s)
      else splitFrom sep (cur @ [c]) s)"

definition Split :: "string \<Rightarrow> string \<Rightarrow> string list" where
  "Split s sep = (if sep = [] then map (\<lambda>c. [c]) s else splitFrom sep [] s)"

subsection \<open>Registry addresses\<close>

text \<open>
  \<^verbatim>\<open>prependTagToImage\<close> (lines 971 to 991). \<open>tagParts\<close> is the pair of the local
  variables \<^verbatim>\<open>slice\<close> and \<^verbatim>\<open>tag\<close> before the length check.
\<close>

definition tagParts :: "string \<Rightarrow> string \<Rightarrow> string \<times> string" where
  "tagParts imageId prependTag =
     (let i = LastIndex imageId CHR '':''
      in if i \<noteq> - 1
         then (take (nat i) imageId @ '':'',
               prependTag @ ''_'' @ drop (nat (i + 1)) imageId)
         else ([], if prependTag \<noteq> [] then prependTag @ ''_'' @ imageId else imageId))"

definition prependTagToImage :: "string \<Rightarrow> string \<Rightarrow> string" where
  "prependTagToImage imageId prependTag =
     (let (slice, tag) = tagParts imageId prependTag;
          tag = (if length tag > 128 then take 128 tag else tag)
      in slice @ tag)"


subsection \<open>What the file uses and does not define\<close>

text \<open>
  The file embeds nine script files with \<^verbatim>\<open>go:embed\<close>, and uses constants of its
  own package and of the packages \<^verbatim>\<open>v1alpha1\<close>, \<^verbatim>\<open>artifactbuild\<close> and
  \<^verbatim>\<open>jbsconfig\<close> that other files declare. They are parameters of the model: every
  function below takes the records it reads, and every theorem holds for all of them.
\<close>

record embedded =
  mavenBuild :: string
  mavenSettings :: string
  gradleBuild :: string
  sbtBuild :: string
  antBuild :: string
  packageTemplate :: string
  dockerfileEntryScript :: string
  buildEntryScript :: string
  buildTrustedArtifacts :: string

record paramNames =
  PipelineBuildId :: string
  PipelineParamScmUrl :: string
  PipelineParamScmTag :: string
  PipelineParamScmHash :: string
  PipelineParamChainsGitUrl :: string
  PipelineParamChainsGitCommit :: string
  PipelineParamGoals :: string
  PipelineParamJavaVersion :: string
  PipelineParamToolVersion :: string
  PipelineParamPath :: string
  PipelineParamEnforceVersion :: string
  PipelineParamProjectVersion :: string
  PipelineParamCacheUrl :: string
  JavaHome :: string

record resultNames =
  PipelineResultImage :: string
  PipelineResultImageDigest :: string
  PipelineResultPreBuildImageDigest :: string
  PipelineResultGitArchive :: string
  PipelineResultContaminants :: string
  PipelineResultDeployedResources :: string
  PipelineResultPassedVerification :: string
  PipelineResultVerificationResult :: string

record secretNames =
  GitSecretName :: string
  GitSecretTokenKey :: string
  ImageSecretTokenKey :: string
  MavenSecretName :: string
  MavenSecretKey :: string
  AWSSecretName :: string
  AWSAccessID :: string
  AWSSecretKey :: string
  AWSProfile :: string
  GitRepoSecretName :: string
  GitRepoSecretKey :: string

text \<open>The error value of Go, with its message.\<close>

datatype error = Error string

subsection \<open>The inputs\<close>

record BuildSettings =
  TaskRequestMemory :: string
  BuildRequestMemory :: string
  TaskRequestCPU :: string
  TaskLimitCPU :: string
  BuildRequestCPU :: string
  BuildLimitCPU :: string

record ImageRegistry =
  Host :: string
  Port :: string
  Owner :: string
  Repository :: string
  PrependTag :: string
  SecretName :: string

text \<open>
  \<^verbatim>\<open>JBSConfig\<close> with the fields the file reads: \<^verbatim>\<open>Namespace\<close>,
  \<^verbatim>\<open>Annotations\<close> and, of \<^verbatim>\<open>Spec\<close>, \<^verbatim>\<open>CacheSettings.DisableTLS\<close>,
  \<^verbatim>\<open>ContainerBuilds\<close>, \<^verbatim>\<open>MavenDeployment\<close>, \<^verbatim>\<open>GitSourceArchive\<close>,
  \<^verbatim>\<open>RequireArtifactVerification\<close> and \<^verbatim>\<open>BuildSettings\<close>. A Go map is a partial
  function; reading a missing key (also of a nil map) gives the empty string.
\<close>

record JBSConfig =
  Namespace :: string
  Annotations :: "string \<rightharpoonup> string"
  DisableTLS :: bool
  ContainerBuilds :: bool
  MavenDeployment_Repository :: string
  MavenDeployment_Username :: string
  GitSourceArchive_Identity :: string
  GitSourceArchive_URL :: string
  GitSourceArchive_DisableSSLVerification :: bool
  RequireArtifactVerification :: bool
  Settings :: BuildSettings

definition mapIndex :: "(string \<rightharpoonup> string) \<Rightarrow> string \<Rightarrow> string" where
  "mapIndex m k = (case m k of None \<Rightarrow> [] | Some v \<Rightarrow> v)"

record AdditionalDownload =
  Uri :: string
  Sha256 :: string
  FileName :: string
  BinaryPath :: string
  PackageName :: string
  FileType :: string

record BuildRecipe =
  RecipeImage :: string
  Tool :: string
  ToolVersion :: string
  JavaVersion :: string
  ToolVersions :: "string \<rightharpoonup> string"
  EnforceVersion :: string
  DisabledPlugins :: "string list"
  Repositories :: "string list"
  PreBuildScript :: string
  PostBuildScript :: string
  AdditionalDownloads :: "AdditionalDownload list"
  AllowedDifferences :: "string list"
  AdditionalMemory :: int
  DisableSubmodules :: bool

text \<open>
  \<^verbatim>\<open>DependencyBuild\<close>: \<^verbatim>\<open>Name\<close>, \<^verbatim>\<open>Annotations\<close>, \<^verbatim>\<open>Spec.Version\<close> and
  \<^verbatim>\<open>Spec.ScmInfo\<close>.
\<close>

record DependencyBuild =
  Name :: string
  DbAnnotations :: "string \<rightharpoonup> string"
  Version :: string
  SCMURL :: string
  CommitHash :: string
  Private :: bool

record SystemConfig =
  MaxAdditionalMemory :: int

text \<open>
  A quantity of Kubernetes (\<^verbatim>\<open>resource.Quantity\<close>) is a struct of an amount, a cached
  string and a format, all held by value, and of a pointer \<^verbatim>\<open>d.Dec\<close> to a number
  (\<^verbatim>\<open>*inf.Dec\<close>) that is nil while the amount fits the struct. Assigning a quantity
  copies the struct: the copy holds the same pointer. \<open>'v\<close> is the part held by value
  and \<open>'p\<close> what the pointer field holds: an address in a struct of the program, the
  number itself in a quantity as it reads.
\<close>

record ('v, 'p) Quantity =
  Held :: 'v
  Dec :: "'p option"

text \<open>
  The other packages: the registry settings of a configuration
  (\<^verbatim>\<open>jbsConfig.ImageRegistry()\<close>), the two keystore scripts of package
  \<^verbatim>\<open>artifactbuild\<close> (the second one takes any number of argument lists), the two
  annotation keys, the address of the remote build task, the time limit in hours, and
  the arithmetic of quantities: what \<^verbatim>\<open>resource.ParseQuantity\<close> reads from a string,
  and what the receiver of \<^verbatim>\<open>Quantity.Add\<close> reads afterwards, given what the
  receiver and the argument read before. Where these results are stored is not a
  parameter: it is modelled with \<^verbatim>\<open>memoryLimits\<close> below.
\<close>

record ('v, 'd) library =
  ImageRegistryOf :: "JBSConfig \<Rightarrow> ImageRegistry"
  InstallKeystoreScript :: string
  InstallKeystoreIntoBuildRequestProcessor :: "string list list \<Rightarrow> string"
  TestRegistry :: string
  DependencyScmAnnotation :: string
  KonfluxBuildDefinitions :: string
  DefaultTimeout :: int
  ParseQuantity :: "string \<Rightarrow> error + ('v, 'd) Quantity"
  QuantityAdd :: "('v, 'd) Quantity \<Rightarrow> ('v, 'd) Quantity \<Rightarrow> ('v, 'd) Quantity"

subsection \<open>The task graph of Tekton\<close>

text \<open>
  The types of \<^verbatim>\<open>tektonpipeline\<close> and of \<^verbatim>\<open>k8s.io/api/core/v1\<close>, with the fields
  the file sets. \<^verbatim>\<open>ParamType\<close> and \<^verbatim>\<open>PullPolicy\<close> are string types in Go.
\<close>

definition ParamTypeString :: string where "ParamTypeString = ''string''"
definition ParamTypeArray :: string where "ParamTypeArray = ''array''"
definition ResultsTypeString :: string where "ResultsTypeString = ''string''"
definition PullIfNotPresent :: string where "PullIfNotPresent = ''IfNotPresent''"
definition PullAlways :: string where "PullAlways = ''Always''"

record ParamValue =
  ValueType :: string
  StringVal :: string
  ArrayVal :: "string list"

record Param =
  ParamName :: string
  Value :: ParamValue

record ParamSpec =
  SpecName :: string
  SpecType :: string
  SpecDescription :: string
  SpecDefault :: "ParamValue option"

record SecretKeySelector =
  SecretRefName :: string
  SecretRefKey :: string
  SecretRefOptional :: "bool option"

record EnvVar =
  EnvName :: string
  EnvValue :: string
  EnvValueFrom :: "SecretKeySelector option"

record 'q Step =
  StepName :: string
  StepImage :: string
  ImagePullPolicy :: string
  RunAsUser :: "int option"
  Env :: "EnvVar list"
  Requests :: "string \<rightharpoonup> 'q"
  Limits :: "string \<rightharpoonup> 'q"
  Script :: string
  Args :: "string list"
  WorkingDir :: string
  StepTimeout :: "int option"

record WorkspaceDeclaration =
  WorkspaceName :: string
  MountPath :: string

record TaskResult =
  ResultName :: string
  ResultType :: string
  ResultDescription :: string

record 'q TaskSpec =
  TaskWorkspaces :: "WorkspaceDeclaration list"
  TaskParams :: "ParamSpec list"
  TaskResults :: "TaskResult list"
  Steps :: "'q Step list"

record ResolverRef =
  Resolver :: string
  ResolverParams :: "Param list"

record WorkspacePipelineTaskBinding =
  BindingName :: string
  BindingWorkspace :: string

record 'q PipelineTask =
  TaskName :: string
  RunAfter :: "string list"
  TaskRef :: "ResolverRef option"
  EmbeddedTask :: "'q TaskSpec option"
  Timeout :: "int option"
  Params :: "Param list"
  Bindings :: "WorkspacePipelineTaskBinding list"

record PipelineResult =
  PipelineResultName :: string
  PipelineResultDescription :: string
  PipelineResultValue :: ParamValue

record 'q PipelineSpec =
  PipelineParams :: "ParamSpec list"
  Tasks :: "'q PipelineTask list"
  PipelineWorkspaces :: "string list"
  Results :: "PipelineResult list"

subsection \<open>The constants of the file\<close>

definition WorkspaceBuildSettings :: string where "WorkspaceBuildSettings = ''build-settings''"
definition WorkspaceSource :: string where "WorkspaceSource = ''source''"
definition WorkspaceMount :: string where "WorkspaceMount = ''/var/workdir''"
definition WorkspaceTls :: string where "WorkspaceTls = ''tls''"
definition PreBuildTaskName :: string where "PreBuildTaskName = ''pre-build''"
definition BuildTaskName :: string where "BuildTaskName = ''build''"
definition PostBuildTaskName :: string where "PostBuildTaskName = ''post-build''"

subsection \<open>The helper functions of the file\<close>

text \<open>\<^verbatim>\<open>settingOrDefault\<close> (lines 1050 to 1055).\<close>

definition settingOrDefault :: "string \<Rightarrow> string \<Rightarrow> string" where
  "settingOrDefault setting def = (if length (TrimSpace setting) = 0 then def else setting)"

text \<open>A Go function that panics does not return.\<close>

datatype 'a outcome = Panic | Return 'a

text \<open>
  The numbers behind the pointers of quantities live in a store: the list of the
  numbers allocated so far, an address being a position in it. Every address held by
  a quantity below was returned by an allocation, so it is a position of the list.
  \<open>readQuantity\<close> is a quantity as it reads in a store.
\<close>

type_synonym addr = nat

type_synonym 'd store = "'d list"

definition readQuantity :: "'d store \<Rightarrow> ('v, addr) Quantity \<Rightarrow> ('v, 'd) Quantity" where
  "readQuantity h q = \<lparr>Held = Held q, Dec = map_option (\<lambda>a. h ! a) (Dec q)\<rparr>"

text \<open>
  A quantity returned by the package is new: its number, when it has one, is at a new
  address.
\<close>

definition newQuantity ::
  "'d store \<Rightarrow> ('v, 'd) Quantity \<Rightarrow> ('v, addr) Quantity \<times> 'd store" where
  "newQuantity h v =
     (case Dec v of
        None \<Rightarrow> (\<lparr>Held = Held v, Dec = None\<rparr>, h)
      | Some n \<Rightarrow> (\<lparr>Held = Held v, Dec = Some (length h)\<rparr>, h @ [n]))"

text \<open>
  \<^verbatim>\<open>resource.ParseQuantity\<close> returns an error or a new quantity;
  \<^verbatim>\<open>resource.MustParse\<close> panics where \<^verbatim>\<open>resource.ParseQuantity\<close> returns an
  error.
\<close>

definition parseQuantity ::
  "('v, 'd) library \<Rightarrow> string \<Rightarrow> 'd store \<Rightarrow> error + ('v, addr) Quantity \<times> 'd store" where
  "parseQuantity L str h =
     (case ParseQuantity L str of Inl err \<Rightarrow> Inl err | Inr v \<Rightarrow> Inr (newQuantity h v))"

definition MustParse ::
  "('v, 'd) library \<Rightarrow> string \<Rightarrow> 'd store \<Rightarrow> (('v, addr) Quantity \<times> 'd store) outcome" where
  "MustParse L str h =
     (case ParseQuantity L str of Inl err \<Rightarrow> Panic | Inr v \<Rightarrow> Return (newQuantity h v))"

text \<open>
  \<^verbatim>\<open>q.Add(y)\<close> has a pointer receiver and takes \<^verbatim>\<open>y\<close> by value. It assigns the
  fields of \<^verbatim>\<open>q\<close> that are held by value. When the sum needs a number, a receiver
  that holds a pointer keeps it and the number behind it is overwritten, so every
  struct that holds the same pointer reads the sum from then on; a receiver that holds
  none gets a new number. The function returns the receiver and the store.
\<close>

definition Add ::
  "('v, 'd) library \<Rightarrow> ('v, addr) Quantity \<Rightarrow> ('v, addr) Quantity \<Rightarrow> 'd store
     \<Rightarrow> ('v, addr) Quantity \<times> 'd store" where
  "Add L q y h =
     (let r = QuantityAdd L (readQuantity h q) (readQuantity h y)
      in case Dec r of
           None \<Rightarrow> (\<lparr>Held = Held r, Dec = None\<rparr>, h)
         | Some n \<Rightarrow>
             (case Dec q of
                Some a \<Rightarrow> (\<lparr>Held = Held r, Dec = Some a\<rparr>, h[a := n])
              | None \<Rightarrow> (\<lparr>Held = Held r, Dec = Some (length h)\<rparr>, h @ [n])))"

record 'q memLimits =
  defaultRequestMemory :: 'q
  defaultBuildRequestMemory :: 'q
  defaultRequestCPU :: 'q
  defaultLimitCPU :: 'q
  buildRequestCPU :: 'q
  buildLimitCPU :: 'q
  buildRequestMemory :: 'q

definition readLimits ::
  "'d store \<Rightarrow> ('v, addr) Quantity memLimits \<Rightarrow> ('v, 'd) Quantity memLimits" where
  "readLimits h limits =
     \<lparr>defaultRequestMemory = readQuantity h (defaultRequestMemory limits),
      defaultBuildRequestMemory = readQuantity h (defaultBuildRequestMemory limits),
      defaultRequestCPU = readQuantity h (defaultRequestCPU limits),
      defaultLimitCPU = readQuantity h (defaultLimitCPU limits),
      buildRequestCPU = readQuantity h (buildRequestCPU limits),
      buildLimitCPU = readQuantity h (buildLimitCPU limits),
      buildRequestMemory = readQuantity h (buildRequestMemory limits)\<rparr>"

text \<open>
  \<^verbatim>\<open>memoryLimits\<close> (lines 764 to 799): the six settings are parsed in the order of
  the source and the first error is returned. Line 792 copies the struct of
  \<^verbatim>\<open>defaultBuildRequestMemory\<close> into \<^verbatim>\<open>buildRequestMemory\<close>, pointer included;
  lines 795 and 796 call \<^verbatim>\<open>Add\<close> on \<^verbatim>\<open>buildRequestMemory\<close> and then on
  \<^verbatim>\<open>defaultRequestMemory\<close>. No statement of the file writes a quantity after the
  function has returned, so the limits are given as they read at the return.
\<close>

definition memoryLimits ::
  "('v, 'd) library \<Rightarrow> JBSConfig \<Rightarrow> int \<Rightarrow> (error + ('v, 'd) Quantity memLimits) outcome" where
  "memoryLimits L jbsConfig additionalMemory =
     (case parseQuantity L (settingOrDefault (TaskRequestMemory (Settings jbsConfig)) ''512Mi'') [] of
        Inl err \<Rightarrow> Return (Inl err)
      | Inr (q1, h1) \<Rightarrow>
     (case parseQuantity L (settingOrDefault (BuildRequestMemory (Settings jbsConfig)) ''1024Mi'') h1 of
        Inl err \<Rightarrow> Return (Inl err)
      | Inr (q2, h2) \<Rightarrow>
     (case parseQuantity L (settingOrDefault (TaskRequestCPU (Settings jbsConfig)) ''10m'') h2 of
        Inl err \<Rightarrow> Return (Inl err)
      | Inr (q3, h3) \<Rightarrow>
     (case parseQuantity L (settingOrDefault (TaskLimitCPU (Settings jbsConfig)) ''300m'') h3 of
        Inl err \<Rightarrow> Return (Inl err)
      | Inr (q4, h4) \<Rightarrow>
     (case parseQuantity L (settingOrDefault (BuildRequestCPU (Settings jbsConfig)) ''300m'') h4 of
        Inl err \<Rightarrow> Return (Inl err)
      | Inr (q5, h5) \<Rightarrow>
     (case parseQuantity L (settingOrDefault (BuildLimitCPU (Settings jbsConfig)) ''2'') h5 of
        Inl err \<Rightarrow> Return (Inl err)
      | Inr (q6, h6) \<Rightarrow>
     (let limits = \<lparr>defaultRequestMemory = q1, defaultBuildRequestMemory = q2,
                    defaultRequestCPU = q3, defaultLimitCPU = q4, buildRequestCPU = q5,
                    buildLimitCPU = q6, buildRequestMemory = q2\<rparr>
      in if additionalMemory > 0
         then (case MustParse L (FormatInt additionalMemory @ ''Mi'') h6 of
                 Panic \<Rightarrow> Panic
               | Return (additional, h7) \<Rightarrow>
                   (case Add L (buildRequestMemory limits) additional h7 of
                      (b, h8) \<Rightarrow>
                   (case Add L (defaultRequestMemory limits) additional h8 of
                      (t, h9) \<Rightarrow>
                        Return (Inr (readLimits h9
                          (limits\<lparr>buildRequestMemory := b, defaultRequestMemory := t\<rparr>))))))
         else Return (Inr (readLimits h6 limits)))))))))"

text \<open>
  \<^verbatim>\<open>additionalPackages\<close> (lines 801 to 837). \<open>installTemplate\<close> is the template
  with its six placeholders filled for the package at position \<open>count\<close>. The loop
  carries \<^verbatim>\<open>install\<close>; on a missing field it assigns the failing line to
  \<^verbatim>\<open>install\<close> and goes on, on an unknown file type it assigns and leaves the loop.
\<close>

definition installTemplate :: "embedded \<Rightarrow> nat \<Rightarrow> AdditionalDownload \<Rightarrow> string" where
  "installTemplate E count i =
     (let template = packageTemplate E;
          fileName = (if FileName i = [] then ''package-'' @ FormatInt (int count) else FileName i);
          template = ReplaceAll template ''{URI}'' (Uri i);
          template = ReplaceAll template ''{FILENAME}'' fileName;
          template = ReplaceAll template ''{SHA256}'' (Sha256 i);
          template = ReplaceAll template ''{TYPE}'' (FileType i);
          template = ReplaceAll template ''{BINARY_PATH}'' (BinaryPath i);
          template = ReplaceAll template ''{PACKAGE_NAME}'' (PackageName i)
      in template)"

fun additionalPackagesLoop ::
  "embedded \<Rightarrow> nat \<Rightarrow> AdditionalDownload list \<Rightarrow> string \<Rightarrow> string" where
  "additionalPackagesLoop E count [] install = install"
| "additionalPackagesLoop E count (i # rest) install =
     (if FileType i = ''tar'' then
        additionalPackagesLoop E (count + 1) rest
          ((if BinaryPath i = []
            then ''echo 'Binary path not specified for package '' @ Uri i @ '''; exit 1''
            else install) @ installTemplate E count i)
      else if FileType i = ''executable'' then
        additionalPackagesLoop E (count + 1) rest
          ((if FileName i = []
            then ''echo 'File name not specified for package '' @ Uri i @ '''; exit 1''
            else install) @ installTemplate E count i)
      else if FileType i = ''rpm'' then
        additionalPackagesLoop E (count + 1) rest
          ((if PackageName i = []
            then ''echo 'Package name not specified for rpm type'; exit 1''
            else install) @ installTemplate E count i)
      else ''echo 'Unknown file type '' @ FileType i @ '' for package '' @ Uri i @ '''; exit 1'')"

definition additionalPackages :: "embedded \<Rightarrow> BuildRecipe \<Rightarrow> string" where
  "additionalPackages E recipe = additionalPackagesLoop E 0 (AdditionalDownloads recipe) []"

text \<open>\<^verbatim>\<open>gitScript\<close> (lines 839 to 851).\<close>

definition gitScript :: "paramNames \<Rightarrow> DependencyBuild \<Rightarrow> BuildRecipe \<Rightarrow> string" where
  \<open>gitScript N db recipe =
     (let gitArgs = ''echo "Cloning $(params.'' @ PipelineParamScmUrl N
                      @ '') and resetting to $(params.'' @ PipelineParamScmHash N @ '')" && '';
          gitArgs = (if Private db
                     then gitArgs
                       @ ''echo "$GIT_TOKEN" > $HOME/.git-credentials && chmod 400 $HOME/.git-credentials && ''
                       @ ''echo '[credential]\<newline>        helper=store\<newline>' > $HOME/.gitconfig && ''
                     else gitArgs);
          gitArgs = gitArgs @ ''git clone $(params.'' @ PipelineParamScmUrl N
                      @ '') $(workspaces.'' @ WorkspaceSource @ ''.path)/source && cd $(workspaces.''
                      @ WorkspaceSource @ ''.path)/source && git reset --hard $(params.''
                      @ PipelineParamScmHash N @ '')''
      in if \<not> DisableSubmodules recipe
         then gitArgs @ '' && git submodule init && git submodule update --recursive''
         else gitArgs)\<close>

text \<open>
  \<^verbatim>\<open>registryArgsWithDefaults\<close> (lines 900 to 932); the string builder is the
  concatenation of what is written to it.
\<close>

definition registryArgsWithDefaults :: "('v, 'd) library \<Rightarrow> JBSConfig \<Rightarrow> string \<Rightarrow> string" where
  "registryArgsWithDefaults L jbsConfig preBuildImageTag =
     (let imageRegistry = ImageRegistryOf L jbsConfig
      in (if Host imageRegistry \<noteq> [] then Host imageRegistry else ''quay.io'')
         @ (if Port imageRegistry \<noteq> [] \<and> Port imageRegistry \<noteq> ''443''
            then '':'' @ Port imageRegistry else [])
         @ ''/''
         @ (if Owner imageRegistry \<noteq> [] then Owner imageRegistry @ ''/'' else [])
         @ (if Repository imageRegistry \<noteq> [] then Repository imageRegistry
            else ''artifact-deployments'')
         @ (if preBuildImageTag \<noteq> []
            then '':'' @ prependTagToImage preBuildImageTag (PrependTag imageRegistry)
            else []))"

text \<open>\<^verbatim>\<open>gitArgs\<close> (lines 953 to 968).\<close>

definition gitArgs :: "('v, 'd) library \<Rightarrow> JBSConfig \<Rightarrow> DependencyBuild \<Rightarrow> string list" where
  "gitArgs L jbsConfig db =
     (if GitSourceArchive_Identity jbsConfig \<noteq> []
      then [''--git-identity='' @ GitSourceArchive_Identity jbsConfig] else [])
     @ (if GitSourceArchive_URL jbsConfig \<noteq> []
        then [''--git-url='' @ GitSourceArchive_URL jbsConfig] else [])
     @ (if GitSourceArchive_DisableSSLVerification jbsConfig
        then [''--git-disable-ssl-verification''] else [])
     @ (if mapIndex (DbAnnotations db) (DependencyScmAnnotation L) = ''true''
        then [''--git-reuse-repository''] else [])"

text \<open>
  The test-registry annotation (lines 165 to 170, 855 to 858): a nil map and a missing
  key both read as the empty string.
\<close>

definition orasOptions :: "('v, 'd) library \<Rightarrow> JBSConfig \<Rightarrow> string" where
  "orasOptions L jbsConfig =
     (if mapIndex (Annotations jbsConfig) (TestRegistry L) = ''true''
      then ''--insecure --plain-http'' else [])"

definition tlsVerify :: "('v, 'd) library \<Rightarrow> JBSConfig \<Rightarrow> string" where
  "tlsVerify L jbsConfig =
     (if mapIndex (Annotations jbsConfig) (TestRegistry L) = ''true'' then ''false'' else ''true'')"

text \<open>
  \<^verbatim>\<open>pipelineBuildCommands\<close> (lines 853 to 897) returns four values; they are four
  functions here.
\<close>

definition preBuildImageArgs ::
  "('v, 'd) library \<Rightarrow> resultNames \<Rightarrow> string \<Rightarrow> JBSConfig \<Rightarrow> string" where
  \<open>preBuildImageArgs L R imageId jbsConfig =
     ''echo "Creating pre-build-image archive"\<newline>export ORAS_OPTIONS="''
     @ orasOptions L jbsConfig
     @ '' --image-spec=v1.0 --artifact-type application/vnd.oci.image.config.v1+json"\<newline>''
     @ ''cp $(workspaces.source.path)/build.sh $(workspaces.source.path)/source/.jbs\<newline>''
     @ ''create-archive --store ''
     @ registryArgsWithDefaults L jbsConfig (imageId @ ''-pre-build-image'')
     @ '' $(results.'' @ PipelineResultPreBuildImageDigest R
     @ ''.path)=$(workspaces.source.path)/source\<newline>''\<close>

definition copyArtifactsArgs :: "string list" where
  "copyArtifactsArgs =
     [''copy-artifacts'',
      ''--source-path=$(workspaces.source.path)/source'',
      ''--deploy-path=$(workspaces.source.path)/artifacts'']"

definition deployArgs :: "DependencyBuild \<Rightarrow> string \<Rightarrow> string list" where
  "deployArgs db buildId =
     [''verify'',
      ''--path=$(workspaces.source.path)/artifacts'',
      ''--logs-path=$(workspaces.source.path)/logs'',
      ''--task-run-name=$(context.taskRun.name)'',
      ''--build-id='' @ buildId,
      ''--scm-uri='' @ SCMURL db,
      ''--scm-commit='' @ CommitHash db]"

definition konfluxArgs ::
  "('v, 'd) library \<Rightarrow> string \<Rightarrow> DependencyBuild \<Rightarrow> JBSConfig \<Rightarrow> string list" where
  "konfluxArgs L imageId db jbsConfig =
     [''deploy-pre-build-source'',
      ''--source-path=$(workspaces.source.path)/source'',
      ''--task-run-name=$(context.taskRun.name)'',
      ''--scm-uri='' @ SCMURL db,
      ''--scm-commit='' @ CommitHash db]
     @ gitArgs L jbsConfig db
     @ [''--image-id='' @ imageId]"

text \<open>\<^verbatim>\<open>verifyParameters\<close> (lines 993 to 1012).\<close>

definition verifyParameters :: "resultNames \<Rightarrow> JBSConfig \<Rightarrow> BuildRecipe \<Rightarrow> string list" where
  "verifyParameters R jbsConfig recipe =
     [''verify-built-artifacts'',
      ''--repository-url=$(params.CACHE_URL)'',
      ''--deploy-path=$(workspaces.source.path)/artifacts'',
      ''--task-run-name=$(context.taskRun.name)'',
      ''--results-file=$(results.'' @ PipelineResultPassedVerification R @ ''.path)'']
     @ (if \<not> RequireArtifactVerification jbsConfig then [''--report-only''] else [])
     @ map (\<lambda>i. ''--excludes='' @ i) (AllowedDifferences recipe)"

text \<open>
  \<^verbatim>\<open>extractArrayParam\<close> (lines 1014 to 1027): the regular expression matches one
  opening or closing parenthesis, so replacing every match by the empty string deletes
  these two characters.
\<close>

definition extractArrayParam :: "string \<Rightarrow> Param list \<Rightarrow> string" where
  "extractArrayParam key paramValues =
     concat (map (\<lambda>i. if ParamName i = key
                       then concat (map (\<lambda>j. filter (\<lambda>c. c \<noteq> CHR ''('' \<and> c \<noteq> CHR '')'') j @ '' '')
                                        (ArrayVal (Value i)))
                       else [])
                 paramValues)"

text \<open>\<^verbatim>\<open>extractEnvVar\<close> (lines 1029 to 1035).\<close>

definition extractEnvVar :: "EnvVar list \<Rightarrow> string" where
  "extractEnvVar envVar =
     concat (map (\<lambda>i. ''export '' @ EnvName i @ ''='' @ EnvValue i @ ''\<newline>'') envVar)"

text \<open>
  \<^verbatim>\<open>doSubstitution\<close> (lines 1037 to 1048). \<open>substParams\<close> is its loop over the
  parameter values, which rewrites the script once for every string parameter, in the
  order of the list.
\<close>

fun substParams :: "string \<Rightarrow> Param list \<Rightarrow> string" where
  "substParams script [] = script"
| "substParams script (i # rest) =
     substParams
       (if ValueType (Value i) = ParamTypeString
        then ReplaceAll script (''$(params.'' @ ParamName i @ '')'') (StringVal (Value i))
        else script)
       rest"

definition doSubstitution :: "string \<Rightarrow> Param list \<Rightarrow> int \<Rightarrow> string \<Rightarrow> string" where
  "doSubstitution script paramValues commitTime buildRepos =
     (let script = substParams script paramValues;
          script = ReplaceAll script ''$(params.CACHE_URL)''
                     (''http://localhost:8080/v2/cache/rebuild'' @ buildRepos @ ''/''
                      @ FormatInt commitTime @ ''/'');
          script = ReplaceAll script ''$(workspaces.build-settings.path)''
                     ''/var/workdir/software/settings'';
          script = ReplaceAll script ''$(workspaces.source.path)'' ''/var/workdir/workspace'';
          script = ReplaceAll script ''$(workspaces.tls.path)''
                     ''/var/workdir/software/tls/service-ca.crt''
      in script)"

text \<open>\<^verbatim>\<open>secretVariables\<close> (lines 709 to 730); every key is marked optional.\<close>

definition secretEnv :: "string \<Rightarrow> string \<Rightarrow> string \<Rightarrow> EnvVar" where
  "secretEnv name secret key =
     \<lparr>EnvName = name, EnvValue = [],
      EnvValueFrom = Some \<lparr>SecretRefName = secret, SecretRefKey = key,
                            SecretRefOptional = Some True\<rparr>\<rparr>"

definition secretVariables :: "('v, 'd) library \<Rightarrow> secretNames \<Rightarrow> JBSConfig \<Rightarrow> EnvVar list" where
  "secretVariables L S jbsConfig =
     (if SecretName (ImageRegistryOf L jbsConfig) \<noteq> []
      then [secretEnv ''REGISTRY_TOKEN'' (SecretName (ImageRegistryOf L jbsConfig))
              (ImageSecretTokenKey S)]
      else [])
     @ (if MavenDeployment_Repository jbsConfig \<noteq> []
        then [secretEnv ''MAVEN_PASSWORD'' (MavenSecretName S) (MavenSecretKey S),
              secretEnv ''AWS_ACCESS_KEY_ID'' (AWSSecretName S) (AWSAccessID S),
              secretEnv ''AWS_SECRET_ACCESS_KEY'' (AWSSecretName S) (AWSSecretKey S),
              secretEnv ''AWS_PROFILE'' (AWSSecretName S) (AWSProfile S)]
        else [])
     @ (if GitSourceArchive_Identity jbsConfig \<noteq> []
        then [secretEnv ''GIT_DEPLOY_TOKEN'' (GitRepoSecretName S) (GitRepoSecretKey S)]
        else [])"

text \<open>\<^verbatim>\<open>createBuildScript\<close> (lines 732 to 738).\<close>

definition createBuildScript :: "string \<Rightarrow> string" where
  \<open>createBuildScript build =
     ''tee $(workspaces.'' @ WorkspaceSource @ ''.path)/build.sh <<'RHTAPEOF'\<newline>''
     @ build
     @ ''\<newline>RHTAPEOF\<newline>''
     @ ''chmod +x $(workspaces.'' @ WorkspaceSource @ ''.path)/build.sh\<newline>''\<close>

text \<open>\<^verbatim>\<open>createKonfluxScripts\<close> (lines 740 to 750).\<close>

definition createKonfluxScripts :: "string \<Rightarrow> string \<Rightarrow> string" where
  \<open>createKonfluxScripts containerfile konfluxScript =
     ''mkdir -p $(workspaces.'' @ WorkspaceSource @ ''.path)/source/.jbs\<newline>''
     @ ''tee $(workspaces.'' @ WorkspaceSource
     @ ''.path)/source/.jbs/Containerfile <<'RHTAPEOF'\<newline>''
     @ containerfile
     @ ''\<newline>RHTAPEOF\<newline>''
     @ ''tee $(workspaces.'' @ WorkspaceSource
     @ ''.path)/source/.jbs/run-build.sh <<'RHTAPEOF'\<newline>''
     @ konfluxScript
     @ ''\<newline>RHTAPEOF\<newline>''
     @ ''chmod +x $(workspaces.'' @ WorkspaceSource @ ''.path)/source/.jbs/run-build.sh\<newline>''\<close>

text \<open>\<^verbatim>\<open>pullPolicy\<close> (lines 752 to 758).\<close>

definition pullPolicy :: "string \<Rightarrow> string" where
  "pullPolicy buildRequestProcessorImage =
     (if HasSuffix buildRequestProcessorImage '':dev'' then PullAlways else PullIfNotPresent)"

subsection \<open>Durations and base 64\<close>

text \<open>\<^verbatim>\<open>time.Hour\<close>, in nanoseconds.\<close>

definition Hour :: int where "Hour = 3600000000000"

text \<open>
  \<^verbatim>\<open>base64.StdEncoding.EncodeToString\<close>: three bytes give four characters of the
  standard alphabet, and the last group is padded with \<^verbatim>\<open>=\<close>.
\<close>

definition b64Char :: "nat \<Rightarrow> char" where
  "b64Char n =
     ''ABCDEFGHIJKLMNOPQRSTUVWXYZabcdefghijklmnopqrstuvwxyz0123456789+/'' ! (n mod 64)"

fun encodeBytes :: "nat list \<Rightarrow> string" where
  "encodeBytes [] = []"
| "encodeBytes [a] = [b64Char (a div 4), b64Char ((a mod 4) * 16), CHR ''='', CHR ''='']"
| "encodeBytes [a, b] =
     [b64Char (a div 4), b64Char ((a mod 4) * 16 + b div 16), b64Char ((b mod 16) * 4),
      CHR ''='']"
| "encodeBytes (a # b # c # rest) =
     [b64Char (a div 4), b64Char ((a mod 4) * 16 + b div 16),
      b64Char ((b mod 16) * 4 + c div 64), b64Char (c mod 64)] @ encodeBytes rest"

definition EncodeToString :: "string \<Rightarrow> string" where
  "EncodeToString s = encodeBytes (map of_char s)"

subsection \<open>The local values of \<^verbatim>\<open>createPipelineSpec\<close>\<close>

text \<open>
  \<^verbatim>\<open>createPipelineSpec\<close> (lines 154 to 707) is one long function. Each definition
  of this subsection is one of its local variables, as a function of the arguments it
  is computed from; the calls to the logger and to \<^verbatim>\<open>fmt.Printf\<close> write to the
  log only and are left out.
\<close>

text \<open>\<^verbatim>\<open>preprocessorArgs\<close> (lines 172 to 180 and 213 to 236).\<close>

definition preprocessorArgs :: "string \<Rightarrow> BuildRecipe \<Rightarrow> string list" where
  "preprocessorArgs tool recipe =
     (let args = [''maven-prepare'', ''$(workspaces.'' @ WorkspaceSource @ ''.path)/source'']
                 @ map (\<lambda>i. ''-dp '' @ i) (DisabledPlugins recipe)
      in if tool = ''maven'' then args
         else if tool = ''gradle''
         then [''gradle-prepare'', ''$(workspaces.'' @ WorkspaceSource @ ''.path)/source'']
              @ map (\<lambda>i. ''-dp '' @ i) (DisabledPlugins recipe)
         else if tool = ''sbt'' then args[0 := ''sbt-prepare'']
         else if tool = ''ant'' then args[0 := ''ant-prepare'']
         else args)"

text \<open>\<^verbatim>\<open>javaHome\<close> (lines 181 to 186).\<close>

definition javaHome :: "BuildRecipe \<Rightarrow> string" where
  "javaHome recipe =
     (if JavaVersion recipe = ''7'' \<or> JavaVersion recipe = ''8''
      then ''/lib/jvm/java-1.'' @ JavaVersion recipe @ ''.0''
      else ''/lib/jvm/java-'' @ JavaVersion recipe)"

text \<open>\<^verbatim>\<open>toolEnv\<close> (lines 188 to 204).\<close>

definition plainEnv :: "string \<Rightarrow> string \<Rightarrow> EnvVar" where
  "plainEnv name v = \<lparr>EnvName = name, EnvValue = v, EnvValueFrom = None\<rparr>"

definition toolEnv :: "paramNames \<Rightarrow> BuildRecipe \<Rightarrow> DependencyBuild \<Rightarrow> EnvVar list" where
  "toolEnv N recipe db =
     (if mapIndex (ToolVersions recipe) ''maven'' \<noteq> []
      then [plainEnv ''MAVEN_HOME'' (''/opt/maven/'' @ mapIndex (ToolVersions recipe) ''maven'')]
      else [])
     @ (if mapIndex (ToolVersions recipe) ''gradle'' \<noteq> []
        then [plainEnv ''GRADLE_HOME'' (''/opt/gradle/'' @ mapIndex (ToolVersions recipe) ''gradle'')]
        else [])
     @ (if mapIndex (ToolVersions recipe) ''ant'' \<noteq> []
        then [plainEnv ''ANT_HOME'' (''/opt/ant/'' @ mapIndex (ToolVersions recipe) ''ant'')]
        else [])
     @ (if mapIndex (ToolVersions recipe) ''sbt'' \<noteq> []
        then [plainEnv ''SBT_DIST'' (''/opt/sbt/'' @ mapIndex (ToolVersions recipe) ''sbt'')]
        else [])
     @ [plainEnv (PipelineParamToolVersion N) (ToolVersion recipe),
        plainEnv (PipelineParamProjectVersion N) (Version db),
        plainEnv (JavaHome N) (javaHome recipe),
        plainEnv (PipelineParamEnforceVersion N) (EnforceVersion recipe)]"

text \<open>
  \<^verbatim>\<open>additionalMemory\<close> (lines 206 to 210): the request of the recipe, limited by
  the maximum of the system configuration when that is positive.
\<close>

definition additionalMemory :: "BuildRecipe \<Rightarrow> SystemConfig \<Rightarrow> int" where
  "additionalMemory recipe systemConfig =
     (if MaxAdditionalMemory systemConfig > 0
         \<and> AdditionalMemory recipe > MaxAdditionalMemory systemConfig
      then MaxAdditionalMemory systemConfig
      else AdditionalMemory recipe)"

text \<open>\<^verbatim>\<open>buildToolSection\<close> (lines 211 to 236).\<close>

definition buildToolSection :: "embedded \<Rightarrow> string \<Rightarrow> string" where
  "buildToolSection E tool =
     (if tool = ''maven'' then mavenSettings E @ ''\<newline>'' @ mavenBuild E
      else if tool = ''gradle'' then mavenSettings E @ ''\<newline>'' @ gradleBuild E
      else if tool = ''sbt'' then sbtBuild E
      else if tool = ''ant'' then mavenSettings E @ ''\<newline>'' @ antBuild E
      else ''echo unknown build tool '' @ tool @ '' && exit 1'')"

text \<open>\<^verbatim>\<open>buildRepos\<close> (lines 243 to 252); the loop carries the index and the text.\<close>

fun buildReposLoop :: "nat \<Rightarrow> string list \<Rightarrow> string \<Rightarrow> string" where
  "buildReposLoop c [] buildRepos = buildRepos"
| "buildReposLoop c (i # rest) buildRepos =
     buildReposLoop (c + 1) rest (if c = 0 then ''-'' @ i else buildRepos @ '','' @ i)"

definition buildRepos :: "BuildRecipe \<Rightarrow> string" where
  "buildRepos recipe = buildReposLoop 0 (Repositories recipe) []"

text \<open>
  \<^verbatim>\<open>build\<close> (lines 237 to 256): the entry script behind the keystore script, with
  its four placeholders replaced one after the other.
\<close>

definition build :: "('v, 'd) library \<Rightarrow> embedded \<Rightarrow> string \<Rightarrow> BuildRecipe \<Rightarrow> string" where
  "build L E tool recipe =
     (let build = InstallKeystoreScript L @ ''\<newline>'' @ buildEntryScript E;
          build = ReplaceAll build ''{{BUILD}}'' (buildToolSection E tool);
          build = ReplaceAll build ''{{INSTALL_PACKAGE_SCRIPT}}'' (additionalPackages E recipe);
          build = ReplaceAll build ''{{PRE_BUILD_SCRIPT}}'' (PreBuildScript recipe);
          build = ReplaceAll build ''{{POST_BUILD_SCRIPT}}'' (PostBuildScript recipe)
      in build)"

text \<open>\<^verbatim>\<open>cacheUrl\<close> (lines 257 to 261).\<close>

definition cacheUrl :: "JBSConfig \<Rightarrow> BuildRecipe \<Rightarrow> int \<Rightarrow> string" where
  "cacheUrl jbsConfig recipe commitTime =
     (if DisableTLS jbsConfig
      then ''http://jvm-build-workspace-artifact-cache.'' @ Namespace jbsConfig
           @ ''.svc.cluster.local/v2/cache/rebuild''
      else ''https://jvm-build-workspace-artifact-cache-tls.'' @ Namespace jbsConfig
           @ ''.svc.cluster.local/v2/cache/rebuild'')
     @ buildRepos recipe @ ''/'' @ FormatInt commitTime"

text \<open>
  \<^verbatim>\<open>preprocessorScript\<close>, \<^verbatim>\<open>buildScript\<close>, \<^verbatim>\<open>envVars\<close>, \<^verbatim>\<open>cmdArgs\<close> and
  \<^verbatim>\<open>konfluxScript\<close> (lines 266 to 270).
\<close>

definition preprocessorScript :: "string \<Rightarrow> BuildRecipe \<Rightarrow> Param list \<Rightarrow> int \<Rightarrow> string" where
  "preprocessorScript tool recipe paramValues commitTime =
     ''#!/bin/sh\<newline>/var/workdir/software/system-java/bin/java -jar /var/workdir/software/build-request-processor/quarkus-run.jar ''
     @ doSubstitution (Join (preprocessorArgs tool recipe) '' '') paramValues commitTime
         (buildRepos recipe)
     @ ''\<newline>''"

definition buildScript ::
  "('v, 'd) library \<Rightarrow> embedded \<Rightarrow> string \<Rightarrow> BuildRecipe \<Rightarrow> Param list \<Rightarrow> int \<Rightarrow> string" where
  "buildScript L E tool recipe paramValues commitTime =
     doSubstitution (build L E tool recipe) paramValues commitTime (buildRepos recipe)"

definition envVars :: "paramNames \<Rightarrow> BuildRecipe \<Rightarrow> DependencyBuild \<Rightarrow> string" where
  "envVars N recipe db = extractEnvVar (toolEnv N recipe db)"

definition cmdArgs :: "paramNames \<Rightarrow> Param list \<Rightarrow> string" where
  "cmdArgs N paramValues = extractArrayParam (PipelineParamGoals N) paramValues"

definition konfluxScript ::
  "('v, 'd) library \<Rightarrow> embedded \<Rightarrow> paramNames \<Rightarrow> string \<Rightarrow> BuildRecipe \<Rightarrow> DependencyBuild
     \<Rightarrow> Param list \<Rightarrow> int \<Rightarrow> string" where
  \<open>konfluxScript L E N tool recipe db paramValues commitTime =
     ''#!/bin/sh\<newline>'' @ envVars N recipe db @ ''\<newline>set -- "$@" '' @ cmdArgs N paramValues
     @ ''\<newline>\<newline>'' @ buildScript L E tool recipe paramValues commitTime\<close>

text \<open>\<^verbatim>\<open>df\<close>, the diagnostic container file (lines 277 to 300).\<close>

definition startCacheScript :: string where
  \<open>startCacheScript =
     ''#!/bin/sh\<newline>/var/workdir/software/system-java/bin/java -Dbuild-policy.default.store-list=rebuilt,central,jboss,redhat -Dkube.disabled=true -Dquarkus.kubernetes-client.trust-certs=true -jar /var/workdir/software/cache/quarkus-run.jar >/var/workdir/cache.log &''
     @ ''\<newline>while ! cat /var/workdir/cache.log | grep 'Listening on:'; do\<newline>        echo "Waiting for Cache to start"\<newline>        sleep 1\<newline>done \<newline>''\<close>

definition df ::
  "('v, 'd) library \<Rightarrow> embedded \<Rightarrow> paramNames \<Rightarrow> string \<Rightarrow> BuildRecipe \<Rightarrow> DependencyBuild
     \<Rightarrow> Param list \<Rightarrow> int \<Rightarrow> string \<Rightarrow> string" where
  \<open>df L E N tool recipe db paramValues commitTime buildRequestProcessorImage =
     ''FROM '' @ buildRequestProcessorImage @ '' AS build-request-processor''
     @ ''\<newline>FROM ''
     @ ReplaceAll buildRequestProcessorImage ''hacbs-jvm-build-request-processor'' ''hacbs-jvm-cache''
     @ '' AS cache''
     @ ''\<newline>FROM '' @ RecipeImage recipe
     @ ''\<newline>USER 0''
     @ ''\<newline>WORKDIR /var/workdir''
     @ ''\<newline>ENV CACHE_URL=''
     @ doSubstitution (''$(params.'' @ PipelineParamCacheUrl N @ '')'') paramValues commitTime
         (buildRepos recipe)
     @ ''\<newline>RUN mkdir -p /var/workdir/software/settings /original-content/marker''
     @ ''\<newline>COPY --from=build-request-processor /deployments/ /var/workdir/software/build-request-processor''
     @ ''\<newline>COPY --from=build-request-processor /lib/jvm/jre-17 /var/workdir/software/system-java''
     @ ''\<newline>COPY --from=build-request-processor /etc/java/java-17-openjdk /etc/java/java-17-openjdk''
     @ ''\<newline>COPY --from=cache /deployments/ /var/workdir/software/cache''
     @ ''\<newline>RUN ''
     @ doSubstitution (gitScript N db recipe) paramValues commitTime (buildRepos recipe)
     @ ''\<newline>RUN echo '' @ EncodeToString startCacheScript
     @ '' | base64 -d >/var/workdir/start-cache.sh''
     @ ''\<newline>RUN echo ''
     @ EncodeToString (preprocessorScript tool recipe paramValues commitTime)
     @ '' | base64 -d >/var/workdir/preprocessor.sh''
     @ ''\<newline>RUN echo ''
     @ EncodeToString (buildScript L E tool recipe paramValues commitTime)
     @ '' | base64 -d >/var/workdir/build.sh''
     @ ''\<newline>RUN echo ''
     @ EncodeToString (''#!/bin/sh\<newline>/var/workdir/preprocessor.sh\<newline>'' @ envVars N recipe db
                       @ ''\<newline>/var/workdir/build.sh '' @ cmdArgs N paramValues @ ''\<newline>'')
     @ '' | base64 -d >/var/workdir/run-full-build.sh''
     @ ''\<newline>RUN echo '' @ EncodeToString (dockerfileEntryScript E)
     @ '' | base64 -d >/var/workdir/entry-script.sh''
     @ ''\<newline>RUN chmod +x /var/workdir/*.sh''
     @ ''\<newline>CMD [ "/bin/bash", "/var/workdir/entry-script.sh" ]''\<close>

text \<open>\<^verbatim>\<open>kf\<close>, the container file of Konflux (lines 305 to 333).\<close>

definition kf :: "string \<Rightarrow> BuildRecipe \<Rightarrow> int \<Rightarrow> string \<Rightarrow> string" where
  \<open>kf tool recipe commitTime buildRequestProcessorImage =
     ''FROM '' @ RecipeImage recipe
     @ ''\<newline>USER 0''
     @ ''\<newline>WORKDIR /var/workdir''
     @ ''\<newline>RUN mkdir -p /var/workdir/software/settings /original-content/marker''
     @ ''\<newline>ARG CACHE_URL=""''
     @ ''\<newline>ENV CACHE_URL=$CACHE_URL''
     @ ''\<newline>COPY .jbs/run-build.sh /var/workdir''
     @ ''\<newline>COPY . /var/workdir/workspace/source/''
     @ ''\<newline>RUN /var/workdir/run-build.sh''
     @ (if tool = ''ant''
        then ''\<newline>FROM '' @ buildRequestProcessorImage @ '' AS build-request-processor''
             @ ''\<newline>USER 0''
             @ ''\<newline>WORKDIR /var/workdir''
             @ ''\<newline>COPY --from=0 /var/workdir/ /var/workdir/''
             @ ''\<newline>RUN /opt/jboss/container/java/run/run-java.sh ''
             @ doSubstitution (Join copyArtifactsArgs '' '') [] commitTime (buildRepos recipe)
             @ ''\<newline>FROM scratch''
             @ ''\<newline>COPY --from=1 /var/workdir/workspace/artifacts /''
        else ''\<newline>FROM scratch''
             @ ''\<newline>COPY --from=0 /var/workdir/workspace/artifacts /'')\<close>

text \<open>\<^verbatim>\<open>pipelineParams\<close> (lines 342 to 356).\<close>

definition stringParamSpec :: "string \<Rightarrow> ParamSpec" where
  "stringParamSpec name =
     \<lparr>SpecName = name, SpecType = ParamTypeString, SpecDescription = [], SpecDefault = None\<rparr>"

definition stringValue :: "string \<Rightarrow> ParamValue" where
  "stringValue s = \<lparr>ValueType = ParamTypeString, StringVal = s, ArrayVal = []\<rparr>"

definition pipelineParams :: "paramNames \<Rightarrow> string \<Rightarrow> ParamSpec list" where
  "pipelineParams N url =
     [stringParamSpec (PipelineBuildId N),
      stringParamSpec (PipelineParamScmUrl N),
      stringParamSpec (PipelineParamScmTag N),
      stringParamSpec (PipelineParamScmHash N),
      stringParamSpec (PipelineParamChainsGitUrl N),
      stringParamSpec (PipelineParamChainsGitCommit N),
      \<lparr>SpecName = PipelineParamGoals N, SpecType = ParamTypeArray, SpecDescription = [],
       SpecDefault = None\<rparr>,
      stringParamSpec (PipelineParamJavaVersion N),
      stringParamSpec (PipelineParamToolVersion N),
      stringParamSpec (PipelineParamPath N),
      stringParamSpec (PipelineParamEnforceVersion N),
      stringParamSpec (PipelineParamProjectVersion N),
      \<lparr>SpecName = PipelineParamCacheUrl N, SpecType = ParamTypeString, SpecDescription = [],
       SpecDefault = Some (stringValue url)\<rparr>]"

text \<open>
  \<^verbatim>\<open>preBuildImage\<close>, \<^verbatim>\<open>preBuildImageRequired\<close>, \<^verbatim>\<open>runAfter\<close> and
  \<^verbatim>\<open>runAfterBuild\<close> (lines 359 to 368). The index of existing images is a Go map,
  read at the key of the builder image and the tool of the recipe.
\<close>

definition preBuildImageRequired :: "BuildRecipe \<Rightarrow> (string \<rightharpoonup> string) \<Rightarrow> bool" where
  "preBuildImageRequired recipe existingImages =
     (mapIndex existingImages (RecipeImage recipe @ ''-'' @ Tool recipe) = [])"

definition preBuildImage ::
  "resultNames \<Rightarrow> BuildRecipe \<Rightarrow> (string \<rightharpoonup> string) \<Rightarrow> string" where
  "preBuildImage R recipe existingImages =
     (if preBuildImageRequired recipe existingImages
      then ''$(tasks.'' @ PreBuildTaskName @ ''.results.'' @ PipelineResultPreBuildImageDigest R
           @ '')''
      else mapIndex existingImages (RecipeImage recipe @ ''-'' @ Tool recipe))"

definition runAfter :: "BuildRecipe \<Rightarrow> (string \<rightharpoonup> string) \<Rightarrow> string list" where
  "runAfter recipe existingImages =
     (if preBuildImageRequired recipe existingImages then [PreBuildTaskName] else [])"

definition runAfterBuild :: "BuildRecipe \<Rightarrow> (string \<rightharpoonup> string) \<Rightarrow> string list" where
  "runAfterBuild recipe existingImages = runAfter recipe existingImages @ [BuildTaskName]"

text \<open>
  The image of the archive steps,
  \<^verbatim>\<open>strings.TrimSpace(strings.Split(buildTrustedArtifacts, "FROM")[1])\<close>: the index
  panics when the embedded file has no \<^verbatim>\<open>FROM\<close>.
\<close>

definition trustedArtifactsImage :: "embedded \<Rightarrow> string outcome" where
  "trustedArtifactsImage E =
     (case Split (buildTrustedArtifacts E) ''FROM'' of
        _ # x # _ \<Rightarrow> Return (TrimSpace x)
      | _ \<Rightarrow> Panic)"

subsection \<open>The tasks\<close>

definition emptyStep :: "'q Step" where
  "emptyStep =
     \<lparr>StepName = [], StepImage = [], ImagePullPolicy = [], RunAsUser = None, Env = [],
      Requests = Map.empty, Limits = Map.empty, Script = [], Args = [], WorkingDir = [],
      StepTimeout = None\<rparr>"

definition resourceList :: "'q \<Rightarrow> 'q \<Rightarrow> (string \<rightharpoonup> 'q)" where
  "resourceList m c = [''memory'' \<mapsto> m, ''cpu'' \<mapsto> c]"

definition taskWorkspaces :: "WorkspaceDeclaration list" where
  "taskWorkspaces =
     [\<lparr>WorkspaceName = WorkspaceBuildSettings, MountPath = []\<rparr>,
      \<lparr>WorkspaceName = WorkspaceSource, MountPath = WorkspaceMount\<rparr>,
      \<lparr>WorkspaceName = WorkspaceTls, MountPath = []\<rparr>]"

definition taskBindings :: "WorkspacePipelineTaskBinding list" where
  "taskBindings =
     [\<lparr>BindingName = WorkspaceBuildSettings, BindingWorkspace = WorkspaceBuildSettings\<rparr>,
      \<lparr>BindingName = WorkspaceSource, BindingWorkspace = WorkspaceSource\<rparr>,
      \<lparr>BindingName = WorkspaceTls, BindingWorkspace = WorkspaceTls\<rparr>]"

definition stringParam :: "string \<Rightarrow> string \<Rightarrow> Param" where
  "stringParam name v = \<lparr>ParamName = name, Value = stringValue v\<rparr>"

definition taskResultReference :: "string \<Rightarrow> TaskResult \<Rightarrow> PipelineResult" where
  "taskResultReference task i =
     \<lparr>PipelineResultName = ResultName i, PipelineResultDescription = ResultDescription i,
      PipelineResultValue = stringValue (''$(tasks.'' @ task @ ''.results.'' @ ResultName i @ '')'')\<rparr>"

text \<open>
  \<^verbatim>\<open>buildSetup\<close>, the task specification of the pre-build task (lines 375 to 436);
  \<open>img\<close> is the image of the archive steps and \<open>limits\<close> what \<^verbatim>\<open>memoryLimits\<close>
  returned.
\<close>

definition buildSetup ::
  "('v, 'd) library \<Rightarrow> embedded \<Rightarrow> paramNames \<Rightarrow> resultNames \<Rightarrow> secretNames
     \<Rightarrow> ('v, 'd) Quantity memLimits
     \<Rightarrow> string \<Rightarrow> string \<Rightarrow> int \<Rightarrow> JBSConfig \<Rightarrow> BuildRecipe \<Rightarrow> DependencyBuild
     \<Rightarrow> Param list \<Rightarrow> string \<Rightarrow> ('v, 'd) Quantity TaskSpec" where
  "buildSetup L E N R S limits img tool commitTime jbsConfig recipe db paramValues
       buildRequestProcessorImage =
     \<lparr>TaskWorkspaces = taskWorkspaces,
      TaskParams = pipelineParams N (cacheUrl jbsConfig recipe commitTime),
      TaskResults =
        [\<lparr>ResultName = PipelineResultPreBuildImageDigest R, ResultType = ResultsTypeString,
          ResultDescription = []\<rparr>,
         \<lparr>ResultName = PipelineResultGitArchive R, ResultType = ResultsTypeString,
          ResultDescription = []\<rparr>],
      Steps =
        [emptyStep
           \<lparr>StepName := ''git-clone-and-settings'',
            StepImage := RecipeImage recipe,
            RunAsUser := Some 0,
            Requests := resourceList (defaultRequestMemory limits) (defaultRequestCPU limits),
            Limits := resourceList (defaultRequestMemory limits) (defaultLimitCPU limits),
            Script := gitScript N db recipe @ ''\<newline>'' @ createBuildScript (build L E tool recipe),
            Env := [plainEnv (PipelineParamCacheUrl N)
                      (''$(params.'' @ PipelineParamCacheUrl N @ '')''),
                    secretEnv ''GIT_TOKEN'' (GitSecretName S) (GitSecretTokenKey S)]\<rparr>,
         emptyStep
           \<lparr>StepName := ''preprocessor'',
            StepImage := buildRequestProcessorImage,
            ImagePullPolicy := pullPolicy buildRequestProcessorImage,
            RunAsUser := Some 0,
            Env := [plainEnv (PipelineParamCacheUrl N)
                      (''$(params.'' @ PipelineParamCacheUrl N @ '')'')],
            Requests := resourceList (defaultRequestMemory limits) (defaultRequestCPU limits),
            Limits := resourceList (defaultRequestMemory limits) (defaultLimitCPU limits),
            Script := InstallKeystoreIntoBuildRequestProcessor L [preprocessorArgs tool recipe]\<rparr>,
         emptyStep
           \<lparr>StepName := ''create-pre-build-source'',
            StepImage := buildRequestProcessorImage,
            ImagePullPolicy := pullPolicy buildRequestProcessorImage,
            RunAsUser := Some 0,
            Env := secretVariables L S jbsConfig,
            Requests := resourceList (defaultBuildRequestMemory limits) (defaultRequestCPU limits),
            Limits := resourceList (defaultBuildRequestMemory limits) (defaultLimitCPU limits),
            Script := createKonfluxScripts
                        (kf tool recipe commitTime buildRequestProcessorImage)
                        (konfluxScript L E N tool recipe db paramValues commitTime)
                      @ ''\<newline>''
                      @ InstallKeystoreIntoBuildRequestProcessor L
                          [konfluxArgs L (Name db) db jbsConfig]\<rparr>,
         emptyStep
           \<lparr>StepName := ''create-pre-build-image'',
            StepImage := img,
            ImagePullPolicy := PullIfNotPresent,
            RunAsUser := Some 0,
            Env := secretVariables L S jbsConfig,
            Requests := resourceList (defaultBuildRequestMemory limits) (defaultRequestCPU limits),
            Limits := resourceList (defaultBuildRequestMemory limits) (defaultLimitCPU limits),
            Script := preBuildImageArgs L R (Name db) jbsConfig\<rparr>]\<rparr>"

text \<open>The pre-build task (lines 437 to 447).\<close>

definition preBuildTask ::
  "('v, 'd) library \<Rightarrow> embedded \<Rightarrow> paramNames \<Rightarrow> resultNames \<Rightarrow> secretNames
     \<Rightarrow> ('v, 'd) Quantity memLimits
     \<Rightarrow> string \<Rightarrow> string \<Rightarrow> int \<Rightarrow> JBSConfig \<Rightarrow> BuildRecipe \<Rightarrow> DependencyBuild
     \<Rightarrow> Param list \<Rightarrow> string \<Rightarrow> ('v, 'd) Quantity PipelineTask" where
  "preBuildTask L E N R S limits img tool commitTime jbsConfig recipe db paramValues
       buildRequestProcessorImage =
     \<lparr>TaskName = PreBuildTaskName, RunAfter = [], TaskRef = None,
      EmbeddedTask = Some (buildSetup L E N R S limits img tool commitTime jbsConfig recipe db
                             paramValues buildRequestProcessorImage),
      Timeout = None, Params = [], Bindings = taskBindings\<rparr>"

text \<open>
  The build task of a container build (lines 457 to 523): a reference to the remote
  task definition, with five parameters and no workspaces.
\<close>

definition containerBuildTask ::
  "('v, 'd) library \<Rightarrow> resultNames \<Rightarrow> JBSConfig \<Rightarrow> BuildRecipe \<Rightarrow> string
     \<Rightarrow> (string \<rightharpoonup> string) \<Rightarrow> ('v, 'd) Quantity PipelineTask" where
  "containerBuildTask L R jbsConfig recipe buildId existingImages =
     \<lparr>TaskName = BuildTaskName,
      RunAfter = runAfter recipe existingImages,
      TaskRef = Some \<lparr>Resolver = ''http'',
                       ResolverParams = [stringParam ''url'' (KonfluxBuildDefinitions L)]\<rparr>,
      EmbeddedTask = None,
      Timeout = Some (Hour * DefaultTimeout L),
      Params =
        [stringParam ''DOCKERFILE'' ''.jbs/Containerfile'',
         stringParam ''IMAGE'' (registryArgsWithDefaults L jbsConfig buildId),
         stringParam ''SOURCE_ARTIFACT'' (preBuildImage R recipe existingImages),
         stringParam ''ORAS_OPTIONS'' (orasOptions L jbsConfig),
         stringParam ''TLSVERIFY'' (tlsVerify L jbsConfig)],
      Bindings = []\<rparr>"

text \<open>\<^verbatim>\<open>buildTask\<close>, the task specification of a direct build (lines 531 to 594).\<close>

definition buildTask ::
  "('v, 'd) library \<Rightarrow> paramNames \<Rightarrow> resultNames \<Rightarrow> secretNames
     \<Rightarrow> ('v, 'd) Quantity memLimits \<Rightarrow> string
     \<Rightarrow> int \<Rightarrow> JBSConfig \<Rightarrow> BuildRecipe \<Rightarrow> DependencyBuild \<Rightarrow> string \<Rightarrow> string
     \<Rightarrow> ('v, 'd) Quantity TaskSpec" where
  \<open>buildTask L N R S limits img commitTime jbsConfig recipe db buildRequestProcessorImage
       buildId =
     \<lparr>TaskWorkspaces = taskWorkspaces,
      TaskParams = pipelineParams N (cacheUrl jbsConfig recipe commitTime)
                   @ [stringParamSpec (PipelineResultPreBuildImageDigest R)],
      TaskResults =
        [\<lparr>ResultName = PipelineResultImage R, ResultType = [], ResultDescription = []\<rparr>,
         \<lparr>ResultName = PipelineResultImageDigest R, ResultType = [], ResultDescription = []\<rparr>],
      Steps =
        [emptyStep
           \<lparr>StepName := ''restore-pre-build-source'',
            StepImage := img,
            ImagePullPolicy := PullIfNotPresent,
            RunAsUser := Some 0,
            Env := secretVariables L S jbsConfig,
            Script := ''echo "Restoring source to workspace : $(workspaces.source.path)"\<newline>''
                      @ ''export ORAS_OPTIONS="'' @ orasOptions L jbsConfig @ ''"\<newline>''
                      @ ''use-archive $(params.'' @ PipelineResultPreBuildImageDigest R
                      @ '')=$(workspaces.source.path)/source\<newline>''
                      @ ''mv $(workspaces.source.path)/source/.jbs/build.sh $(workspaces.source.path)''\<rparr>,
         emptyStep
           \<lparr>StepTimeout := Some (Hour * DefaultTimeout L),
            StepName := ''build'',
            StepImage := RecipeImage recipe,
            ImagePullPolicy := pullPolicy buildRequestProcessorImage,
            WorkingDir := ''$(workspaces.'' @ WorkspaceSource @ ''.path)/source'',
            RunAsUser := Some 0,
            Env := toolEnv N recipe db
                   @ [plainEnv (PipelineParamCacheUrl N)
                        (''$(params.'' @ PipelineParamCacheUrl N @ '')'')],
            Requests := resourceList (buildRequestMemory limits) (buildRequestCPU limits),
            Limits := resourceList (buildRequestMemory limits) (buildLimitCPU limits),
            Args := [''$(params.GOALS[*])''],
            Script := ''$(workspaces.'' @ WorkspaceSource @ ''.path)/build.sh "$@"''\<rparr>,
         emptyStep
           \<lparr>StepName := ''deploy-ant-artifacts'',
            StepImage := buildRequestProcessorImage,
            ImagePullPolicy := pullPolicy buildRequestProcessorImage,
            RunAsUser := Some 0,
            Env := secretVariables L S jbsConfig,
            Requests := resourceList (defaultBuildRequestMemory limits) (defaultRequestCPU limits),
            Limits := resourceList (defaultBuildRequestMemory limits) (defaultLimitCPU limits),
            Script := InstallKeystoreIntoBuildRequestProcessor L [copyArtifactsArgs]\<rparr>,
         emptyStep
           \<lparr>StepName := ''store-post-build-artifacts'',
            StepImage := img,
            ImagePullPolicy := PullIfNotPresent,
            RunAsUser := Some 0,
            Env := secretVariables L S jbsConfig,
            Script := ''echo "Creating post-build-image archive"\<newline>''
                      @ ''export ORAS_OPTIONS="'' @ orasOptions L jbsConfig
                      @ '' --image-spec=v1.0 --artifact-type application/vnd.oci.image.config.v1+json --no-tty --format=json"\<newline>''
                      @ ''IMGURL='' @ registryArgsWithDefaults L jbsConfig (buildId @ ''-artifacts'')
                      @ ''\<newline>''
                      @ ''create-archive --store $IMGURL /tmp/artifacts=$(workspaces.source.path)/artifacts | tee /tmp/oras-create.json\<newline>''
                      @ ''IMGDIGEST=$(cat /tmp/oras-create.json | grep -Ev '(Prepared artifact|Artifacts created)' | jq -r '.digest')\<newline>''
                      @ ''echo "Storing IMGURL $IMGURL and IMGDIGEST $IMGDIGEST"\<newline>''
                      @ ''echo -n "$IMGURL" >> $(results.'' @ PipelineResultImage R @ ''.path)\<newline>''
                      @ ''echo -n "$IMGDIGEST" >> $(results.'' @ PipelineResultImageDigest R
                      @ ''.path)\<newline>''\<rparr>]\<rparr>\<close>

text \<open>The build task of a direct build (lines 596 to 614).\<close>

definition directBuildTask ::
  "('v, 'd) library \<Rightarrow> paramNames \<Rightarrow> resultNames \<Rightarrow> secretNames
     \<Rightarrow> ('v, 'd) Quantity memLimits \<Rightarrow> string
     \<Rightarrow> int \<Rightarrow> JBSConfig \<Rightarrow> BuildRecipe \<Rightarrow> DependencyBuild \<Rightarrow> string \<Rightarrow> string
     \<Rightarrow> (string \<rightharpoonup> string) \<Rightarrow> ('v, 'd) Quantity PipelineTask" where
  "directBuildTask L N R S limits img commitTime jbsConfig recipe db buildRequestProcessorImage
       buildId existingImages =
     \<lparr>TaskName = BuildTaskName,
      RunAfter = runAfter recipe existingImages,
      TaskRef = None,
      EmbeddedTask = Some (buildTask L N R S limits img commitTime jbsConfig recipe db
                             buildRequestProcessorImage buildId),
      Timeout = Some (Hour * DefaultTimeout L),
      Params = [stringParam (PipelineResultPreBuildImageDigest R)
                  (preBuildImage R recipe existingImages)],
      Bindings = taskBindings\<rparr>"

text \<open>\<^verbatim>\<open>postBuildTask\<close>, the task specification after the build (lines 622 to 661).\<close>

definition postBuildTask ::
  "('v, 'd) library \<Rightarrow> paramNames \<Rightarrow> resultNames \<Rightarrow> secretNames
     \<Rightarrow> ('v, 'd) Quantity memLimits \<Rightarrow> string
     \<Rightarrow> int \<Rightarrow> JBSConfig \<Rightarrow> BuildRecipe \<Rightarrow> DependencyBuild \<Rightarrow> string \<Rightarrow> string
     \<Rightarrow> ('v, 'd) Quantity TaskSpec" where
  \<open>postBuildTask L N R S limits img commitTime jbsConfig recipe db buildRequestProcessorImage
       buildId =
     \<lparr>TaskWorkspaces = taskWorkspaces,
      TaskParams = pipelineParams N (cacheUrl jbsConfig recipe commitTime)
                   @ [stringParamSpec (PipelineResultPreBuildImageDigest R)],
      TaskResults =
        [\<lparr>ResultName = PipelineResultContaminants R, ResultType = [], ResultDescription = []\<rparr>,
         \<lparr>ResultName = PipelineResultDeployedResources R, ResultType = [],
          ResultDescription = []\<rparr>,
         \<lparr>ResultName = PipelineResultPassedVerification R, ResultType = [],
          ResultDescription = []\<rparr>,
         \<lparr>ResultName = PipelineResultVerificationResult R, ResultType = [],
          ResultDescription = []\<rparr>],
      Steps =
        [emptyStep
           \<lparr>StepName := ''restore-post-build-artifacts'',
            StepImage := img,
            ImagePullPolicy := PullIfNotPresent,
            RunAsUser := Some 0,
            Env := secretVariables L S jbsConfig,
            Script := ''echo "Restoring artifacts to workspace : $(workspaces.source.path)"\<newline>''
                      @ ''export ORAS_OPTIONS="'' @ orasOptions L jbsConfig @ ''"\<newline>''
                      @ ''URL='' @ registryArgsWithDefaults L jbsConfig [] @ ''\<newline>''
                      @ ''DIGEST=$(tasks.'' @ BuildTaskName @ ''.results.IMAGE_DIGEST)\<newline>''
                      @ ''AARCHIVE=$(oras manifest fetch $ORAS_OPTIONS $URL@$DIGEST | jq --raw-output '.layers[0].digest')\<newline>''
                      @ ''echo "URL $URL DIGEST $DIGEST AARCHIVE $AARCHIVE"\<newline>''
                      @ ''use-archive oci:$URL@$AARCHIVE=$(workspaces.source.path)/artifacts''\<rparr>,
         emptyStep
           \<lparr>StepName := ''verify-and-check-for-contaminates'',
            StepImage := buildRequestProcessorImage,
            ImagePullPolicy := pullPolicy buildRequestProcessorImage,
            RunAsUser := Some 0,
            Env := secretVariables L S jbsConfig,
            Requests := resourceList (defaultBuildRequestMemory limits) (defaultRequestCPU limits),
            Limits := resourceList (defaultBuildRequestMemory limits) (defaultLimitCPU limits),
            Script := InstallKeystoreIntoBuildRequestProcessor L
                        [verifyParameters R jbsConfig recipe, deployArgs db buildId]\<rparr>]\<rparr>\<close>

text \<open>The post-build task (lines 662 to 675).\<close>

definition postBuildPipelineTask ::
  "('v, 'd) library \<Rightarrow> paramNames \<Rightarrow> resultNames \<Rightarrow> secretNames
     \<Rightarrow> ('v, 'd) Quantity memLimits \<Rightarrow> string
     \<Rightarrow> int \<Rightarrow> JBSConfig \<Rightarrow> BuildRecipe \<Rightarrow> DependencyBuild \<Rightarrow> string \<Rightarrow> string
     \<Rightarrow> (string \<rightharpoonup> string) \<Rightarrow> ('v, 'd) Quantity PipelineTask" where
  "postBuildPipelineTask L N R S limits img commitTime jbsConfig recipe db
       buildRequestProcessorImage buildId existingImages =
     \<lparr>TaskName = PostBuildTaskName,
      RunAfter = runAfterBuild recipe existingImages,
      TaskRef = None,
      EmbeddedTask = Some (postBuildTask L N R S limits img commitTime jbsConfig recipe db
                             buildRequestProcessorImage buildId),
      Timeout = Some (Hour * DefaultTimeout L),
      Params = [stringParam (PipelineResultPreBuildImageDigest R)
                  (preBuildImage R recipe existingImages)],
      Bindings = taskBindings\<rparr>"

subsection \<open>The task graph and the four results\<close>

text \<open>
  The graph before the parameters are passed on (lines 370 to 680): every task is put
  in front of the tasks already there, so the list reads post-build, build and, when
  it is required, pre-build; the results are appended.
\<close>

definition tasksAndResults ::
  "('v, 'd) library \<Rightarrow> embedded \<Rightarrow> paramNames \<Rightarrow> resultNames \<Rightarrow> secretNames
     \<Rightarrow> ('v, 'd) Quantity memLimits
     \<Rightarrow> string \<Rightarrow> string \<Rightarrow> int \<Rightarrow> JBSConfig \<Rightarrow> BuildRecipe \<Rightarrow> DependencyBuild
     \<Rightarrow> Param list \<Rightarrow> string \<Rightarrow> string \<Rightarrow> (string \<rightharpoonup> string)
     \<Rightarrow> ('v, 'd) Quantity PipelineSpec" where
  "tasksAndResults L E N R S limits img tool commitTime jbsConfig recipe db paramValues
       buildRequestProcessorImage buildId existingImages =
     (let ps = \<lparr>PipelineParams = [], Tasks = [],
                PipelineWorkspaces = [WorkspaceBuildSettings, WorkspaceSource, WorkspaceTls],
                Results = []\<rparr>;
          ps = (if preBuildImageRequired recipe existingImages
                then ps\<lparr>Tasks := [preBuildTask L E N R S limits img tool commitTime jbsConfig
                                      recipe db paramValues buildRequestProcessorImage]
                                   @ Tasks ps,
                        Results := Results ps
                          @ map (taskResultReference PreBuildTaskName)
                              (TaskResults (buildSetup L E N R S limits img tool commitTime
                                 jbsConfig recipe db paramValues buildRequestProcessorImage))\<rparr>
                else ps);
          ps = (if ContainerBuilds jbsConfig
                then ps\<lparr>Tasks := [containerBuildTask L R jbsConfig recipe buildId existingImages]
                                   @ Tasks ps,
                        Results := Results ps
                          @ [\<lparr>PipelineResultName = PipelineResultImage R,
                              PipelineResultDescription = [],
                              PipelineResultValue =
                                stringValue (''$(tasks.'' @ BuildTaskName @ ''.results.''
                                             @ PipelineResultImage R @ '')'')\<rparr>,
                             \<lparr>PipelineResultName = PipelineResultImageDigest R,
                              PipelineResultDescription = [],
                              PipelineResultValue =
                                stringValue (''$(tasks.'' @ BuildTaskName @ ''.results.''
                                             @ PipelineResultImageDigest R @ '')'')\<rparr>]\<rparr>
                else ps\<lparr>Tasks := [directBuildTask L N R S limits img commitTime jbsConfig recipe
                                      db buildRequestProcessorImage buildId existingImages]
                                   @ Tasks ps,
                        Results := Results ps
                          @ map (taskResultReference BuildTaskName)
                              (TaskResults (buildTask L N R S limits img commitTime jbsConfig
                                 recipe db buildRequestProcessorImage buildId))\<rparr>)
      in ps\<lparr>Tasks := [postBuildPipelineTask L N R S limits img commitTime jbsConfig recipe db
                          buildRequestProcessorImage buildId existingImages]
                       @ Tasks ps,
            Results := Results ps
              @ map (taskResultReference PostBuildTaskName)
                  (TaskResults (postBuildTask L N R S limits img commitTime jbsConfig recipe db
                     buildRequestProcessorImage buildId))\<rparr>)"

text \<open>
  The loop over the pipeline parameters (lines 682 to 704). \<open>appendTaskParam\<close> is
  \<^verbatim>\<open>ps.Tasks[n].Params = append(ps.Tasks[n].Params, p)\<close>; the loop uses it at the
  indexes 0 and 1, and at 2 when the pre-build task is there, which the list of two or
  three tasks has (lemma \<open>length_tasksAndResults\<close> below).
\<close>

definition appendTaskParam :: "nat \<Rightarrow> Param \<Rightarrow> 'q PipelineTask list \<Rightarrow> 'q PipelineTask list" where
  "appendTaskParam n p ts = ts[n := (ts ! n)\<lparr>Params := Params (ts ! n) @ [p]\<rparr>]"

definition paramReference :: "ParamSpec \<Rightarrow> ParamValue" where
  "paramReference i =
     (if SpecType i = ParamTypeString
      then \<lparr>ValueType = SpecType i, StringVal = ''$(params.'' @ SpecName i @ '')'', ArrayVal = []\<rparr>
      else \<lparr>ValueType = SpecType i, StringVal = [],
            ArrayVal = [''$(params.'' @ SpecName i @ ''[*])'']\<rparr>)"

fun passParams :: "bool \<Rightarrow> ParamSpec list \<Rightarrow> 'q PipelineSpec \<Rightarrow> 'q PipelineSpec" where
  "passParams required [] ps = ps"
| "passParams required (i # rest) ps =
     (let ps = ps\<lparr>PipelineParams := PipelineParams ps
                   @ [\<lparr>SpecName = SpecName i, SpecType = SpecType i,
                       SpecDescription = SpecDescription i, SpecDefault = SpecDefault i\<rparr>]\<rparr>;
          p = \<lparr>ParamName = SpecName i, Value = paramReference i\<rparr>;
          ps = ps\<lparr>Tasks := appendTaskParam 0 p (Tasks ps)\<rparr>;
          index = 0;
          (index, ps) = (if required
                         then (index + 1, ps\<lparr>Tasks := appendTaskParam (index + 1) p (Tasks ps)\<rparr>)
                         else (index, ps));
          index = index + 1;
          ps = ps\<lparr>Tasks := appendTaskParam index p (Tasks ps)\<rparr>
      in passParams required rest ps)"

text \<open>The task graph that \<^verbatim>\<open>createPipelineSpec\<close> returns as \<^verbatim>\<open>ps\<close>.\<close>

definition pipelineSpec ::
  "('v, 'd) library \<Rightarrow> embedded \<Rightarrow> paramNames \<Rightarrow> resultNames \<Rightarrow> secretNames
     \<Rightarrow> ('v, 'd) Quantity memLimits
     \<Rightarrow> string \<Rightarrow> string \<Rightarrow> int \<Rightarrow> JBSConfig \<Rightarrow> BuildRecipe \<Rightarrow> DependencyBuild
     \<Rightarrow> Param list \<Rightarrow> string \<Rightarrow> string \<Rightarrow> (string \<rightharpoonup> string)
     \<Rightarrow> ('v, 'd) Quantity PipelineSpec" where
  "pipelineSpec L E N R S limits img tool commitTime jbsConfig recipe db paramValues
       buildRequestProcessorImage buildId existingImages =
     passParams (preBuildImageRequired recipe existingImages)
       (pipelineParams N (cacheUrl jbsConfig recipe commitTime))
       (tasksAndResults L E N R S limits img tool commitTime jbsConfig recipe db paramValues
          buildRequestProcessorImage buildId existingImages)"

text \<open>
  \<^verbatim>\<open>createPipelineSpec\<close> returns the task graph, the diagnostic container file, the
  container file of Konflux, the script of Konflux and the error. When
  \<^verbatim>\<open>memoryLimits\<close> returns an error the function returns it with a nil graph and
  three empty texts (lines 336 to 339). The arguments are those of the source without
  the logger, behind the five records of what other files define.
\<close>

definition createPipelineSpec ::
  "('v, 'd) library \<Rightarrow> embedded \<Rightarrow> paramNames \<Rightarrow> resultNames \<Rightarrow> secretNames
     \<Rightarrow> string \<Rightarrow> int \<Rightarrow> JBSConfig \<Rightarrow> SystemConfig \<Rightarrow> BuildRecipe \<Rightarrow> DependencyBuild
     \<Rightarrow> Param list \<Rightarrow> string \<Rightarrow> string \<Rightarrow> (string \<rightharpoonup> string)
     \<Rightarrow> (('v, 'd) Quantity PipelineSpec option \<times> string \<times> string \<times> string \<times> error option) outcome" where
  "createPipelineSpec L E N R S tool commitTime jbsConfig systemConfig recipe db paramValues
       buildRequestProcessorImage buildId existingImages =
     (case memoryLimits L jbsConfig (additionalMemory recipe systemConfig) of
        Panic \<Rightarrow> Panic
      | Return (Inl err) \<Rightarrow> Return (None, [], [], [], Some err)
      | Return (Inr limits) \<Rightarrow>
          (case trustedArtifactsImage E of
             Panic \<Rightarrow> Panic
           | Return img \<Rightarrow>
               Return
                 (Some (pipelineSpec L E N R S limits img tool commitTime jbsConfig recipe db
                          paramValues buildRequestProcessorImage buildId existingImages),
                  df L E N tool recipe db paramValues commitTime buildRequestProcessorImage,
                  kf tool recipe commitTime buildRequestProcessorImage,
                  konfluxScript L E N tool recipe db paramValues commitTime,
                  None)))"

subsection \<open>Sample inputs\<close>

text \<open>
  Concrete values for the parameters of the model, at which the theorems below are
  instantiated. The sample amounts are integers in thousandths. A sample quantity is a
  number with an optional fraction and no suffix, \<^verbatim>\<open>m\<close> (thousandths),
  \<^verbatim>\<open>Mi\<close> or \<^verbatim>\<open>Gi\<close>, a fragment of what Kubernetes accepts; anything else is an
  error. As in Kubernetes a number with a fraction and a binary suffix, such as
  \<^verbatim>\<open>1.5Gi\<close>, is held behind a pointer and the others by value; a sum is held behind
  a pointer when one of its terms is.
\<close>

definition isDigit :: "char \<Rightarrow> bool" where
  "isDigit c = (c \<in> set ''0123456789'')"

definition digitValue :: "char \<Rightarrow> int" where
  "digitValue c = int (of_char c) - 48"

definition sampleUnit :: "string \<Rightarrow> int option" where
  "sampleUnit suf =
     (if suf = [] then Some 1000
      else if suf = ''m'' then Some 1
      else if suf = ''Mi'' then Some (1000 * 1048576)
      else if suf = ''Gi'' then Some (1000 * 1073741824)
      else None)"

definition sampleParseQuantity :: "string \<Rightarrow> error + (int, int) Quantity" where
  "sampleParseQuantity str =
     (let num = takeWhile isDigit str; r = dropWhile isDigit str;
          point = (r \<noteq> [] \<and> hd r = CHR ''.'');
          frac = (if point then takeWhile isDigit (tl r) else []);
          suf = (if point then dropWhile isDigit (tl r) else r);
          n = foldl (\<lambda>n c. 10 * n + digitValue c) 0 (num @ frac)
      in if num = [] then Inl (Error ''quantities must match the regular expression'')
         else (case sampleUnit suf of
                 None \<Rightarrow> Inl (Error ''unable to parse quantity's suffix'')
               | Some u \<Rightarrow>
                   if frac \<noteq> [] \<and> (suf = ''Mi'' \<or> suf = ''Gi'')
                   then Inr \<lparr>Held = 0, Dec = Some (u * n div 10 ^ length frac)\<rparr>
                   else Inr \<lparr>Held = u * n div 10 ^ length frac, Dec = None\<rparr>))"

definition sampleAmount :: "(int, int) Quantity \<Rightarrow> int" where
  "sampleAmount q = (case Dec q of None \<Rightarrow> Held q | Some n \<Rightarrow> n)"

definition sampleQuantityAdd ::
  "(int, int) Quantity \<Rightarrow> (int, int) Quantity \<Rightarrow> (int, int) Quantity" where
  "sampleQuantityAdd q y =
     (if Dec q = None \<and> Dec y = None then \<lparr>Held = Held q + Held y, Dec = None\<rparr>
      else \<lparr>Held = 0, Dec = Some (sampleAmount q + sampleAmount y)\<rparr>)"

definition sampleRegistry :: ImageRegistry where
  "sampleRegistry =
     \<lparr>Host = [], Port = [], Owner = ''acme'', Repository = [], PrependTag = ''jbs'',
      SecretName = []\<rparr>"

definition sampleLibrary :: "(int, int) library" where
  "sampleLibrary =
     \<lparr>ImageRegistryOf = (\<lambda>c. sampleRegistry),
      InstallKeystoreScript = ''# keystore'',
      InstallKeystoreIntoBuildRequestProcessor =
        (\<lambda>args. concat (map (\<lambda>a. ''java -jar processor.jar '' @ Join a '' '' @ ''\<newline>'') args)),
      TestRegistry = ''jvmbuildservice.io/test-registry'',
      DependencyScmAnnotation = ''jvmbuildservice.io/dependency-scm'',
      KonfluxBuildDefinitions = ''https://example.org/buildah-oci-ta.yaml'',
      DefaultTimeout = 3,
      ParseQuantity = sampleParseQuantity,
      QuantityAdd = sampleQuantityAdd\<rparr>"

definition sampleFiles :: embedded where
  \<open>sampleFiles =
     \<lparr>mavenBuild = ''mvn "$@"'',
      mavenSettings = ''# settings'',
      gradleBuild = ''gradle "$@"'',
      sbtBuild = ''sbt "$@"'',
      antBuild = ''ant "$@"'',
      packageTemplate = ''get {URI} {FILENAME} {SHA256} {TYPE} {BINARY_PATH} {PACKAGE_NAME};'',
      dockerfileEntryScript = ''bash'',
      buildEntryScript =
        ''{{INSTALL_PACKAGE_SCRIPT}}\<newline>{{PRE_BUILD_SCRIPT}}\<newline>{{BUILD}}\<newline>{{POST_BUILD_SCRIPT}}'',
      buildTrustedArtifacts = ''FROM quay.io/konflux-ci/build-trusted-artifacts:latest\<newline>''\<rparr>\<close>

definition sampleParamNames :: paramNames where
  "sampleParamNames =
     \<lparr>PipelineBuildId = ''DEPENDENCY_BUILD'',
      PipelineParamScmUrl = ''URL'',
      PipelineParamScmTag = ''TAG'',
      PipelineParamScmHash = ''HASH'',
      PipelineParamChainsGitUrl = ''CHAINS-GIT_URL'',
      PipelineParamChainsGitCommit = ''CHAINS-GIT_COMMIT'',
      PipelineParamGoals = ''GOALS'',
      PipelineParamJavaVersion = ''JAVA_VERSION'',
      PipelineParamToolVersion = ''TOOL_VERSION'',
      PipelineParamPath = ''CONTEXT_DIR'',
      PipelineParamEnforceVersion = ''ENFORCE_VERSION'',
      PipelineParamProjectVersion = ''PROJECT_VERSION'',
      PipelineParamCacheUrl = ''CACHE_URL'',
      JavaHome = ''JAVA_HOME''\<rparr>"

definition sampleResultNames :: resultNames where
  "sampleResultNames =
     \<lparr>PipelineResultImage = ''IMAGE_URL'',
      PipelineResultImageDigest = ''IMAGE_DIGEST'',
      PipelineResultPreBuildImageDigest = ''PRE_BUILD_IMAGE_DIGEST'',
      PipelineResultGitArchive = ''GIT_ARCHIVE'',
      PipelineResultContaminants = ''CONTAMINANTS'',
      PipelineResultDeployedResources = ''DEPLOYED_RESOURCES'',
      PipelineResultPassedVerification = ''PASSED_VERIFICATION'',
      PipelineResultVerificationResult = ''VERIFICATION_RESULTS''\<rparr>"

definition sampleSecretNames :: secretNames where
  "sampleSecretNames =
     \<lparr>GitSecretName = ''jvm-build-git-secrets'',
      GitSecretTokenKey = ''.git-credentials'',
      ImageSecretTokenKey = ''.dockerconfigjson'',
      MavenSecretName = ''jvm-build-maven-repo-secrets'',
      MavenSecretKey = ''mavenpassword'',
      AWSSecretName = ''jvm-build-maven-repo-aws-secrets'',
      AWSAccessID = ''awsaccesskey'',
      AWSSecretKey = ''awssecretkey'',
      AWSProfile = ''awsprofile'',
      GitRepoSecretName = ''jvm-build-git-repo-secrets'',
      GitRepoSecretKey = ''gitdeploytoken''\<rparr>"

definition sampleSettings :: BuildSettings where
  "sampleSettings =
     \<lparr>TaskRequestMemory = [], BuildRequestMemory = ''2048Mi'', TaskRequestCPU = [],
      TaskLimitCPU = [], BuildRequestCPU = [], BuildLimitCPU = []\<rparr>"

definition sampleConfig :: JBSConfig where
  "sampleConfig =
     \<lparr>Namespace = ''tenant'', Annotations = Map.empty, DisableTLS = False,
      ContainerBuilds = False, MavenDeployment_Repository = [],
      MavenDeployment_Username = [], GitSourceArchive_Identity = [],
      GitSourceArchive_URL = [], GitSourceArchive_DisableSSLVerification = False,
      RequireArtifactVerification = False, Settings = sampleSettings\<rparr>"

definition sampleRecipe :: BuildRecipe where
  \<open>sampleRecipe =
     \<lparr>RecipeImage = ''quay.io/builder:1'', Tool = ''maven'', ToolVersion = ''3.9.5'',
      JavaVersion = ''17'', ToolVersions = Map.empty, EnforceVersion = [],
      DisabledPlugins = [], Repositories = [''central''],
      PreBuildScript = ''ls $(workspaces.source.path)'', PostBuildScript = ''true'',
      AdditionalDownloads = [], AllowedDifferences = [], AdditionalMemory = 4096,
      DisableSubmodules = True\<rparr>\<close>

definition sampleBuild :: DependencyBuild where
  "sampleBuild =
     \<lparr>Name = ''b1f2'', DbAnnotations = Map.empty, Version = ''1.0'',
      SCMURL = ''https://example.org/lib.git'', CommitHash = ''abc123'', Private = False\<rparr>"

definition sampleSystem :: SystemConfig where
  "sampleSystem = \<lparr>MaxAdditionalMemory = 1024\<rparr>"

text \<open>
  The limits of the sample configuration for the sample recipe and system: the
  additional memory is 1024 mebibytes.
\<close>

definition sampleLimits :: "(int, int) Quantity memLimits" where
  "sampleLimits =
     \<lparr>defaultRequestMemory = \<lparr>Held = 1610612736000, Dec = None\<rparr>,
      defaultBuildRequestMemory = \<lparr>Held = 2147483648000, Dec = None\<rparr>,
      defaultRequestCPU = \<lparr>Held = 10, Dec = None\<rparr>,
      defaultLimitCPU = \<lparr>Held = 300, Dec = None\<rparr>,
      buildRequestCPU = \<lparr>Held = 300, Dec = None\<rparr>,
      buildLimitCPU = \<lparr>Held = 2000, Dec = None\<rparr>,
      buildRequestMemory = \<lparr>Held = 3221225472000, Dec = None\<rparr>\<rparr>"

text \<open>
  The sample configuration with a build request memory that Kubernetes holds behind a
  pointer, and its limits for the sample recipe and system.
\<close>

definition sampleFraction :: JBSConfig where
  "sampleFraction = sampleConfig\<lparr>Settings := sampleSettings\<lparr>BuildRequestMemory := ''1.5Gi''\<rparr>\<rparr>"

definition sampleFractionLimits :: "(int, int) Quantity memLimits" where
  "sampleFractionLimits =
     \<lparr>defaultRequestMemory = \<lparr>Held = 1610612736000, Dec = None\<rparr>,
      defaultBuildRequestMemory = \<lparr>Held = 0, Dec = Some 2684354560000\<rparr>,
      defaultRequestCPU = \<lparr>Held = 10, Dec = None\<rparr>,
      defaultLimitCPU = \<lparr>Held = 300, Dec = None\<rparr>,
      buildRequestCPU = \<lparr>Held = 300, Dec = None\<rparr>,
      buildLimitCPU = \<lparr>Held = 2000, Dec = None\<rparr>,
      buildRequestMemory = \<lparr>Held = 0, Dec = Some 2684354560000\<rparr>\<rparr>"

subsection \<open>Vocabulary of the statements\<close>

text \<open>
  A package has a known file type when one of the first three branches of the loop of
  \<^verbatim>\<open>additionalPackages\<close> takes it, and a missing field when that branch assigns its
  failing line; \<open>failingLine\<close> is the line assigned, and \<open>fragments\<close> the templates of
  a list of packages that starts at position \<open>count\<close>, one after the other.
\<close>

definition knownFileType :: "AdditionalDownload \<Rightarrow> bool" where
  "knownFileType i =
     (FileType i = ''tar'' \<or> FileType i = ''executable'' \<or> FileType i = ''rpm'')"

definition missingField :: "AdditionalDownload \<Rightarrow> bool" where
  "missingField i =
     (FileType i = ''tar'' \<and> BinaryPath i = []
      \<or> FileType i = ''executable'' \<and> FileName i = []
      \<or> FileType i = ''rpm'' \<and> PackageName i = [])"

definition failingLine :: "AdditionalDownload \<Rightarrow> string" where
  "failingLine i =
     (if FileType i = ''tar''
      then ''echo 'Binary path not specified for package '' @ Uri i @ '''; exit 1''
      else if FileType i = ''executable''
      then ''echo 'File name not specified for package '' @ Uri i @ '''; exit 1''
      else if FileType i = ''rpm''
      then ''echo 'Package name not specified for rpm type'; exit 1''
      else ''echo 'Unknown file type '' @ FileType i @ '' for package '' @ Uri i @ '''; exit 1'')"

fun fragments :: "embedded \<Rightarrow> nat \<Rightarrow> AdditionalDownload list \<Rightarrow> string" where
  "fragments E count [] = []"
| "fragments E count (i # rest) = installTemplate E count i @ fragments E (count + 1) rest"

text \<open>Three sample packages: a complete one, one without its binary path, a complete one.\<close>

definition samplePackages :: "AdditionalDownload list" where
  "samplePackages =
     [\<lparr>Uri = ''u1'', Sha256 = ''s1'', FileName = [], BinaryPath = [], PackageName = ''git'',
       FileType = ''rpm''\<rparr>,
      \<lparr>Uri = ''u2'', Sha256 = ''s2'', FileName = [], BinaryPath = [], PackageName = [],
       FileType = ''tar''\<rparr>,
      \<lparr>Uri = ''u3'', Sha256 = ''s3'', FileName = ''f3'', BinaryPath = [], PackageName = [],
       FileType = ''executable''\<rparr>]"

text \<open>
  Reading a task graph: the first task with a name, the value of the first parameter
  of a task with a name, and the parameter that the loop of lines 682 to 704 appends to
  a task for a pipeline parameter.
\<close>

definition taskNamed :: "string \<Rightarrow> 'q PipelineSpec \<Rightarrow> 'q PipelineTask option" where
  "taskNamed name ps = find (\<lambda>t. TaskName t = name) (Tasks ps)"

definition paramNamed :: "string \<Rightarrow> 'q PipelineTask \<Rightarrow> ParamValue option" where
  "paramNamed name t = map_option Value (find (\<lambda>p. ParamName p = name) (Params t))"

definition passedParam :: "ParamSpec \<Rightarrow> Param" where
  "passedParam i = \<lparr>ParamName = SpecName i, Value = paramReference i\<rparr>"

definition withPassedParams :: "ParamSpec list \<Rightarrow> 'q PipelineTask \<Rightarrow> 'q PipelineTask" where
  "withPassedParams pp t = t\<lparr>Params := Params t @ map passedParam pp\<rparr>"

text \<open>
  Reading a store: the pointer of a quantity, when it holds one, lies between two
  positions.
\<close>

definition within :: "nat \<Rightarrow> nat \<Rightarrow> ('v, addr) Quantity \<Rightarrow> bool" where
  "within lo hi q = (case Dec q of None \<Rightarrow> True | Some a \<Rightarrow> lo \<le> a \<and> a < hi)"

section \<open>Properties\<close>

subsection \<open>Registry addresses\<close>

lemma LastIndexFrom_absent:
  "c \<notin> set s \<Longrightarrow> LastIndexFrom c s pos found = found"
  by (induction s arbitrary: pos found) auto

lemma LastIndexFrom_last:
  "c \<notin> set b \<Longrightarrow> LastIndexFrom c (a @ c # b) pos found = pos + int (length a)"
  by (induction a arbitrary: pos found) (auto simp: LastIndexFrom_absent)

lemma LastIndex_absent: "c \<notin> set s \<Longrightarrow> LastIndex s c = - 1"
  by (simp add: LastIndex_def LastIndexFrom_absent)

lemma LastIndex_last: "c \<notin> set b \<Longrightarrow> LastIndex (a @ c # b) c = int (length a)"
  by (simp add: LastIndex_def LastIndexFrom_last)

lemma tagParts_plain:
  "CHR '':'' \<notin> set imageId \<Longrightarrow>
   tagParts imageId prependTag =
     ([], if prependTag \<noteq> [] then prependTag @ ''_'' @ imageId else imageId)"
  by (simp add: tagParts_def LastIndex_absent)

lemma tagParts_colon:
  "CHR '':'' \<notin> set b \<Longrightarrow>
   tagParts (a @ CHR '':'' # b) prependTag = (a @ '':'', prependTag @ ''_'' @ b)"
  using LastIndex_last [of "CHR '':''" b a]
  by (simp add: tagParts_def nat_add_distrib)

text \<open>
  C7, as the claim states it, fails for a tenant without a tag prefix: the prefixed form
  of a suffix of 128 letters \<^verbatim>\<open>a\<close> is an underscore and the suffix, 129 characters,
  but the resolved tag is the suffix itself, which is no prefix of that form.
\<close>

theorem prependTagToImage_empty_prefix:
  "128 < length ([] @ ''_'' @ replicate 128 (CHR ''a''))
   \<and> prependTagToImage (replicate 128 (CHR ''a'')) [] = replicate 128 (CHR ''a'')
   \<and> \<not> prefix (prependTagToImage (replicate 128 (CHR ''a'')) [])
              ([] @ ''_'' @ replicate 128 (CHR ''a''))"
  by code_simp

text \<open>
  C7, amended: for a tag suffix without a colon and a tag prefix that is not empty, the
  prefixed form is the prefix, an underscore and the suffix; when it is longer than 128
  characters the resolved tag is its first 128 characters, and otherwise the prefixed
  form itself. For an empty tag prefix the same holds of the suffix alone.
\<close>

theorem prependTagToImage_truncates:
  assumes "CHR '':'' \<notin> set tagSuffix"
  shows "(prependTag \<noteq> [] \<longrightarrow>
            (128 < length (prependTag @ ''_'' @ tagSuffix) \<longrightarrow>
               length (prependTagToImage tagSuffix prependTag) = 128
               \<and> prefix (prependTagToImage tagSuffix prependTag) (prependTag @ ''_'' @ tagSuffix))
            \<and> (length (prependTag @ ''_'' @ tagSuffix) \<le> 128 \<longrightarrow>
                 prependTagToImage tagSuffix prependTag = prependTag @ ''_'' @ tagSuffix))
         \<and> (prependTag = [] \<longrightarrow>
              (128 < length tagSuffix \<longrightarrow>
                 length (prependTagToImage tagSuffix prependTag) = 128
                 \<and> prefix (prependTagToImage tagSuffix prependTag) tagSuffix)
              \<and> (length tagSuffix \<le> 128 \<longrightarrow> prependTagToImage tagSuffix prependTag = tagSuffix))"
  using assms
  by (auto simp: prependTagToImage_def tagParts_plain take_is_prefix min_def)

theorem prependTagToImage_truncates_witness:
  "CHR '':'' \<notin> set (replicate 130 (CHR ''x''))
   \<and> ''jbs'' \<noteq> []
   \<and> 128 < length (''jbs'' @ ''_'' @ replicate 130 (CHR ''x''))
   \<and> length (prependTagToImage (replicate 130 (CHR ''x'')) ''jbs'') = 128
   \<and> prefix (prependTagToImage (replicate 130 (CHR ''x'')) ''jbs'')
        (''jbs'' @ ''_'' @ replicate 130 (CHR ''x''))
   \<and> CHR '':'' \<notin> set ''build-1''
   \<and> length (''jbs'' @ ''_'' @ ''build-1'') \<le> 128
   \<and> prependTagToImage ''build-1'' ''jbs'' = ''jbs_build-1''
   \<and> 128 < length (replicate 130 (CHR ''x''))
   \<and> length (prependTagToImage (replicate 130 (CHR ''x'')) []) = 128
   \<and> prefix (prependTagToImage (replicate 130 (CHR ''x'')) []) (replicate 130 (CHR ''x''))
   \<and> length ''build-1'' \<le> 128
   \<and> prependTagToImage ''build-1'' [] = ''build-1''"
  using prependTagToImage_truncates [of "replicate 130 (CHR ''x'')" "''jbs''"]
        prependTagToImage_truncates [of "''build-1''" "''jbs''"]
        prependTagToImage_truncates [of "replicate 130 (CHR ''x'')" "[]"]
        prependTagToImage_truncates [of "''build-1''" "[]"]
  by simp

text \<open>
  C10: without a colon and with an empty tag prefix the image id comes back as it is,
  cut to 128 characters; with a colon the part behind the last colon gets the tag
  prefix and an underscore in front, and is cut to 128 characters, so that an empty
  tag prefix gives a tag that starts with the underscore.
\<close>

theorem prependTagToImage_separator:
  "(CHR '':'' \<notin> set imageId \<longrightarrow> prependTagToImage imageId [] = take 128 imageId)
   \<and> (CHR '':'' \<notin> set b \<longrightarrow>
        prependTagToImage (a @ '':'' @ b) prependTag
          = a @ '':'' @ take 128 (prependTag @ ''_'' @ b)
        \<and> prependTagToImage (a @ '':'' @ b) [] = a @ '':_'' @ take 127 b)"
  by (simp add: prependTagToImage_def tagParts_plain tagParts_colon)

theorem prependTagToImage_separator_witness:
  "CHR '':'' \<notin> set ''build-1''
   \<and> prependTagToImage ''build-1'' [] = take 128 ''build-1''
   \<and> prependTagToImage (''quay.io/acme/img'' @ '':'' @ ''build-1'') ''jbs''
       = ''quay.io/acme/img'' @ '':'' @ take 128 (''jbs'' @ ''_'' @ ''build-1'')
   \<and> prependTagToImage (''quay.io/acme/img'' @ '':'' @ ''build-1'') []
       = ''quay.io/acme/img'' @ '':_'' @ take 127 ''build-1''"
  using prependTagToImage_separator [of "''build-1''" "''build-1''" "''quay.io/acme/img''" "''jbs''"]
  by simp

subsection \<open>What \<^verbatim>\<open>createPipelineSpec\<close> returns\<close>

lemma createPipelineSpec_error:
  assumes "memoryLimits L jbsConfig (additionalMemory recipe systemConfig) = Return (Inl err)"
  shows "createPipelineSpec L E N R S tool commitTime jbsConfig systemConfig recipe db
           paramValues buildRequestProcessorImage buildId existingImages
         = Return (None, [], [], [], Some err)"
  using assms by (simp add: createPipelineSpec_def)

lemma createPipelineSpec_success:
  assumes "memoryLimits L jbsConfig (additionalMemory recipe systemConfig) = Return (Inr limits)"
      and "trustedArtifactsImage E = Return img"
  shows "createPipelineSpec L E N R S tool commitTime jbsConfig systemConfig recipe db
           paramValues buildRequestProcessorImage buildId existingImages
         = Return
             (Some (pipelineSpec L E N R S limits img tool commitTime jbsConfig recipe db
                      paramValues buildRequestProcessorImage buildId existingImages),
              df L E N tool recipe db paramValues commitTime buildRequestProcessorImage,
              kf tool recipe commitTime buildRequestProcessorImage,
              konfluxScript L E N tool recipe db paramValues commitTime,
              None)"
  using assms by (simp add: createPipelineSpec_def)

lemma createPipelineSpec_plan:
  assumes "createPipelineSpec L E N R S tool commitTime jbsConfig systemConfig recipe db
             paramValues buildRequestProcessorImage buildId existingImages
           = Return (Some ps, d, k, ks, err)"
  shows "\<exists>limits img.
           memoryLimits L jbsConfig (additionalMemory recipe systemConfig) = Return (Inr limits)
           \<and> trustedArtifactsImage E = Return img
           \<and> ps = pipelineSpec L E N R S limits img tool commitTime jbsConfig recipe db
                    paramValues buildRequestProcessorImage buildId existingImages
           \<and> d = df L E N tool recipe db paramValues commitTime buildRequestProcessorImage
           \<and> k = kf tool recipe commitTime buildRequestProcessorImage
           \<and> ks = konfluxScript L E N tool recipe db paramValues commitTime
           \<and> err = None"
  using assms
  by (auto simp: createPipelineSpec_def split: outcome.splits sum.splits)

subsection \<open>Resource limits\<close>

lemma settingOrDefault_set: "TrimSpace s \<noteq> [] \<Longrightarrow> settingOrDefault s d = s"
  by (simp add: settingOrDefault_def)

text \<open>
  Numbers are only ever appended to the store or overwritten in place, so a quantity
  reads the same in a longer store, and \<^verbatim>\<open>Add\<close> changes what a second quantity
  reads only when both hold the same pointer.
\<close>

lemma within_wider: "within lo hi q \<Longrightarrow> lo' \<le> lo \<Longrightarrow> hi \<le> hi' \<Longrightarrow> within lo' hi' q"
  by (auto simp: within_def split: option.splits)

lemma within_apart:
  "within lo hi q \<Longrightarrow> within lo' hi' p \<Longrightarrow> hi \<le> lo' \<Longrightarrow> Dec q = None \<or> Dec p \<noteq> Dec q"
  by (auto simp: within_def split: option.splits)

lemma within_apart_rev:
  "within lo hi q \<Longrightarrow> within lo' hi' p \<Longrightarrow> hi \<le> lo' \<Longrightarrow> Dec p = None \<or> Dec q \<noteq> Dec p"
  by (auto simp: within_def split: option.splits)

lemma readQuantity_prefix:
  assumes "within lo (length h) q" and "prefix h h'"
  shows "readQuantity h' q = readQuantity h q"
  using assms by (auto simp: within_def readQuantity_def prefix_def nth_append split: option.splits)

lemma parseQuantity_Inr:
  assumes "parseQuantity L str h = Inr (q, h')"
  shows "\<exists>v. ParseQuantity L str = Inr v \<and> readQuantity h' q = v \<and> prefix h h'
             \<and> within (length h) (length h') q"
  using assms
  by (auto simp: parseQuantity_def newQuantity_def readQuantity_def within_def
           split: sum.splits option.splits)

lemma MustParse_Return:
  assumes "MustParse L str h = Return (q, h')"
  shows "\<exists>v. ParseQuantity L str = Inr v \<and> readQuantity h' q = v \<and> prefix h h'
             \<and> within (length h) (length h') q"
  using assms
  by (auto simp: MustParse_def newQuantity_def readQuantity_def within_def
           split: sum.splits option.splits)

lemma Add_receiver:
  assumes "Add L q y h = (q', h')" and "within 0 (length h) q"
  shows "readQuantity h' q' = QuantityAdd L (readQuantity h q) (readQuantity h y)"
    and "length h \<le> length h'"
    and "Dec q' = None \<or> Dec q' = Dec q \<or> within (length h) (length h') q'"
    and "within 0 (length h') q'"
  using assms
  by (auto simp: Add_def Let_def readQuantity_def within_def split: option.splits)

lemma Add_other:
  assumes "Add L q y h = (q', h')" and "within 0 (length h) p"
      and "Dec q = None \<or> Dec p \<noteq> Dec q"
  shows "readQuantity h' p = readQuantity h p"
  using assms
  by (auto simp: Add_def Let_def readQuantity_def within_def nth_append split: option.splits)

lemma Add_shared:
  assumes "Add L q y h = (q', h')" and "within 0 (length h) q" and "Dec p = Dec q"
  shows "readQuantity h' p
         = (case Dec (readQuantity h p) of
              None \<Rightarrow> readQuantity h p
            | Some m \<Rightarrow>
                (case Dec (QuantityAdd L (readQuantity h q) (readQuantity h y)) of
                   None \<Rightarrow> readQuantity h p
                 | Some n \<Rightarrow> (readQuantity h p)\<lparr>Dec := Some n\<rparr>))"
  using assms
  by (auto simp: Add_def Let_def readQuantity_def within_def nth_append split: option.splits)

lemma parseQuantity_Inl: "ParseQuantity L str = Inl e \<Longrightarrow> parseQuantity L str h = Inl e"
  by (simp add: parseQuantity_def)

lemma memoryLimits_error:
  assumes "s \<in> {TaskRequestMemory (Settings jbsConfig), BuildRequestMemory (Settings jbsConfig),
                 TaskRequestCPU (Settings jbsConfig), TaskLimitCPU (Settings jbsConfig),
                 BuildRequestCPU (Settings jbsConfig), BuildLimitCPU (Settings jbsConfig)}"
      and "TrimSpace s \<noteq> []"
      and "ParseQuantity L s = Inl e"
  shows "\<exists>err. memoryLimits L jbsConfig a = Return (Inl err)"
proof -
  have s: "settingOrDefault s d = s" for d
    using assms(2) by (rule settingOrDefault_set)
  have p: "parseQuantity L s h = Inl e" for h
    using assms(3) by (rule parseQuantity_Inl)
  from assms(1) consider
      "s = TaskRequestMemory (Settings jbsConfig)" | "s = BuildRequestMemory (Settings jbsConfig)"
    | "s = TaskRequestCPU (Settings jbsConfig)" | "s = TaskLimitCPU (Settings jbsConfig)"
    | "s = BuildRequestCPU (Settings jbsConfig)" | "s = BuildLimitCPU (Settings jbsConfig)"
    by auto
  then show ?thesis
  proof cases
    case 1
    with s [of "''512Mi''"] p show ?thesis
      by (simp add: memoryLimits_def)
  next
    case 2
    with s [of "''1024Mi''"] p show ?thesis
      by (simp add: memoryLimits_def split: sum.splits prod.splits)
  next
    case 3
    with s [of "''10m''"] p show ?thesis
      by (simp add: memoryLimits_def split: sum.splits prod.splits)
  next
    case 4
    with s [of "''300m''"] p show ?thesis
      by (simp add: memoryLimits_def split: sum.splits prod.splits)
  next
    case 5
    with s [of "''300m''"] p show ?thesis
      by (simp add: memoryLimits_def split: sum.splits prod.splits)
  next
    case 6
    with s [of "''2''"] p show ?thesis
      by (simp add: memoryLimits_def split: sum.splits prod.splits)
  qed
qed

lemma memoryLimits_steps:
  assumes "memoryLimits L jbsConfig a = Return (Inr limits)"
  shows "\<exists>q1 h1 q2 h2 q3 h3 q4 h4 q5 h5 q6 h6.
           parseQuantity L (settingOrDefault (TaskRequestMemory (Settings jbsConfig)) ''512Mi'') []
             = Inr (q1, h1)
         \<and> parseQuantity L (settingOrDefault (BuildRequestMemory (Settings jbsConfig)) ''1024Mi'') h1
             = Inr (q2, h2)
         \<and> parseQuantity L (settingOrDefault (TaskRequestCPU (Settings jbsConfig)) ''10m'') h2
             = Inr (q3, h3)
         \<and> parseQuantity L (settingOrDefault (TaskLimitCPU (Settings jbsConfig)) ''300m'') h3
             = Inr (q4, h4)
         \<and> parseQuantity L (settingOrDefault (BuildRequestCPU (Settings jbsConfig)) ''300m'') h4
             = Inr (q5, h5)
         \<and> parseQuantity L (settingOrDefault (BuildLimitCPU (Settings jbsConfig)) ''2'') h5
             = Inr (q6, h6)
         \<and> (if 0 < a
             then \<exists>additional h7 b h8 t h9.
                    MustParse L (FormatInt a @ ''Mi'') h6 = Return (additional, h7)
                    \<and> Add L q2 additional h7 = (b, h8)
                    \<and> Add L q1 additional h8 = (t, h9)
                    \<and> limits = readLimits h9
                        \<lparr>defaultRequestMemory = t, defaultBuildRequestMemory = q2,
                         defaultRequestCPU = q3, defaultLimitCPU = q4, buildRequestCPU = q5,
                         buildLimitCPU = q6, buildRequestMemory = b\<rparr>
             else limits = readLimits h6
                        \<lparr>defaultRequestMemory = q1, defaultBuildRequestMemory = q2,
                         defaultRequestCPU = q3, defaultLimitCPU = q4, buildRequestCPU = q5,
                         buildLimitCPU = q6, buildRequestMemory = q2\<rparr>)"
  using assms
  by (auto simp: memoryLimits_def Let_def split: sum.splits outcome.splits prod.splits if_splits)

lemma memoryLimits_returned:
  assumes "memoryLimits L jbsConfig a = Return (Inr limits)"
  shows "\<exists>task build.
           ParseQuantity L (settingOrDefault (TaskRequestMemory (Settings jbsConfig)) ''512Mi'')
             = Inr task
         \<and> ParseQuantity L (settingOrDefault (BuildRequestMemory (Settings jbsConfig)) ''1024Mi'')
             = Inr build
         \<and> ParseQuantity L (settingOrDefault (TaskRequestCPU (Settings jbsConfig)) ''10m'')
             = Inr (defaultRequestCPU limits)
         \<and> ParseQuantity L (settingOrDefault (TaskLimitCPU (Settings jbsConfig)) ''300m'')
             = Inr (defaultLimitCPU limits)
         \<and> ParseQuantity L (settingOrDefault (BuildRequestCPU (Settings jbsConfig)) ''300m'')
             = Inr (buildRequestCPU limits)
         \<and> ParseQuantity L (settingOrDefault (BuildLimitCPU (Settings jbsConfig)) ''2'')
             = Inr (buildLimitCPU limits)
         \<and> (0 < a \<longrightarrow>
              (\<exists>extra.
                 ParseQuantity L (FormatInt a @ ''Mi'') = Inr extra
                 \<and> defaultRequestMemory limits = QuantityAdd L task extra
                 \<and> buildRequestMemory limits = QuantityAdd L build extra
                 \<and> defaultBuildRequestMemory limits
                     = (case Dec build of
                          None \<Rightarrow> build
                        | Some m \<Rightarrow>
                            (case Dec (QuantityAdd L build extra) of
                               None \<Rightarrow> build
                             | Some n \<Rightarrow> build\<lparr>Dec := Some n\<rparr>))))
         \<and> (a \<le> 0 \<longrightarrow>
              defaultRequestMemory limits = task
              \<and> buildRequestMemory limits = build
              \<and> defaultBuildRequestMemory limits = build)"
proof -
  from memoryLimits_steps [OF assms] obtain q1 h1 q2 h2 q3 h3 q4 h4 q5 h5 q6 h6 where
    p1: "parseQuantity L (settingOrDefault (TaskRequestMemory (Settings jbsConfig)) ''512Mi'') []
           = Inr (q1, h1)"
    and p2: "parseQuantity L (settingOrDefault (BuildRequestMemory (Settings jbsConfig)) ''1024Mi'') h1
           = Inr (q2, h2)"
    and p3: "parseQuantity L (settingOrDefault (TaskRequestCPU (Settings jbsConfig)) ''10m'') h2
           = Inr (q3, h3)"
    and p4: "parseQuantity L (settingOrDefault (TaskLimitCPU (Settings jbsConfig)) ''300m'') h3
           = Inr (q4, h4)"
    and p5: "parseQuantity L (settingOrDefault (BuildRequestCPU (Settings jbsConfig)) ''300m'') h4
           = Inr (q5, h5)"
    and p6: "parseQuantity L (settingOrDefault (BuildLimitCPU (Settings jbsConfig)) ''2'') h5
           = Inr (q6, h6)"
    and tail: "if 0 < a
             then \<exists>additional h7 b h8 t h9.
                    MustParse L (FormatInt a @ ''Mi'') h6 = Return (additional, h7)
                    \<and> Add L q2 additional h7 = (b, h8)
                    \<and> Add L q1 additional h8 = (t, h9)
                    \<and> limits = readLimits h9
                        \<lparr>defaultRequestMemory = t, defaultBuildRequestMemory = q2,
                         defaultRequestCPU = q3, defaultLimitCPU = q4, buildRequestCPU = q5,
                         buildLimitCPU = q6, buildRequestMemory = b\<rparr>
             else limits = readLimits h6
                        \<lparr>defaultRequestMemory = q1, defaultBuildRequestMemory = q2,
                         defaultRequestCPU = q3, defaultLimitCPU = q4, buildRequestCPU = q5,
                         buildLimitCPU = q6, buildRequestMemory = q2\<rparr>"
    by blast
  from parseQuantity_Inr [OF p1] obtain v1 where
    e1: "ParseQuantity L (settingOrDefault (TaskRequestMemory (Settings jbsConfig)) ''512Mi'') = Inr v1"
    and r1: "readQuantity h1 q1 = v1" and w1: "within (length ([] :: 'b list)) (length h1) q1"
    by blast
  from parseQuantity_Inr [OF p2] obtain v2 where
    e2: "ParseQuantity L (settingOrDefault (BuildRequestMemory (Settings jbsConfig)) ''1024Mi'') = Inr v2"
    and r2: "readQuantity h2 q2 = v2" and x2: "prefix h1 h2"
    and w2: "within (length h1) (length h2) q2"
    by blast
  from parseQuantity_Inr [OF p3] obtain v3 where
    e3: "ParseQuantity L (settingOrDefault (TaskRequestCPU (Settings jbsConfig)) ''10m'') = Inr v3"
    and r3: "readQuantity h3 q3 = v3" and x3: "prefix h2 h3"
    and w3: "within (length h2) (length h3) q3"
    by blast
  from parseQuantity_Inr [OF p4] obtain v4 where
    e4: "ParseQuantity L (settingOrDefault (TaskLimitCPU (Settings jbsConfig)) ''300m'') = Inr v4"
    and r4: "readQuantity h4 q4 = v4" and x4: "prefix h3 h4"
    and w4: "within (length h3) (length h4) q4"
    by blast
  from parseQuantity_Inr [OF p5] obtain v5 where
    e5: "ParseQuantity L (settingOrDefault (BuildRequestCPU (Settings jbsConfig)) ''300m'') = Inr v5"
    and r5: "readQuantity h5 q5 = v5" and x5: "prefix h4 h5"
    and w5: "within (length h4) (length h5) q5"
    by blast
  from parseQuantity_Inr [OF p6] obtain v6 where
    e6: "ParseQuantity L (settingOrDefault (BuildLimitCPU (Settings jbsConfig)) ''2'') = Inr v6"
    and r6: "readQuantity h6 q6 = v6" and x6: "prefix h5 h6"
    and w6: "within (length h5) (length h6) q6"
    by blast
  have x56: "prefix h5 h6" by (rule x6)
  have x46: "prefix h4 h6" using x5 x56 by (rule prefix_order.trans)
  have x36: "prefix h3 h6" using x4 x46 by (rule prefix_order.trans)
  have x26: "prefix h2 h6" using x3 x36 by (rule prefix_order.trans)
  have x16: "prefix h1 h6" using x2 x26 by (rule prefix_order.trans)
  have l12: "length h1 \<le> length h2" and l23: "length h2 \<le> length h3"
    and l34: "length h3 \<le> length h4" and l45: "length h4 \<le> length h5"
    and l56: "length h5 \<le> length h6"
    using x2 x3 x4 x5 x6 by (simp_all add: prefix_length_le)
  have s1: "readQuantity h6 q1 = v1" using readQuantity_prefix [OF w1 x16] r1 by simp
  have s2: "readQuantity h6 q2 = v2" using readQuantity_prefix [OF w2 x26] r2 by simp
  have s3: "readQuantity h6 q3 = v3" using readQuantity_prefix [OF w3 x36] r3 by simp
  have s4: "readQuantity h6 q4 = v4" using readQuantity_prefix [OF w4 x46] r4 by simp
  have s5: "readQuantity h6 q5 = v5" using readQuantity_prefix [OF w5 x56] r5 by simp
  show ?thesis
  proof (cases "0 < a")
    case False
    with tail have "limits = readLimits h6
                        \<lparr>defaultRequestMemory = q1, defaultBuildRequestMemory = q2,
                         defaultRequestCPU = q3, defaultLimitCPU = q4, buildRequestCPU = q5,
                         buildLimitCPU = q6, buildRequestMemory = q2\<rparr>"
      by simp
    with False e1 e2 e3 e4 e5 e6 s1 s2 s3 s4 s5 r6 show ?thesis
      by (simp add: readLimits_def)
  next
    case True
    with tail obtain additional h7 b h8 t h9 where
      m7: "MustParse L (FormatInt a @ ''Mi'') h6 = Return (additional, h7)"
      and a8: "Add L q2 additional h7 = (b, h8)"
      and a9: "Add L q1 additional h8 = (t, h9)"
      and lim: "limits = readLimits h9
                        \<lparr>defaultRequestMemory = t, defaultBuildRequestMemory = q2,
                         defaultRequestCPU = q3, defaultLimitCPU = q4, buildRequestCPU = q5,
                         buildLimitCPU = q6, buildRequestMemory = b\<rparr>"
      by auto
    from MustParse_Return [OF m7] obtain v7 where
      e7: "ParseQuantity L (FormatInt a @ ''Mi'') = Inr v7"
      and r7: "readQuantity h7 additional = v7" and x7: "prefix h6 h7"
      and w7: "within (length h6) (length h7) additional"
      by blast
    have l67: "length h6 \<le> length h7"
      using x7 by (simp add: prefix_length_le)
    have k1: "within 0 (length h6) q1"
      by (rule within_wider [OF w1]) (use l12 l23 l34 l45 l56 in simp_all)
    have k2: "within 0 (length h6) q2"
      by (rule within_wider [OF w2]) (use l12 l23 l34 l45 l56 in simp_all)
    have k3: "within 0 (length h6) q3"
      by (rule within_wider [OF w3]) (use l12 l23 l34 l45 l56 in simp_all)
    have k4: "within 0 (length h6) q4"
      by (rule within_wider [OF w4]) (use l12 l23 l34 l45 l56 in simp_all)
    have k5: "within 0 (length h6) q5"
      by (rule within_wider [OF w5]) (use l12 l23 l34 l45 l56 in simp_all)
    have k6: "within 0 (length h6) q6"
      by (rule within_wider [OF w6]) (use l12 l23 l34 l45 l56 in simp_all)
    have t1: "readQuantity h7 q1 = v1"
      using readQuantity_prefix [OF k1 x7] s1 by simp
    have t2: "readQuantity h7 q2 = v2"
      using readQuantity_prefix [OF k2 x7] s2 by simp
    have t3: "readQuantity h7 q3 = v3"
      using readQuantity_prefix [OF k3 x7] s3 by simp
    have t4: "readQuantity h7 q4 = v4"
      using readQuantity_prefix [OF k4 x7] s4 by simp
    have t5: "readQuantity h7 q5 = v5"
      using readQuantity_prefix [OF k5 x7] s5 by simp
    have t6: "readQuantity h7 q6 = v6"
      using readQuantity_prefix [OF k6 x7] r6 by simp
    have u1: "within 0 (length h7) q1"
      by (rule within_wider [OF k1]) (use l67 in simp_all)
    have u2: "within 0 (length h7) q2"
      by (rule within_wider [OF k2]) (use l67 in simp_all)
    have u3: "within 0 (length h7) q3"
      by (rule within_wider [OF k3]) (use l67 in simp_all)
    have u4: "within 0 (length h7) q4"
      by (rule within_wider [OF k4]) (use l67 in simp_all)
    have u5: "within 0 (length h7) q5"
      by (rule within_wider [OF k5]) (use l67 in simp_all)
    have u6: "within 0 (length h7) q6"
      by (rule within_wider [OF k6]) (use l67 in simp_all)
    have u7: "within 0 (length h7) additional"
      by (rule within_wider [OF w7]) simp_all
    have d21: "Dec q2 = None \<or> Dec q1 \<noteq> Dec q2" using within_apart_rev [OF w1 w2] by simp
    have d23: "Dec q2 = None \<or> Dec q3 \<noteq> Dec q2" using within_apart [OF w2 w3] by simp
    have d24: "Dec q2 = None \<or> Dec q4 \<noteq> Dec q2" using within_apart [OF w2 w4] l23 by simp
    have d25: "Dec q2 = None \<or> Dec q5 \<noteq> Dec q2" using within_apart [OF w2 w5] l23 l34 by simp
    have d26: "Dec q2 = None \<or> Dec q6 \<noteq> Dec q2" using within_apart [OF w2 w6] l23 l34 l45 by simp
    have d27: "Dec q2 = None \<or> Dec additional \<noteq> Dec q2"
      using within_apart [OF w2 w7] l23 l34 l45 l56 by simp
    have d12: "Dec q1 = None \<or> Dec q2 \<noteq> Dec q1" using within_apart [OF w1 w2] by simp
    have d13: "Dec q1 = None \<or> Dec q3 \<noteq> Dec q1" using within_apart [OF w1 w3] l12 by simp
    have d14: "Dec q1 = None \<or> Dec q4 \<noteq> Dec q1" using within_apart [OF w1 w4] l12 l23 by simp
    have d15: "Dec q1 = None \<or> Dec q5 \<noteq> Dec q1" using within_apart [OF w1 w5] l12 l23 l34 by simp
    have d16: "Dec q1 = None \<or> Dec q6 \<noteq> Dec q1" using within_apart [OF w1 w6] l12 l23 l34 l45 by simp
    have d17: "Dec q1 = None \<or> Dec additional \<noteq> Dec q1"
      using within_apart [OF w1 w7] l12 l23 l34 l45 l56 by simp
    note first = Add_receiver [OF a8 u2]
    have b8: "readQuantity h8 b = QuantityAdd L v2 v7"
      using first(1) t2 r7 by simp
    have l78: "length h7 \<le> length h8" by (rule first(2))
    have o1: "readQuantity h8 q1 = v1" using Add_other [OF a8 u1 d21] t1 by simp
    have o3: "readQuantity h8 q3 = v3" using Add_other [OF a8 u3 d23] t3 by simp
    have o4: "readQuantity h8 q4 = v4" using Add_other [OF a8 u4 d24] t4 by simp
    have o5: "readQuantity h8 q5 = v5" using Add_other [OF a8 u5 d25] t5 by simp
    have o6: "readQuantity h8 q6 = v6" using Add_other [OF a8 u6 d26] t6 by simp
    have o7: "readQuantity h8 additional = v7" using Add_other [OF a8 u7 d27] r7 by simp
    have o2: "readQuantity h8 q2
              = (case Dec v2 of
                   None \<Rightarrow> v2
                 | Some m \<Rightarrow>
                     (case Dec (QuantityAdd L v2 v7) of
                        None \<Rightarrow> v2
                      | Some n \<Rightarrow> v2\<lparr>Dec := Some n\<rparr>))"
      by (rule Add_shared [OF a8 u2 refl, unfolded t2 r7])
    have y1: "within 0 (length h8) q1"
      by (rule within_wider [OF u1]) (use l78 in simp_all)
    have y2: "within 0 (length h8) q2"
      by (rule within_wider [OF u2]) (use l78 in simp_all)
    have y3: "within 0 (length h8) q3"
      by (rule within_wider [OF u3]) (use l78 in simp_all)
    have y4: "within 0 (length h8) q4"
      by (rule within_wider [OF u4]) (use l78 in simp_all)
    have y5: "within 0 (length h8) q5"
      by (rule within_wider [OF u5]) (use l78 in simp_all)
    have y6: "within 0 (length h8) q6"
      by (rule within_wider [OF u6]) (use l78 in simp_all)
    have yb: "within 0 (length h8) b" by (rule first(4))
    have d1b: "Dec q1 = None \<or> Dec b \<noteq> Dec q1"
      using first(3)
    proof (elim disjE)
      assume "Dec b = None"
      then show ?thesis by (cases "Dec q1") auto
    next
      assume "Dec b = Dec q2"
      with d12 show ?thesis by simp
    next
      assume fresh: "within (length h7) (length h8) b"
      from within_apart [OF w1 fresh] l12 l23 l34 l45 l56 l67 show ?thesis by simp
    qed
    note second = Add_receiver [OF a9 y1]
    have t9: "readQuantity h9 t = QuantityAdd L v1 v7"
      using second(1) o1 o7 by simp
    have z2: "readQuantity h9 q2 = readQuantity h8 q2" by (rule Add_other [OF a9 y2 d12])
    have z3: "readQuantity h9 q3 = v3" using Add_other [OF a9 y3 d13] o3 by simp
    have z4: "readQuantity h9 q4 = v4" using Add_other [OF a9 y4 d14] o4 by simp
    have z5: "readQuantity h9 q5 = v5" using Add_other [OF a9 y5 d15] o5 by simp
    have z6: "readQuantity h9 q6 = v6" using Add_other [OF a9 y6 d16] o6 by simp
    have zb: "readQuantity h9 b = QuantityAdd L v2 v7" using Add_other [OF a9 yb d1b] b8 by simp
    from True e1 e2 e3 e4 e5 e6 e7 t9 zb z2 o2 z3 z4 z5 z6 show ?thesis
      unfolding lim by (simp add: readLimits_def)
  qed
qed

text \<open>
  C9: when one of the six settings is set (not blank) and does not parse as a quantity,
  \<^verbatim>\<open>createPipelineSpec\<close> returns an error, no task graph and three empty texts.
\<close>

theorem createPipelineSpec_malformed_quantity:
  assumes "s \<in> {TaskRequestMemory (Settings jbsConfig), BuildRequestMemory (Settings jbsConfig),
                 TaskRequestCPU (Settings jbsConfig), TaskLimitCPU (Settings jbsConfig),
                 BuildRequestCPU (Settings jbsConfig), BuildLimitCPU (Settings jbsConfig)}"
      and "TrimSpace s \<noteq> []"
      and "ParseQuantity L s = Inl e"
  shows "\<exists>err. createPipelineSpec L E N R S tool commitTime jbsConfig systemConfig recipe db
                 paramValues buildRequestProcessorImage buildId existingImages
               = Return (None, [], [], [], Some err)"
proof -
  obtain err where
    "memoryLimits L jbsConfig (additionalMemory recipe systemConfig) = Return (Inl err)"
    using memoryLimits_error [OF assms] by blast
  then show ?thesis
    by (auto simp: createPipelineSpec_error)
qed

theorem createPipelineSpec_malformed_quantity_witness:
  "TrimSpace ''lots'' \<noteq> []
   \<and> ParseQuantity sampleLibrary ''lots''
       = Inl (Error ''quantities must match the regular expression'')
   \<and> (\<exists>err. createPipelineSpec sampleLibrary sampleFiles sampleParamNames sampleResultNames
               sampleSecretNames ''maven'' 1700000000
               (sampleConfig\<lparr>Settings := sampleSettings\<lparr>BuildLimitCPU := ''lots''\<rparr>\<rparr>)
               sampleSystem sampleRecipe sampleBuild []
               ''quay.io/hacbs-jvm-build-request-processor:dev'' ''build-1'' Map.empty
             = Return (None, [], [], [], Some err))"
proof -
  have t: "TrimSpace ''lots'' \<noteq> []"
    by code_simp
  have p: "ParseQuantity sampleLibrary ''lots''
             = Inl (Error ''quantities must match the regular expression'')"
    by (simp add: sampleLibrary_def sampleParseQuantity_def isDigit_def)
  have m: "''lots'' \<in>
      {TaskRequestMemory (Settings (sampleConfig\<lparr>Settings := sampleSettings\<lparr>BuildLimitCPU := ''lots''\<rparr>\<rparr>)),
       BuildRequestMemory (Settings (sampleConfig\<lparr>Settings := sampleSettings\<lparr>BuildLimitCPU := ''lots''\<rparr>\<rparr>)),
       TaskRequestCPU (Settings (sampleConfig\<lparr>Settings := sampleSettings\<lparr>BuildLimitCPU := ''lots''\<rparr>\<rparr>)),
       TaskLimitCPU (Settings (sampleConfig\<lparr>Settings := sampleSettings\<lparr>BuildLimitCPU := ''lots''\<rparr>\<rparr>)),
       BuildRequestCPU (Settings (sampleConfig\<lparr>Settings := sampleSettings\<lparr>BuildLimitCPU := ''lots''\<rparr>\<rparr>)),
       BuildLimitCPU (Settings (sampleConfig\<lparr>Settings := sampleSettings\<lparr>BuildLimitCPU := ''lots''\<rparr>\<rparr>))}"
    by simp
  from createPipelineSpec_malformed_quantity [OF m t p] t p show ?thesis
    by blast
qed

text \<open>
  C6: the additional memory of the recipe is limited by the maximum of the system
  configuration when that is positive. A positive amount is read as a quantity of
  mebibytes and added to the request memory of the build step and to the default
  request memory; the four CPU quantities are the parsed settings. A request of zero
  or less adds nothing. The build request memory of the other steps is the struct
  that line 792 copied: it reads the parsed setting when that holds no pointer, and
  the number of the sum when it does.
\<close>

theorem additional_memory_capped_and_added:
  assumes "createPipelineSpec L E N R S tool commitTime jbsConfig systemConfig recipe db
             paramValues buildRequestProcessorImage buildId existingImages
           = Return (Some ps, d, k, ks, err)"
  shows "\<exists>limits img task build.
           ps = pipelineSpec L E N R S limits img tool commitTime jbsConfig recipe db
                  paramValues buildRequestProcessorImage buildId existingImages
           \<and> (0 < MaxAdditionalMemory systemConfig
                \<and> MaxAdditionalMemory systemConfig < AdditionalMemory recipe
                \<longrightarrow> additionalMemory recipe systemConfig = MaxAdditionalMemory systemConfig)
           \<and> (MaxAdditionalMemory systemConfig \<le> 0
                \<or> AdditionalMemory recipe \<le> MaxAdditionalMemory systemConfig
                \<longrightarrow> additionalMemory recipe systemConfig = AdditionalMemory recipe)
           \<and> ParseQuantity L
                (settingOrDefault (TaskRequestMemory (Settings jbsConfig)) ''512Mi'')
               = Inr task
           \<and> ParseQuantity L
                (settingOrDefault (BuildRequestMemory (Settings jbsConfig)) ''1024Mi'')
               = Inr build
           \<and> (0 < additionalMemory recipe systemConfig \<longrightarrow>
                (\<exists>extra.
                   ParseQuantity L (FormatInt (additionalMemory recipe systemConfig) @ ''Mi'')
                     = Inr extra
                   \<and> defaultRequestMemory limits = QuantityAdd L task extra
                   \<and> buildRequestMemory limits = QuantityAdd L build extra
                   \<and> defaultBuildRequestMemory limits
                       = (case Dec build of
                            None \<Rightarrow> build
                          | Some m \<Rightarrow>
                              (case Dec (QuantityAdd L build extra) of
                                 None \<Rightarrow> build
                               | Some n \<Rightarrow> build\<lparr>Dec := Some n\<rparr>))))
           \<and> (additionalMemory recipe systemConfig \<le> 0 \<longrightarrow>
                defaultRequestMemory limits = task
                \<and> buildRequestMemory limits = build
                \<and> defaultBuildRequestMemory limits = build)
           \<and> ParseQuantity L (settingOrDefault (TaskRequestCPU (Settings jbsConfig)) ''10m'')
               = Inr (defaultRequestCPU limits)
           \<and> ParseQuantity L (settingOrDefault (TaskLimitCPU (Settings jbsConfig)) ''300m'')
               = Inr (defaultLimitCPU limits)
           \<and> ParseQuantity L (settingOrDefault (BuildRequestCPU (Settings jbsConfig)) ''300m'')
               = Inr (buildRequestCPU limits)
           \<and> ParseQuantity L (settingOrDefault (BuildLimitCPU (Settings jbsConfig)) ''2'')
               = Inr (buildLimitCPU limits)"
proof -
  obtain limits img where
    m: "memoryLimits L jbsConfig (additionalMemory recipe systemConfig) = Return (Inr limits)"
    and ps: "ps = pipelineSpec L E N R S limits img tool commitTime jbsConfig recipe db
                    paramValues buildRequestProcessorImage buildId existingImages"
    using createPipelineSpec_plan [OF assms] by blast
  have a: "(0 < MaxAdditionalMemory systemConfig
             \<and> MaxAdditionalMemory systemConfig < AdditionalMemory recipe
             \<longrightarrow> additionalMemory recipe systemConfig = MaxAdditionalMemory systemConfig)
           \<and> (MaxAdditionalMemory systemConfig \<le> 0
                \<or> AdditionalMemory recipe \<le> MaxAdditionalMemory systemConfig
                \<longrightarrow> additionalMemory recipe systemConfig = AdditionalMemory recipe)"
    by (auto simp: additionalMemory_def)
  from memoryLimits_returned [OF m] a ps show ?thesis
    by blast
qed

lemma sample_memoryLimits:
  "memoryLimits sampleLibrary sampleConfig (additionalMemory sampleRecipe sampleSystem)
   = Return (Inr sampleLimits)"
  by code_simp

lemma sample_memoryLimits_fraction:
  "memoryLimits sampleLibrary sampleFraction (additionalMemory sampleRecipe sampleSystem)
   = Return (Inr sampleFractionLimits)"
  by code_simp

lemma sample_trustedArtifactsImage:
  "trustedArtifactsImage sampleFiles = Return ''quay.io/konflux-ci/build-trusted-artifacts:latest''"
  by code_simp

theorem additional_memory_capped_and_added_witness:
  "\<exists>limits img.
     pipelineSpec sampleLibrary sampleFiles sampleParamNames sampleResultNames
       sampleSecretNames sampleFractionLimits
       ''quay.io/konflux-ci/build-trusted-artifacts:latest'' ''maven'' 1700000000
       sampleFraction sampleRecipe sampleBuild []
       ''quay.io/hacbs-jvm-build-request-processor:dev'' ''build-1'' Map.empty
     = pipelineSpec sampleLibrary sampleFiles sampleParamNames sampleResultNames
         sampleSecretNames limits img ''maven'' 1700000000 sampleFraction sampleRecipe
         sampleBuild [] ''quay.io/hacbs-jvm-build-request-processor:dev'' ''build-1'' Map.empty
     \<and> 0 < MaxAdditionalMemory sampleSystem
     \<and> MaxAdditionalMemory sampleSystem < AdditionalMemory sampleRecipe
     \<and> additionalMemory sampleRecipe sampleSystem = 1024
     \<and> ParseQuantity sampleLibrary ''512Mi'' = Inr \<lparr>Held = 536870912000, Dec = None\<rparr>
     \<and> ParseQuantity sampleLibrary ''1.5Gi'' = Inr \<lparr>Held = 0, Dec = Some 1610612736000\<rparr>
     \<and> ParseQuantity sampleLibrary ''1024Mi'' = Inr \<lparr>Held = 1073741824000, Dec = None\<rparr>
     \<and> defaultRequestMemory limits = \<lparr>Held = 1610612736000, Dec = None\<rparr>
     \<and> buildRequestMemory limits = \<lparr>Held = 0, Dec = Some 2684354560000\<rparr>
     \<and> defaultBuildRequestMemory limits = \<lparr>Held = 0, Dec = Some 2684354560000\<rparr>
     \<and> defaultRequestCPU limits = \<lparr>Held = 10, Dec = None\<rparr>
     \<and> defaultLimitCPU limits = \<lparr>Held = 300, Dec = None\<rparr>
     \<and> buildRequestCPU limits = \<lparr>Held = 300, Dec = None\<rparr>
     \<and> buildLimitCPU limits = \<lparr>Held = 2000, Dec = None\<rparr>"
proof -
  let ?ps = "pipelineSpec sampleLibrary sampleFiles sampleParamNames sampleResultNames
       sampleSecretNames sampleFractionLimits
       ''quay.io/konflux-ci/build-trusted-artifacts:latest'' ''maven'' 1700000000
       sampleFraction sampleRecipe sampleBuild []
       ''quay.io/hacbs-jvm-build-request-processor:dev'' ''build-1'' Map.empty"
  have run: "createPipelineSpec sampleLibrary sampleFiles sampleParamNames sampleResultNames
               sampleSecretNames ''maven'' 1700000000 sampleFraction sampleSystem sampleRecipe
               sampleBuild [] ''quay.io/hacbs-jvm-build-request-processor:dev'' ''build-1''
               Map.empty
             = Return (Some ?ps,
                 df sampleLibrary sampleFiles sampleParamNames ''maven'' sampleRecipe sampleBuild
                   [] 1700000000 ''quay.io/hacbs-jvm-build-request-processor:dev'',
                 kf ''maven'' sampleRecipe 1700000000
                   ''quay.io/hacbs-jvm-build-request-processor:dev'',
                 konfluxScript sampleLibrary sampleFiles sampleParamNames ''maven'' sampleRecipe
                   sampleBuild [] 1700000000,
                 None)"
    by (rule createPipelineSpec_success
               [OF sample_memoryLimits_fraction sample_trustedArtifactsImage])
  have a: "additionalMemory sampleRecipe sampleSystem = 1024"
    by (simp add: additionalMemory_def sampleRecipe_def sampleSystem_def)
  have s: "0 < MaxAdditionalMemory sampleSystem
           \<and> MaxAdditionalMemory sampleSystem < AdditionalMemory sampleRecipe"
    by (simp add: sampleRecipe_def sampleSystem_def)
  have p1: "ParseQuantity sampleLibrary ''1024Mi'' = Inr \<lparr>Held = 1073741824000, Dec = None\<rparr>"
    by code_simp
  have p2: "ParseQuantity sampleLibrary
              (settingOrDefault (TaskRequestMemory (Settings sampleFraction)) ''512Mi'')
            = Inr \<lparr>Held = 536870912000, Dec = None\<rparr>"
    by code_simp
  have p3: "ParseQuantity sampleLibrary
              (settingOrDefault (BuildRequestMemory (Settings sampleFraction)) ''1024Mi'')
            = Inr \<lparr>Held = 0, Dec = Some 1610612736000\<rparr>"
    by code_simp
  have p4: "ParseQuantity sampleLibrary
              (settingOrDefault (TaskRequestCPU (Settings sampleFraction)) ''10m'')
            = Inr \<lparr>Held = 10, Dec = None\<rparr>"
    by code_simp
  have p5: "ParseQuantity sampleLibrary
              (settingOrDefault (TaskLimitCPU (Settings sampleFraction)) ''300m'')
            = Inr \<lparr>Held = 300, Dec = None\<rparr>"
    by code_simp
  have p6: "ParseQuantity sampleLibrary
              (settingOrDefault (BuildRequestCPU (Settings sampleFraction)) ''300m'')
            = Inr \<lparr>Held = 300, Dec = None\<rparr>"
    by code_simp
  have p7: "ParseQuantity sampleLibrary
              (settingOrDefault (BuildLimitCPU (Settings sampleFraction)) ''2'')
            = Inr \<lparr>Held = 2000, Dec = None\<rparr>"
    by code_simp
  have p8: "ParseQuantity sampleLibrary ''512Mi'' = Inr \<lparr>Held = 536870912000, Dec = None\<rparr>"
    by code_simp
  have p9: "ParseQuantity sampleLibrary ''1.5Gi'' = Inr \<lparr>Held = 0, Dec = Some 1610612736000\<rparr>"
    by code_simp
  have f: "FormatInt 1024 @ ''Mi'' = ''1024Mi''"
    by code_simp
  have q1: "QuantityAdd sampleLibrary \<lparr>Held = 536870912000, Dec = None\<rparr>
              \<lparr>Held = 1073741824000, Dec = None\<rparr>
            = \<lparr>Held = 1610612736000, Dec = None\<rparr>"
    by code_simp
  have q2: "QuantityAdd sampleLibrary \<lparr>Held = 0, Dec = Some 1610612736000\<rparr>
              \<lparr>Held = 1073741824000, Dec = None\<rparr>
            = \<lparr>Held = 0, Dec = Some 2684354560000\<rparr>"
    by code_simp
  from additional_memory_capped_and_added [OF run] show ?thesis
  proof (elim exE conjE)
    fix limits img task build
    assume g: "?ps = pipelineSpec sampleLibrary sampleFiles sampleParamNames sampleResultNames
         sampleSecretNames limits img ''maven'' 1700000000 sampleFraction sampleRecipe
         sampleBuild [] ''quay.io/hacbs-jvm-build-request-processor:dev'' ''build-1'' Map.empty"
    and task: "ParseQuantity sampleLibrary
                 (settingOrDefault (TaskRequestMemory (Settings sampleFraction)) ''512Mi'')
               = Inr task"
    and build: "ParseQuantity sampleLibrary
                  (settingOrDefault (BuildRequestMemory (Settings sampleFraction)) ''1024Mi'')
                = Inr build"
    and pos: "0 < additionalMemory sampleRecipe sampleSystem \<longrightarrow>
              (\<exists>extra.
                 ParseQuantity sampleLibrary
                   (FormatInt (additionalMemory sampleRecipe sampleSystem) @ ''Mi'') = Inr extra
                 \<and> defaultRequestMemory limits = QuantityAdd sampleLibrary task extra
                 \<and> buildRequestMemory limits = QuantityAdd sampleLibrary build extra
                 \<and> defaultBuildRequestMemory limits
                     = (case Dec build of
                          None \<Rightarrow> build
                        | Some m \<Rightarrow>
                            (case Dec (QuantityAdd sampleLibrary build extra) of
                               None \<Rightarrow> build
                             | Some n \<Rightarrow> build\<lparr>Dec := Some n\<rparr>)))"
    and rest: "ParseQuantity sampleLibrary
          (settingOrDefault (TaskRequestCPU (Settings sampleFraction)) ''10m'')
               = Inr (defaultRequestCPU limits)"
       "ParseQuantity sampleLibrary
          (settingOrDefault (TaskLimitCPU (Settings sampleFraction)) ''300m'')
               = Inr (defaultLimitCPU limits)"
       "ParseQuantity sampleLibrary
          (settingOrDefault (BuildRequestCPU (Settings sampleFraction)) ''300m'')
               = Inr (buildRequestCPU limits)"
       "ParseQuantity sampleLibrary
          (settingOrDefault (BuildLimitCPU (Settings sampleFraction)) ''2'')
               = Inr (buildLimitCPU limits)"
    from pos a have mem: "\<exists>extra.
                 ParseQuantity sampleLibrary
                   (FormatInt (additionalMemory sampleRecipe sampleSystem) @ ''Mi'') = Inr extra
                 \<and> defaultRequestMemory limits = QuantityAdd sampleLibrary task extra
                 \<and> buildRequestMemory limits = QuantityAdd sampleLibrary build extra
                 \<and> defaultBuildRequestMemory limits
                     = (case Dec build of
                          None \<Rightarrow> build
                        | Some m \<Rightarrow>
                            (case Dec (QuantityAdd sampleLibrary build extra) of
                               None \<Rightarrow> build
                             | Some n \<Rightarrow> build\<lparr>Dec := Some n\<rparr>))"
      by simp
    from task build have tb: "task = \<lparr>Held = 536870912000, Dec = None\<rparr>"
        "build = \<lparr>Held = 0, Dec = Some 1610612736000\<rparr>"
      unfolding p2 p3 by simp_all
    from mem obtain extra where
      e: "ParseQuantity sampleLibrary ''1024Mi'' = Inr extra"
      and m1: "defaultRequestMemory limits = QuantityAdd sampleLibrary task extra"
      and m2: "buildRequestMemory limits = QuantityAdd sampleLibrary build extra"
      and m3: "defaultBuildRequestMemory limits
                 = (case Dec build of
                      None \<Rightarrow> build
                    | Some m \<Rightarrow>
                        (case Dec (QuantityAdd sampleLibrary build extra) of
                           None \<Rightarrow> build
                         | Some n \<Rightarrow> build\<lparr>Dec := Some n\<rparr>))"
      unfolding a f by blast
    from e have ex: "extra = \<lparr>Held = 1073741824000, Dec = None\<rparr>"
      unfolding p1 by simp
    have r1: "defaultRequestMemory limits = \<lparr>Held = 1610612736000, Dec = None\<rparr>"
      using m1 unfolding tb ex q1 .
    have r2: "buildRequestMemory limits = \<lparr>Held = 0, Dec = Some 2684354560000\<rparr>"
      using m2 unfolding tb ex q2 .
    have r3: "defaultBuildRequestMemory limits = \<lparr>Held = 0, Dec = Some 2684354560000\<rparr>"
      using m3 unfolding tb ex q2 by simp
    from rest have c: "defaultRequestCPU limits = \<lparr>Held = 10, Dec = None\<rparr>"
        "defaultLimitCPU limits = \<lparr>Held = 300, Dec = None\<rparr>"
        "buildRequestCPU limits = \<lparr>Held = 300, Dec = None\<rparr>"
        "buildLimitCPU limits = \<lparr>Held = 2000, Dec = None\<rparr>"
      unfolding p4 p5 p6 p7 by simp_all
    from g s a p8 p9 p1 r1 r2 r3 c show ?thesis
      by (intro exI [of _ limits] exI [of _ img]) simp
  qed
qed

subsection \<open>Additional packages\<close>

lemma additionalPackagesLoop_complete:
  "\<forall>i\<in>set pkgs. knownFileType i \<and> \<not> missingField i \<Longrightarrow>
   additionalPackagesLoop E count pkgs install = install @ fragments E count pkgs"
  by (induction pkgs arbitrary: count install)
     (auto simp: knownFileType_def missingField_def)

lemma additionalPackagesLoop_missing:
  "\<forall>i\<in>set pre. knownFileType i \<Longrightarrow> knownFileType p \<Longrightarrow> missingField p \<Longrightarrow>
   additionalPackagesLoop E count (pre @ p # post) install
   = additionalPackagesLoop E (count + length pre + 1) post
       (failingLine p @ installTemplate E (count + length pre) p)"
proof (induction pre arbitrary: count install)
  case Nil
  then show ?case
    by (auto simp: knownFileType_def missingField_def failingLine_def)
next
  case (Cons i pre)
  then have "additionalPackagesLoop E (count + 1) (pre @ p # post) install'
             = additionalPackagesLoop E (count + 1 + length pre + 1) post
                 (failingLine p @ installTemplate E (count + 1 + length pre) p)" for install'
    by simp
  with Cons.prems(1) show ?case
    by (auto simp: knownFileType_def)
qed

lemma additionalPackagesLoop_unknown:
  "\<forall>i\<in>set pre. knownFileType i \<Longrightarrow> \<not> knownFileType p \<Longrightarrow>
   additionalPackagesLoop E count (pre @ p # post) install = failingLine p"
  by (induction pre arbitrary: count install)
     (auto simp: knownFileType_def failingLine_def)

text \<open>
  C4, as the claim states it, fails: of the three sample packages the second has no
  binary path, and the install section is its failing line, its own fragment and the
  fragment of the third package. The fragment of the first package does not occur in it.
\<close>

theorem additionalPackages_drops_earlier:
  "additionalPackages sampleFiles (sampleRecipe\<lparr>AdditionalDownloads := samplePackages\<rparr>)
     = ''echo 'Binary path not specified for package u2'; exit 1''
       @ ''get u2 package-1 s2 tar  ;'' @ ''get u3 f3 s3 executable  ;''
   \<and> installTemplate sampleFiles 0 (samplePackages ! 0) = ''get u1 package-0 s1 rpm  git;''
   \<and> \<not> sublist (installTemplate sampleFiles 0 (samplePackages ! 0))
         (additionalPackages sampleFiles (sampleRecipe\<lparr>AdditionalDownloads := samplePackages\<rparr>))"
  by code_simp

text \<open>
  C4, amended: let the packages in front of a package have known file types. If the
  package has a known type and a missing field, and the packages behind it are
  complete, the install section is the failing line of the package, then its fragment
  and the fragments of the packages behind it; nothing that the packages in front of it
  generated is left. If the package has an unknown file type, the install section is its
  failing line alone.
\<close>

theorem additionalPackages_failing_line:
  assumes "AdditionalDownloads recipe = pre @ p # post"
      and "\<forall>i\<in>set pre. knownFileType i"
  shows "(knownFileType p \<and> missingField p
            \<and> (\<forall>i\<in>set post. knownFileType i \<and> \<not> missingField i)
          \<longrightarrow> additionalPackages E recipe
               = failingLine p @ installTemplate E (length pre) p
                 @ fragments E (length pre + 1) post)
         \<and> (\<not> knownFileType p \<longrightarrow> additionalPackages E recipe = failingLine p)"
  using assms
  by (auto simp: additionalPackages_def additionalPackagesLoop_missing
        additionalPackagesLoop_complete additionalPackagesLoop_unknown)

theorem additionalPackages_failing_line_witness:
  "AdditionalDownloads (sampleRecipe\<lparr>AdditionalDownloads := samplePackages\<rparr>)
     = [samplePackages ! 0] @ (samplePackages ! 1) # [samplePackages ! 2]
   \<and> knownFileType (samplePackages ! 0)
   \<and> knownFileType (samplePackages ! 1) \<and> missingField (samplePackages ! 1)
   \<and> knownFileType (samplePackages ! 2) \<and> \<not> missingField (samplePackages ! 2)
   \<and> additionalPackages sampleFiles (sampleRecipe\<lparr>AdditionalDownloads := samplePackages\<rparr>)
       = failingLine (samplePackages ! 1) @ installTemplate sampleFiles 1 (samplePackages ! 1)
         @ fragments sampleFiles 2 [samplePackages ! 2]
   \<and> AdditionalDownloads
        (sampleRecipe\<lparr>AdditionalDownloads :=
           [samplePackages ! 0, (samplePackages ! 1)\<lparr>FileType := ''zip''\<rparr>, samplePackages ! 2]\<rparr>)
      = [samplePackages ! 0] @ (samplePackages ! 1)\<lparr>FileType := ''zip''\<rparr> # [samplePackages ! 2]
   \<and> \<not> knownFileType ((samplePackages ! 1)\<lparr>FileType := ''zip''\<rparr>)
   \<and> additionalPackages sampleFiles
        (sampleRecipe\<lparr>AdditionalDownloads :=
           [samplePackages ! 0, (samplePackages ! 1)\<lparr>FileType := ''zip''\<rparr>, samplePackages ! 2]\<rparr>)
      = ''echo 'Unknown file type zip for package u2'; exit 1''"
proof -
  have d1: "AdditionalDownloads (sampleRecipe\<lparr>AdditionalDownloads := samplePackages\<rparr>)
     = [samplePackages ! 0] @ (samplePackages ! 1) # [samplePackages ! 2]"
    by (simp add: samplePackages_def)
  have d2: "AdditionalDownloads
        (sampleRecipe\<lparr>AdditionalDownloads :=
           [samplePackages ! 0, (samplePackages ! 1)\<lparr>FileType := ''zip''\<rparr>, samplePackages ! 2]\<rparr>)
      = [samplePackages ! 0] @ (samplePackages ! 1)\<lparr>FileType := ''zip''\<rparr> # [samplePackages ! 2]"
    by simp
  have k: "\<forall>i\<in>set [samplePackages ! 0]. knownFileType i"
    by (simp add: samplePackages_def knownFileType_def)
  have p: "knownFileType (samplePackages ! 1) \<and> missingField (samplePackages ! 1)"
    by (simp add: samplePackages_def knownFileType_def missingField_def)
  have q: "knownFileType (samplePackages ! 2) \<and> \<not> missingField (samplePackages ! 2)"
    by (simp add: samplePackages_def knownFileType_def missingField_def)
  have u: "\<not> knownFileType ((samplePackages ! 1)\<lparr>FileType := ''zip''\<rparr>)"
    by (simp add: knownFileType_def)
  have f: "failingLine ((samplePackages ! 1)\<lparr>FileType := ''zip''\<rparr>)
           = ''echo 'Unknown file type zip for package u2'; exit 1''"
    by (simp add: failingLine_def samplePackages_def)
  from additionalPackages_failing_line [OF d1 k, of sampleFiles]
       additionalPackages_failing_line [OF d2 k, of sampleFiles]
       d1 d2 k p q u f
  show ?thesis by (simp add: eval_nat_numeral)
qed

subsection \<open>The loop that passes the pipeline parameters on\<close>

lemma ParamSpec_rebuild:
  "\<lparr>SpecName = SpecName i, SpecType = SpecType i, SpecDescription = SpecDescription i,
    SpecDefault = SpecDefault i\<rparr> = i"
  by (cases i) simp

lemma withPassedParams_Nil: "withPassedParams [] t = t"
  by (simp add: withPassedParams_def)

lemma withPassedParams_Cons:
  "withPassedParams (i # pp) t
   = withPassedParams pp (t\<lparr>Params := Params t @ [passedParam i]\<rparr>)"
  by (simp add: withPassedParams_def)

lemma passParams_two:
  "Tasks ps = [t0, t1] \<Longrightarrow>
   passParams False pp ps
   = ps\<lparr>PipelineParams := PipelineParams ps @ pp,
        Tasks := [withPassedParams pp t0, withPassedParams pp t1]\<rparr>"
proof (induction pp arbitrary: ps t0 t1)
  case Nil
  then show ?case by (simp add: withPassedParams_Nil)
next
  case (Cons i pp)
  let ?ps = "ps\<lparr>PipelineParams := PipelineParams ps @ [i],
                  Tasks := [t0\<lparr>Params := Params t0 @ [passedParam i]\<rparr>,
                            t1\<lparr>Params := Params t1 @ [passedParam i]\<rparr>]\<rparr>"
  have step: "passParams False (i # pp) ps = passParams False pp ?ps"
    using Cons.prems
    by (simp add: Let_def appendTaskParam_def passedParam_def ParamSpec_rebuild)
  have "Tasks ?ps = [t0\<lparr>Params := Params t0 @ [passedParam i]\<rparr>,
                     t1\<lparr>Params := Params t1 @ [passedParam i]\<rparr>]"
    by simp
  from Cons.IH [OF this] step show ?case
    by (simp add: withPassedParams_Cons)
qed

lemma passParams_three:
  "Tasks ps = [t0, t1, t2] \<Longrightarrow>
   passParams True pp ps
   = ps\<lparr>PipelineParams := PipelineParams ps @ pp,
        Tasks := [withPassedParams pp t0, withPassedParams pp t1, withPassedParams pp t2]\<rparr>"
proof (induction pp arbitrary: ps t0 t1 t2)
  case Nil
  then show ?case by (simp add: withPassedParams_Nil)
next
  case (Cons i pp)
  let ?ps = "ps\<lparr>PipelineParams := PipelineParams ps @ [i],
                  Tasks := [t0\<lparr>Params := Params t0 @ [passedParam i]\<rparr>,
                            t1\<lparr>Params := Params t1 @ [passedParam i]\<rparr>,
                            t2\<lparr>Params := Params t2 @ [passedParam i]\<rparr>]\<rparr>"
  have step: "passParams True (i # pp) ps = passParams True pp ?ps"
    using Cons.prems
    by (simp add: Let_def appendTaskParam_def passedParam_def ParamSpec_rebuild)
  have "Tasks ?ps = [t0\<lparr>Params := Params t0 @ [passedParam i]\<rparr>,
                     t1\<lparr>Params := Params t1 @ [passedParam i]\<rparr>,
                     t2\<lparr>Params := Params t2 @ [passedParam i]\<rparr>]"
    by simp
  from Cons.IH [OF this] step show ?case
    by (simp add: withPassedParams_Cons)
qed

lemma Tasks_tasksAndResults:
  "Tasks (tasksAndResults L E N R S limits img tool commitTime jbsConfig recipe db paramValues
            buildRequestProcessorImage buildId existingImages)
   = postBuildPipelineTask L N R S limits img commitTime jbsConfig recipe db
       buildRequestProcessorImage buildId existingImages
     # (if ContainerBuilds jbsConfig
        then containerBuildTask L R jbsConfig recipe buildId existingImages
        else directBuildTask L N R S limits img commitTime jbsConfig recipe db
               buildRequestProcessorImage buildId existingImages)
     # (if preBuildImageRequired recipe existingImages
        then [preBuildTask L E N R S limits img tool commitTime jbsConfig recipe db paramValues
                buildRequestProcessorImage]
        else [])"
  by (simp add: tasksAndResults_def Let_def)

lemma length_tasksAndResults:
  "length (Tasks (tasksAndResults L E N R S limits img tool commitTime jbsConfig recipe db
                    paramValues buildRequestProcessorImage buildId existingImages))
   = (if preBuildImageRequired recipe existingImages then 3 else 2)"
  by (simp add: Tasks_tasksAndResults)

lemma PipelineParams_tasksAndResults:
  "PipelineParams (tasksAndResults L E N R S limits img tool commitTime jbsConfig recipe db
                     paramValues buildRequestProcessorImage buildId existingImages) = []"
  by (simp add: tasksAndResults_def Let_def)

lemma Tasks_pipelineSpec:
  "Tasks (pipelineSpec L E N R S limits img tool commitTime jbsConfig recipe db paramValues
            buildRequestProcessorImage buildId existingImages)
   = map (withPassedParams (pipelineParams N (cacheUrl jbsConfig recipe commitTime)))
       (postBuildPipelineTask L N R S limits img commitTime jbsConfig recipe db
          buildRequestProcessorImage buildId existingImages
        # (if ContainerBuilds jbsConfig
           then containerBuildTask L R jbsConfig recipe buildId existingImages
           else directBuildTask L N R S limits img commitTime jbsConfig recipe db
                  buildRequestProcessorImage buildId existingImages)
        # (if preBuildImageRequired recipe existingImages
           then [preBuildTask L E N R S limits img tool commitTime jbsConfig recipe db
                   paramValues buildRequestProcessorImage]
           else []))"
proof (cases "preBuildImageRequired recipe existingImages")
  case True
  have "Tasks (tasksAndResults L E N R S limits img tool commitTime jbsConfig recipe db
                 paramValues buildRequestProcessorImage buildId existingImages)
        = [postBuildPipelineTask L N R S limits img commitTime jbsConfig recipe db
             buildRequestProcessorImage buildId existingImages,
           if ContainerBuilds jbsConfig
           then containerBuildTask L R jbsConfig recipe buildId existingImages
           else directBuildTask L N R S limits img commitTime jbsConfig recipe db
                  buildRequestProcessorImage buildId existingImages,
           preBuildTask L E N R S limits img tool commitTime jbsConfig recipe db paramValues
             buildRequestProcessorImage]"
    using True by (simp add: Tasks_tasksAndResults)
  from passParams_three [OF this] True show ?thesis
    by (simp add: pipelineSpec_def)
next
  case False
  have "Tasks (tasksAndResults L E N R S limits img tool commitTime jbsConfig recipe db
                 paramValues buildRequestProcessorImage buildId existingImages)
        = [postBuildPipelineTask L N R S limits img commitTime jbsConfig recipe db
             buildRequestProcessorImage buildId existingImages,
           if ContainerBuilds jbsConfig
           then containerBuildTask L R jbsConfig recipe buildId existingImages
           else directBuildTask L N R S limits img commitTime jbsConfig recipe db
                  buildRequestProcessorImage buildId existingImages]"
    using False by (simp add: Tasks_tasksAndResults)
  from passParams_two [OF this] False show ?thesis
    by (simp add: pipelineSpec_def)
qed

lemma PipelineParams_pipelineSpec:
  "PipelineParams (pipelineSpec L E N R S limits img tool commitTime jbsConfig recipe db
                     paramValues buildRequestProcessorImage buildId existingImages)
   = pipelineParams N (cacheUrl jbsConfig recipe commitTime)"
proof (cases "preBuildImageRequired recipe existingImages")
  case True
  have "Tasks (tasksAndResults L E N R S limits img tool commitTime jbsConfig recipe db
                 paramValues buildRequestProcessorImage buildId existingImages)
        = [postBuildPipelineTask L N R S limits img commitTime jbsConfig recipe db
             buildRequestProcessorImage buildId existingImages,
           if ContainerBuilds jbsConfig
           then containerBuildTask L R jbsConfig recipe buildId existingImages
           else directBuildTask L N R S limits img commitTime jbsConfig recipe db
                  buildRequestProcessorImage buildId existingImages,
           preBuildTask L E N R S limits img tool commitTime jbsConfig recipe db paramValues
             buildRequestProcessorImage]"
    using True by (simp add: Tasks_tasksAndResults)
  from passParams_three [OF this] True show ?thesis
    by (simp add: pipelineSpec_def PipelineParams_tasksAndResults)
next
  case False
  have "Tasks (tasksAndResults L E N R S limits img tool commitTime jbsConfig recipe db
                 paramValues buildRequestProcessorImage buildId existingImages)
        = [postBuildPipelineTask L N R S limits img commitTime jbsConfig recipe db
             buildRequestProcessorImage buildId existingImages,
           if ContainerBuilds jbsConfig
           then containerBuildTask L R jbsConfig recipe buildId existingImages
           else directBuildTask L N R S limits img commitTime jbsConfig recipe db
                  buildRequestProcessorImage buildId existingImages]"
    using False by (simp add: Tasks_tasksAndResults)
  from passParams_two [OF this] False show ?thesis
    by (simp add: pipelineSpec_def PipelineParams_tasksAndResults)
qed

lemma withPassedParams_fields:
  "TaskName (withPassedParams pp t) = TaskName t"
  "RunAfter (withPassedParams pp t) = RunAfter t"
  "TaskRef (withPassedParams pp t) = TaskRef t"
  "EmbeddedTask (withPassedParams pp t) = EmbeddedTask t"
  "Params (withPassedParams pp t) = Params t @ map passedParam pp"
  by (simp_all add: withPassedParams_def)

lemma task_names:
  "TaskName (postBuildPipelineTask L N R S limits img commitTime jbsConfig recipe db
               buildRequestProcessorImage buildId existingImages) = ''post-build''"
  "TaskName (containerBuildTask L R jbsConfig recipe buildId existingImages) = ''build''"
  "TaskName (directBuildTask L N R S limits img commitTime jbsConfig recipe db
               buildRequestProcessorImage buildId existingImages) = ''build''"
  "TaskName (preBuildTask L E N R S limits img tool commitTime jbsConfig recipe db paramValues
               buildRequestProcessorImage) = ''pre-build''"
  by (simp_all add: postBuildPipelineTask_def containerBuildTask_def directBuildTask_def
        preBuildTask_def PostBuildTaskName_def BuildTaskName_def PreBuildTaskName_def)

lemma taskNamed_pre_build:
  "taskNamed PreBuildTaskName
     (pipelineSpec L E N R S limits img tool commitTime jbsConfig recipe db paramValues
        buildRequestProcessorImage buildId existingImages)
   = (if preBuildImageRequired recipe existingImages
      then Some (withPassedParams (pipelineParams N (cacheUrl jbsConfig recipe commitTime))
                   (preBuildTask L E N R S limits img tool commitTime jbsConfig recipe db
                      paramValues buildRequestProcessorImage))
      else None)"
  by (simp add: taskNamed_def Tasks_pipelineSpec withPassedParams_fields task_names
        PreBuildTaskName_def)

lemma taskNamed_build:
  "taskNamed BuildTaskName
     (pipelineSpec L E N R S limits img tool commitTime jbsConfig recipe db paramValues
        buildRequestProcessorImage buildId existingImages)
   = Some (withPassedParams (pipelineParams N (cacheUrl jbsConfig recipe commitTime))
             (if ContainerBuilds jbsConfig
              then containerBuildTask L R jbsConfig recipe buildId existingImages
              else directBuildTask L N R S limits img commitTime jbsConfig recipe db
                     buildRequestProcessorImage buildId existingImages))"
  by (simp add: taskNamed_def Tasks_pipelineSpec withPassedParams_fields task_names
        BuildTaskName_def)

lemma build_task_digest:
  "paramNamed (PipelineResultPreBuildImageDigest R)
     (withPassedParams pp
        (directBuildTask L N R S limits img commitTime jbsConfig recipe db
           buildRequestProcessorImage buildId existingImages))
   = Some (stringValue (preBuildImage R recipe existingImages))"
  "paramNamed ''SOURCE_ARTIFACT''
     (withPassedParams pp (containerBuildTask L R jbsConfig recipe buildId existingImages))
   = Some (stringValue (preBuildImage R recipe existingImages))"
  by (simp_all add: paramNamed_def withPassedParams_fields directBuildTask_def
        containerBuildTask_def stringParam_def)

lemma build_task_runAfter:
  "RunAfter (directBuildTask L N R S limits img commitTime jbsConfig recipe db
               buildRequestProcessorImage buildId existingImages)
   = runAfter recipe existingImages"
  "RunAfter (containerBuildTask L R jbsConfig recipe buildId existingImages)
   = runAfter recipe existingImages"
  by (simp_all add: directBuildTask_def containerBuildTask_def)

subsection \<open>The pre-build task and the index of existing images\<close>

lemma memoryLimits_Settings:
  assumes "Settings c1 = Settings c2"
  shows "memoryLimits L c1 a = memoryLimits L c2 a"
  unfolding memoryLimits_def assms by (rule refl)

lemma sample_memoryLimits_container:
  "memoryLimits sampleLibrary (sampleConfig\<lparr>ContainerBuilds := True\<rparr>)
     (additionalMemory sampleRecipe sampleSystem)
   = Return (Inr sampleLimits)"
proof -
  have "Settings (sampleConfig\<lparr>ContainerBuilds := True\<rparr>) = Settings sampleConfig"
    by simp
  from memoryLimits_Settings
         [OF this, of sampleLibrary "additionalMemory sampleRecipe sampleSystem"]
  show ?thesis
    by (simp only: sample_memoryLimits)
qed

text \<open>
  C2, as the claim states it, fails for an index that has the key with an empty value:
  the entry is present, and the task graph still has the pre-build task.
\<close>

theorem empty_index_entry_requires_pre_build:
  "RecipeImage sampleRecipe @ ''-'' @ Tool sampleRecipe
     \<in> dom [''quay.io/builder:1-maven'' \<mapsto> []]
   \<and> (case createPipelineSpec sampleLibrary sampleFiles sampleParamNames sampleResultNames
              sampleSecretNames ''maven'' 17 sampleConfig sampleSystem sampleRecipe sampleBuild
              [] ''quay.io/hacbs-jvm-build-request-processor:dev'' ''build-1''
              [''quay.io/builder:1-maven'' \<mapsto> []] of
         Return (Some ps, d, k, ks, err) \<Rightarrow> taskNamed PreBuildTaskName ps \<noteq> None
       | _ \<Rightarrow> False)"
proof -
  have r: "preBuildImageRequired sampleRecipe [''quay.io/builder:1-maven'' \<mapsto> []]"
    by (simp add: preBuildImageRequired_def mapIndex_def sampleRecipe_def)
  have k: "RecipeImage sampleRecipe @ ''-'' @ Tool sampleRecipe
             \<in> dom [''quay.io/builder:1-maven'' \<mapsto> []]"
    by (simp add: sampleRecipe_def)
  show ?thesis
    unfolding createPipelineSpec_success [OF sample_memoryLimits sample_trustedArtifactsImage]
    using k r by (simp add: taskNamed_pre_build)
qed

text \<open>
  C2, amended: the task graph has a pre-build task if and only if the index of existing
  images has no entry for the key, or an empty one. With a non-empty entry the build
  task runs after no task and its digest parameter is the entry; otherwise it runs
  after the pre-build task and its digest parameter is the reference to the result of
  that task. The digest parameter is \<^verbatim>\<open>SOURCE_ARTIFACT\<close> for a container build and
  the parameter named like the digest result for a direct build.
\<close>

theorem pre_build_task_iff_no_image:
  assumes "createPipelineSpec L E N R S tool commitTime jbsConfig systemConfig recipe db
             paramValues buildRequestProcessorImage buildId existingImages
           = Return (Some ps, d, k, ks, err)"
  shows "(taskNamed PreBuildTaskName ps \<noteq> None)
           = (mapIndex existingImages (RecipeImage recipe @ ''-'' @ Tool recipe) = [])
         \<and> (\<exists>b. taskNamed BuildTaskName ps = Some b
                \<and> RunAfter b
                    = (if mapIndex existingImages (RecipeImage recipe @ ''-'' @ Tool recipe) = []
                       then [PreBuildTaskName] else [])
                \<and> paramNamed
                      (if ContainerBuilds jbsConfig then ''SOURCE_ARTIFACT''
                       else PipelineResultPreBuildImageDigest R) b
                    = Some (stringValue
                        (if mapIndex existingImages (RecipeImage recipe @ ''-'' @ Tool recipe) = []
                         then ''$(tasks.'' @ PreBuildTaskName @ ''.results.''
                              @ PipelineResultPreBuildImageDigest R @ '')''
                         else mapIndex existingImages (RecipeImage recipe @ ''-'' @ Tool recipe))))"
proof -
  obtain limits img where
    ps: "ps = pipelineSpec L E N R S limits img tool commitTime jbsConfig recipe db
                paramValues buildRequestProcessorImage buildId existingImages"
    using createPipelineSpec_plan [OF assms] by blast
  have pre: "(taskNamed PreBuildTaskName ps \<noteq> None)
             = (mapIndex existingImages (RecipeImage recipe @ ''-'' @ Tool recipe) = [])"
    by (simp add: ps taskNamed_pre_build preBuildImageRequired_def)
  have after: "runAfter recipe existingImages
               = (if mapIndex existingImages (RecipeImage recipe @ ''-'' @ Tool recipe) = []
                  then [PreBuildTaskName] else [])"
    by (simp add: runAfter_def preBuildImageRequired_def)
  have image: "preBuildImage R recipe existingImages
               = (if mapIndex existingImages (RecipeImage recipe @ ''-'' @ Tool recipe) = []
                  then ''$(tasks.'' @ PreBuildTaskName @ ''.results.''
                       @ PipelineResultPreBuildImageDigest R @ '')''
                  else mapIndex existingImages (RecipeImage recipe @ ''-'' @ Tool recipe))"
    by (simp add: preBuildImage_def preBuildImageRequired_def)
  show ?thesis
  proof (cases "ContainerBuilds jbsConfig")
    case True
    then show ?thesis
      using pre
      by (simp add: ps taskNamed_build withPassedParams_fields build_task_runAfter
            build_task_digest after image)
  next
    case False
    then show ?thesis
      using pre
      by (simp add: ps taskNamed_build withPassedParams_fields build_task_runAfter
            build_task_digest after image)
  qed
qed

theorem pre_build_task_iff_no_image_witness:
  "createPipelineSpec sampleLibrary sampleFiles sampleParamNames sampleResultNames
     sampleSecretNames ''maven'' 17 sampleConfig sampleSystem sampleRecipe sampleBuild []
     ''quay.io/hacbs-jvm-build-request-processor:dev'' ''build-1''
     [''quay.io/builder:1-maven'' \<mapsto> ''oci:quay.io/acme/img@sha256:0a'']
   = Return
       (Some (pipelineSpec sampleLibrary sampleFiles sampleParamNames sampleResultNames
                sampleSecretNames
                sampleLimits
                ''quay.io/konflux-ci/build-trusted-artifacts:latest'' ''maven'' 17 sampleConfig
                sampleRecipe sampleBuild [] ''quay.io/hacbs-jvm-build-request-processor:dev''
                ''build-1'' [''quay.io/builder:1-maven'' \<mapsto> ''oci:quay.io/acme/img@sha256:0a'']),
        df sampleLibrary sampleFiles sampleParamNames ''maven'' sampleRecipe sampleBuild [] 17
          ''quay.io/hacbs-jvm-build-request-processor:dev'',
        kf ''maven'' sampleRecipe 17 ''quay.io/hacbs-jvm-build-request-processor:dev'',
        konfluxScript sampleLibrary sampleFiles sampleParamNames ''maven'' sampleRecipe
          sampleBuild [] 17,
        None)
   \<and> mapIndex [''quay.io/builder:1-maven'' \<mapsto> ''oci:quay.io/acme/img@sha256:0a'']
        (RecipeImage sampleRecipe @ ''-'' @ Tool sampleRecipe)
      = ''oci:quay.io/acme/img@sha256:0a''
   \<and> taskNamed PreBuildTaskName
        (pipelineSpec sampleLibrary sampleFiles sampleParamNames sampleResultNames
           sampleSecretNames
           sampleLimits
           ''quay.io/konflux-ci/build-trusted-artifacts:latest'' ''maven'' 17 sampleConfig
           sampleRecipe sampleBuild [] ''quay.io/hacbs-jvm-build-request-processor:dev''
           ''build-1'' [''quay.io/builder:1-maven'' \<mapsto> ''oci:quay.io/acme/img@sha256:0a''])
      = None
   \<and> (\<exists>b. taskNamed BuildTaskName
              (pipelineSpec sampleLibrary sampleFiles sampleParamNames sampleResultNames
                 sampleSecretNames
                 sampleLimits
                 ''quay.io/konflux-ci/build-trusted-artifacts:latest'' ''maven'' 17 sampleConfig
                 sampleRecipe sampleBuild [] ''quay.io/hacbs-jvm-build-request-processor:dev''
                 ''build-1''
                 [''quay.io/builder:1-maven'' \<mapsto> ''oci:quay.io/acme/img@sha256:0a''])
            = Some b
          \<and> RunAfter b = []
          \<and> paramNamed ''PRE_BUILD_IMAGE_DIGEST'' b
              = Some (stringValue ''oci:quay.io/acme/img@sha256:0a''))"
proof -
  have run: "createPipelineSpec sampleLibrary sampleFiles sampleParamNames sampleResultNames
     sampleSecretNames ''maven'' 17 sampleConfig sampleSystem sampleRecipe sampleBuild []
     ''quay.io/hacbs-jvm-build-request-processor:dev'' ''build-1''
     [''quay.io/builder:1-maven'' \<mapsto> ''oci:quay.io/acme/img@sha256:0a'']
   = Return
       (Some (pipelineSpec sampleLibrary sampleFiles sampleParamNames sampleResultNames
                sampleSecretNames
                sampleLimits
                ''quay.io/konflux-ci/build-trusted-artifacts:latest'' ''maven'' 17 sampleConfig
                sampleRecipe sampleBuild [] ''quay.io/hacbs-jvm-build-request-processor:dev''
                ''build-1'' [''quay.io/builder:1-maven'' \<mapsto> ''oci:quay.io/acme/img@sha256:0a'']),
        df sampleLibrary sampleFiles sampleParamNames ''maven'' sampleRecipe sampleBuild [] 17
          ''quay.io/hacbs-jvm-build-request-processor:dev'',
        kf ''maven'' sampleRecipe 17 ''quay.io/hacbs-jvm-build-request-processor:dev'',
        konfluxScript sampleLibrary sampleFiles sampleParamNames ''maven'' sampleRecipe
          sampleBuild [] 17,
        None)"
    by (rule createPipelineSpec_success [OF sample_memoryLimits sample_trustedArtifactsImage])
  have key: "mapIndex [''quay.io/builder:1-maven'' \<mapsto> ''oci:quay.io/acme/img@sha256:0a'']
        (RecipeImage sampleRecipe @ ''-'' @ Tool sampleRecipe)
      = ''oci:quay.io/acme/img@sha256:0a''"
    by (simp add: mapIndex_def sampleRecipe_def)
  have c: "\<not> ContainerBuilds sampleConfig"
    by (simp add: sampleConfig_def)
  have n: "PipelineResultPreBuildImageDigest sampleResultNames = ''PRE_BUILD_IMAGE_DIGEST''"
    by (simp add: sampleResultNames_def)
  from pre_build_task_iff_no_image [OF run] run key show ?thesis
    unfolding key by (simp add: c n)
qed

subsection \<open>Which tasks receive the pipeline parameters\<close>

lemma passed_pipelineParams:
  "map passedParam (pipelineParams N url)
   = [stringParam (PipelineBuildId N) (''$(params.'' @ PipelineBuildId N @ '')''),
      stringParam (PipelineParamScmUrl N) (''$(params.'' @ PipelineParamScmUrl N @ '')''),
      stringParam (PipelineParamScmTag N) (''$(params.'' @ PipelineParamScmTag N @ '')''),
      stringParam (PipelineParamScmHash N) (''$(params.'' @ PipelineParamScmHash N @ '')''),
      stringParam (PipelineParamChainsGitUrl N)
        (''$(params.'' @ PipelineParamChainsGitUrl N @ '')''),
      stringParam (PipelineParamChainsGitCommit N)
        (''$(params.'' @ PipelineParamChainsGitCommit N @ '')''),
      \<lparr>ParamName = PipelineParamGoals N,
       Value = \<lparr>ValueType = ParamTypeArray, StringVal = [],
                ArrayVal = [''$(params.'' @ PipelineParamGoals N @ ''[*])'']\<rparr>\<rparr>,
      stringParam (PipelineParamJavaVersion N)
        (''$(params.'' @ PipelineParamJavaVersion N @ '')''),
      stringParam (PipelineParamToolVersion N)
        (''$(params.'' @ PipelineParamToolVersion N @ '')''),
      stringParam (PipelineParamPath N) (''$(params.'' @ PipelineParamPath N @ '')''),
      stringParam (PipelineParamEnforceVersion N)
        (''$(params.'' @ PipelineParamEnforceVersion N @ '')''),
      stringParam (PipelineParamProjectVersion N)
        (''$(params.'' @ PipelineParamProjectVersion N @ '')''),
      stringParam (PipelineParamCacheUrl N) (''$(params.'' @ PipelineParamCacheUrl N @ '')'')]"
  by (simp add: pipelineParams_def passedParam_def paramReference_def stringParamSpec_def
        stringParam_def stringValue_def ParamTypeString_def ParamTypeArray_def)

lemma embedded_tasks:
  "EmbeddedTask (postBuildPipelineTask L N R S limits img commitTime jbsConfig recipe db
                   buildRequestProcessorImage buildId existingImages)
   = Some (postBuildTask L N R S limits img commitTime jbsConfig recipe db
             buildRequestProcessorImage buildId)"
  "EmbeddedTask (directBuildTask L N R S limits img commitTime jbsConfig recipe db
                   buildRequestProcessorImage buildId existingImages)
   = Some (buildTask L N R S limits img commitTime jbsConfig recipe db
             buildRequestProcessorImage buildId)"
  "EmbeddedTask (preBuildTask L E N R S limits img tool commitTime jbsConfig recipe db
                   paramValues buildRequestProcessorImage)
   = Some (buildSetup L E N R S limits img tool commitTime jbsConfig recipe db paramValues
             buildRequestProcessorImage)"
  "EmbeddedTask (containerBuildTask L R jbsConfig recipe buildId existingImages) = None"
  by (simp_all add: postBuildPipelineTask_def directBuildTask_def preBuildTask_def
        containerBuildTask_def)

lemma declared_params:
  "TaskParams (postBuildTask L N R S limits img commitTime jbsConfig recipe db
                 buildRequestProcessorImage buildId)
   = pipelineParams N (cacheUrl jbsConfig recipe commitTime)
     @ [stringParamSpec (PipelineResultPreBuildImageDigest R)]"
  "TaskParams (buildTask L N R S limits img commitTime jbsConfig recipe db
                 buildRequestProcessorImage buildId)
   = pipelineParams N (cacheUrl jbsConfig recipe commitTime)
     @ [stringParamSpec (PipelineResultPreBuildImageDigest R)]"
  "TaskParams (buildSetup L E N R S limits img tool commitTime jbsConfig recipe db paramValues
                 buildRequestProcessorImage)
   = pipelineParams N (cacheUrl jbsConfig recipe commitTime)"
  by (simp_all add: postBuildTask_def buildTask_def buildSetup_def)

text \<open>
  C5, as the claim states it, fails for a container build: the build task is a reference
  to the remote task, it declares no parameter in the task graph, and the loop still
  appends every pipeline parameter to it.
\<close>

theorem remote_build_task_receives_params:
  "(case createPipelineSpec sampleLibrary sampleFiles sampleParamNames sampleResultNames
           sampleSecretNames ''maven'' 17 (sampleConfig\<lparr>ContainerBuilds := True\<rparr>)
           sampleSystem sampleRecipe sampleBuild []
           ''quay.io/hacbs-jvm-build-request-processor:dev'' ''build-1'' Map.empty of
      Return (Some ps, d, k, ks, err) \<Rightarrow>
        (case taskNamed BuildTaskName ps of
           Some b \<Rightarrow>
             EmbeddedTask b = None
             \<and> paramNamed ''DEPENDENCY_BUILD'' b
                 = Some (stringValue ''$(params.DEPENDENCY_BUILD)'')
             \<and> paramNamed ''GOALS'' b
                 = Some \<lparr>ValueType = ParamTypeArray, StringVal = [],
                          ArrayVal = [''$(params.GOALS[*])'']\<rparr>
         | None \<Rightarrow> False)
    | _ \<Rightarrow> False)"
proof -
  have c: "ContainerBuilds (sampleConfig\<lparr>ContainerBuilds := True\<rparr>)"
    by simp
  have p: "Params (withPassedParams (pipelineParams sampleParamNames url)
                     (containerBuildTask sampleLibrary sampleResultNames
                        (sampleConfig\<lparr>ContainerBuilds := True\<rparr>) sampleRecipe ''build-1''
                        Map.empty))
           = Params (containerBuildTask sampleLibrary sampleResultNames
                       (sampleConfig\<lparr>ContainerBuilds := True\<rparr>) sampleRecipe ''build-1''
                       Map.empty)
             @ map passedParam (pipelineParams sampleParamNames url)" for url
    by (simp add: withPassedParams_fields)
  show ?thesis
    unfolding createPipelineSpec_success
      [OF sample_memoryLimits_container sample_trustedArtifactsImage]
    by (simp add: taskNamed_build c withPassedParams_fields embedded_tasks paramNamed_def
          passed_pipelineParams containerBuildTask_def stringParam_def sampleParamNames_def)
qed

text \<open>
  C5, amended: the loop appends every pipeline parameter, in the order of the
  declaration, to every task of the graph: post-build, build and, when it is there,
  pre-build. A string parameter is passed as \<^verbatim>\<open>$(params.name)\<close>, the array parameter
  (the goals) as the one-element array \<^verbatim>\<open>$(params.name[*])\<close>. In a direct build every
  task embeds a specification that declares all of them; in a container build the build
  task is the reference to the remote task, which declares none in the graph and
  receives them all the same.
\<close>

theorem pipeline_params_passed_to_every_task:
  assumes "createPipelineSpec L E N R S tool commitTime jbsConfig systemConfig recipe db
             paramValues buildRequestProcessorImage buildId existingImages
           = Return (Some ps, d, k, ks, err)"
  shows "\<exists>limits img.
           PipelineParams ps = pipelineParams N (cacheUrl jbsConfig recipe commitTime)
           \<and> Tasks ps
               = map (withPassedParams (pipelineParams N (cacheUrl jbsConfig recipe commitTime)))
                   (postBuildPipelineTask L N R S limits img commitTime jbsConfig recipe db
                      buildRequestProcessorImage buildId existingImages
                    # (if ContainerBuilds jbsConfig
                       then containerBuildTask L R jbsConfig recipe buildId existingImages
                       else directBuildTask L N R S limits img commitTime jbsConfig recipe db
                              buildRequestProcessorImage buildId existingImages)
                    # (if preBuildImageRequired recipe existingImages
                       then [preBuildTask L E N R S limits img tool commitTime jbsConfig recipe
                               db paramValues buildRequestProcessorImage]
                       else []))
           \<and> map passedParam (pipelineParams N (cacheUrl jbsConfig recipe commitTime))
               = [stringParam (PipelineBuildId N) (''$(params.'' @ PipelineBuildId N @ '')''),
                  stringParam (PipelineParamScmUrl N)
                    (''$(params.'' @ PipelineParamScmUrl N @ '')''),
                  stringParam (PipelineParamScmTag N)
                    (''$(params.'' @ PipelineParamScmTag N @ '')''),
                  stringParam (PipelineParamScmHash N)
                    (''$(params.'' @ PipelineParamScmHash N @ '')''),
                  stringParam (PipelineParamChainsGitUrl N)
                    (''$(params.'' @ PipelineParamChainsGitUrl N @ '')''),
                  stringParam (PipelineParamChainsGitCommit N)
                    (''$(params.'' @ PipelineParamChainsGitCommit N @ '')''),
                  \<lparr>ParamName = PipelineParamGoals N,
                   Value = \<lparr>ValueType = ParamTypeArray, StringVal = [],
                            ArrayVal = [''$(params.'' @ PipelineParamGoals N @ ''[*])'']\<rparr>\<rparr>,
                  stringParam (PipelineParamJavaVersion N)
                    (''$(params.'' @ PipelineParamJavaVersion N @ '')''),
                  stringParam (PipelineParamToolVersion N)
                    (''$(params.'' @ PipelineParamToolVersion N @ '')''),
                  stringParam (PipelineParamPath N)
                    (''$(params.'' @ PipelineParamPath N @ '')''),
                  stringParam (PipelineParamEnforceVersion N)
                    (''$(params.'' @ PipelineParamEnforceVersion N @ '')''),
                  stringParam (PipelineParamProjectVersion N)
                    (''$(params.'' @ PipelineParamProjectVersion N @ '')''),
                  stringParam (PipelineParamCacheUrl N)
                    (''$(params.'' @ PipelineParamCacheUrl N @ '')'')]
           \<and> (\<not> ContainerBuilds jbsConfig \<longrightarrow>
                (\<forall>t\<in>set (Tasks ps).
                   \<exists>spec. EmbeddedTask t = Some spec
                     \<and> set (pipelineParams N (cacheUrl jbsConfig recipe commitTime))
                         \<subseteq> set (TaskParams spec)))
           \<and> (ContainerBuilds jbsConfig \<longrightarrow>
                TaskName (Tasks ps ! 1) = BuildTaskName \<and> EmbeddedTask (Tasks ps ! 1) = None)"
proof -
  obtain limits img where
    ps: "ps = pipelineSpec L E N R S limits img tool commitTime jbsConfig recipe db
                paramValues buildRequestProcessorImage buildId existingImages"
    using createPipelineSpec_plan [OF assms] by blast
  have declared: "\<not> ContainerBuilds jbsConfig \<longrightarrow>
                (\<forall>t\<in>set (Tasks ps).
                   \<exists>spec. EmbeddedTask t = Some spec
                     \<and> set (pipelineParams N (cacheUrl jbsConfig recipe commitTime))
                         \<subseteq> set (TaskParams spec))"
    by (auto simp: ps Tasks_pipelineSpec withPassedParams_fields embedded_tasks
          declared_params)
  have remote: "ContainerBuilds jbsConfig \<longrightarrow>
                TaskName (Tasks ps ! 1) = BuildTaskName \<and> EmbeddedTask (Tasks ps ! 1) = None"
    by (simp add: ps Tasks_pipelineSpec withPassedParams_fields embedded_tasks task_names
          BuildTaskName_def)
  from declared remote show ?thesis
    unfolding ps
    by (intro exI [of _ limits] exI [of _ img] conjI)
       (simp_all only: PipelineParams_pipelineSpec Tasks_pipelineSpec passed_pipelineParams)
qed

theorem pipeline_params_passed_to_every_task_witness:
  "createPipelineSpec sampleLibrary sampleFiles sampleParamNames sampleResultNames
     sampleSecretNames ''maven'' 17 sampleConfig sampleSystem sampleRecipe sampleBuild []
     ''quay.io/hacbs-jvm-build-request-processor:dev'' ''build-1'' Map.empty
   = Return
       (Some (pipelineSpec sampleLibrary sampleFiles sampleParamNames sampleResultNames
                sampleSecretNames
                sampleLimits
                ''quay.io/konflux-ci/build-trusted-artifacts:latest'' ''maven'' 17 sampleConfig
                sampleRecipe sampleBuild [] ''quay.io/hacbs-jvm-build-request-processor:dev''
                ''build-1'' Map.empty),
        df sampleLibrary sampleFiles sampleParamNames ''maven'' sampleRecipe sampleBuild [] 17
          ''quay.io/hacbs-jvm-build-request-processor:dev'',
        kf ''maven'' sampleRecipe 17 ''quay.io/hacbs-jvm-build-request-processor:dev'',
        konfluxScript sampleLibrary sampleFiles sampleParamNames ''maven'' sampleRecipe
          sampleBuild [] 17,
        None)
   \<and> map (\<lambda>t. (TaskName t, map ParamName (Params t)))
        (Tasks (pipelineSpec sampleLibrary sampleFiles sampleParamNames sampleResultNames
                  sampleSecretNames
                  sampleLimits
                  ''quay.io/konflux-ci/build-trusted-artifacts:latest'' ''maven'' 17
                  sampleConfig sampleRecipe sampleBuild []
                  ''quay.io/hacbs-jvm-build-request-processor:dev'' ''build-1'' Map.empty))
      = [(''post-build'',
          [''PRE_BUILD_IMAGE_DIGEST'', ''DEPENDENCY_BUILD'', ''URL'', ''TAG'', ''HASH'',
           ''CHAINS-GIT_URL'', ''CHAINS-GIT_COMMIT'', ''GOALS'', ''JAVA_VERSION'',
           ''TOOL_VERSION'', ''CONTEXT_DIR'', ''ENFORCE_VERSION'', ''PROJECT_VERSION'',
           ''CACHE_URL'']),
         (''build'',
          [''PRE_BUILD_IMAGE_DIGEST'', ''DEPENDENCY_BUILD'', ''URL'', ''TAG'', ''HASH'',
           ''CHAINS-GIT_URL'', ''CHAINS-GIT_COMMIT'', ''GOALS'', ''JAVA_VERSION'',
           ''TOOL_VERSION'', ''CONTEXT_DIR'', ''ENFORCE_VERSION'', ''PROJECT_VERSION'',
           ''CACHE_URL'']),
         (''pre-build'',
          [''DEPENDENCY_BUILD'', ''URL'', ''TAG'', ''HASH'', ''CHAINS-GIT_URL'',
           ''CHAINS-GIT_COMMIT'', ''GOALS'', ''JAVA_VERSION'', ''TOOL_VERSION'',
           ''CONTEXT_DIR'', ''ENFORCE_VERSION'', ''PROJECT_VERSION'', ''CACHE_URL''])]"
proof -
  let ?limits = "sampleLimits"
  let ?ps = "pipelineSpec sampleLibrary sampleFiles sampleParamNames sampleResultNames
               sampleSecretNames ?limits
               ''quay.io/konflux-ci/build-trusted-artifacts:latest'' ''maven'' 17 sampleConfig
               sampleRecipe sampleBuild [] ''quay.io/hacbs-jvm-build-request-processor:dev''
               ''build-1'' Map.empty"
  let ?pp = "pipelineParams sampleParamNames (cacheUrl sampleConfig sampleRecipe 17)"
  have run: "createPipelineSpec sampleLibrary sampleFiles sampleParamNames sampleResultNames
     sampleSecretNames ''maven'' 17 sampleConfig sampleSystem sampleRecipe sampleBuild []
     ''quay.io/hacbs-jvm-build-request-processor:dev'' ''build-1'' Map.empty
   = Return
       (Some ?ps,
        df sampleLibrary sampleFiles sampleParamNames ''maven'' sampleRecipe sampleBuild [] 17
          ''quay.io/hacbs-jvm-build-request-processor:dev'',
        kf ''maven'' sampleRecipe 17 ''quay.io/hacbs-jvm-build-request-processor:dev'',
        konfluxScript sampleLibrary sampleFiles sampleParamNames ''maven'' sampleRecipe
          sampleBuild [] 17,
        None)"
    by (rule createPipelineSpec_success [OF sample_memoryLimits sample_trustedArtifactsImage])
  have c: "\<not> ContainerBuilds sampleConfig"
    by (simp add: sampleConfig_def)
  have r: "preBuildImageRequired sampleRecipe Map.empty"
    by (simp add: preBuildImageRequired_def mapIndex_def)
  from pipeline_params_passed_to_every_task [OF run] obtain limits img where
    t: "Tasks ?ps
        = map (withPassedParams ?pp)
            (postBuildPipelineTask sampleLibrary sampleParamNames sampleResultNames
               sampleSecretNames limits img 17 sampleConfig sampleRecipe sampleBuild
               ''quay.io/hacbs-jvm-build-request-processor:dev'' ''build-1'' Map.empty
             # (if ContainerBuilds sampleConfig
                then containerBuildTask sampleLibrary sampleResultNames sampleConfig
                       sampleRecipe ''build-1'' Map.empty
                else directBuildTask sampleLibrary sampleParamNames sampleResultNames
                       sampleSecretNames limits img 17 sampleConfig sampleRecipe sampleBuild
                       ''quay.io/hacbs-jvm-build-request-processor:dev'' ''build-1'' Map.empty)
             # (if preBuildImageRequired sampleRecipe Map.empty
                then [preBuildTask sampleLibrary sampleFiles sampleParamNames sampleResultNames
                        sampleSecretNames limits img ''maven'' 17 sampleConfig sampleRecipe
                        sampleBuild [] ''quay.io/hacbs-jvm-build-request-processor:dev'']
                else []))"
    by blast
  have names: "map ParamName (map passedParam ?pp)
               = [''DEPENDENCY_BUILD'', ''URL'', ''TAG'', ''HASH'', ''CHAINS-GIT_URL'',
                  ''CHAINS-GIT_COMMIT'', ''GOALS'', ''JAVA_VERSION'', ''TOOL_VERSION'',
                  ''CONTEXT_DIR'', ''ENFORCE_VERSION'', ''PROJECT_VERSION'', ''CACHE_URL'']"
    by (simp add: passed_pipelineParams stringParam_def sampleParamNames_def)
  have own: "map ParamName
               (Params (postBuildPipelineTask sampleLibrary sampleParamNames sampleResultNames
                  sampleSecretNames limits img 17 sampleConfig sampleRecipe sampleBuild
                  ''quay.io/hacbs-jvm-build-request-processor:dev'' ''build-1'' Map.empty))
             = [''PRE_BUILD_IMAGE_DIGEST'']"
    "map ParamName
       (Params (directBuildTask sampleLibrary sampleParamNames sampleResultNames
          sampleSecretNames limits img 17 sampleConfig sampleRecipe sampleBuild
          ''quay.io/hacbs-jvm-build-request-processor:dev'' ''build-1'' Map.empty))
     = [''PRE_BUILD_IMAGE_DIGEST'']"
    "map ParamName
       (Params (preBuildTask sampleLibrary sampleFiles sampleParamNames sampleResultNames
          sampleSecretNames limits img ''maven'' 17 sampleConfig sampleRecipe sampleBuild []
          ''quay.io/hacbs-jvm-build-request-processor:dev''))
     = []"
    by (simp_all add: postBuildPipelineTask_def directBuildTask_def preBuildTask_def
          stringParam_def sampleResultNames_def)
  have "map (\<lambda>t. (TaskName t, map ParamName (Params t))) (Tasks ?ps)
        = [(''post-build'', ''PRE_BUILD_IMAGE_DIGEST'' # map ParamName (map passedParam ?pp)),
           (''build'', ''PRE_BUILD_IMAGE_DIGEST'' # map ParamName (map passedParam ?pp)),
           (''pre-build'', map ParamName (map passedParam ?pp))]"
    unfolding t using c r own
    by (simp add: withPassedParams_fields task_names)
  with run show ?thesis
    unfolding names by simp
qed

subsection \<open>The script in the three artifacts\<close>

lemma sublist_skip: "sublist xs ys \<Longrightarrow> sublist xs (zs @ ys)"
  by (metis append.assoc sublist_def)

lemma sublist_here: "sublist (x @ y @ z) (x @ y @ z @ r)"
  by (metis append.assoc sublist_append_rightI)

lemma df_embeds_buildScript:
  "sublist
     (''\<newline>RUN echo '' @ EncodeToString (buildScript L E tool recipe paramValues commitTime)
      @ '' | base64 -d >/var/workdir/build.sh'')
     (df L E N tool recipe db paramValues commitTime buildRequestProcessorImage)"
  unfolding df_def
  by (rule sublist_here | rule sublist_skip)+

lemma buildSetup_scripts:
  "Script (Steps (buildSetup L E N R S limits img tool commitTime jbsConfig recipe db
                    paramValues buildRequestProcessorImage) ! 0)
   = gitScript N db recipe @ ''\<newline>'' @ createBuildScript (build L E tool recipe)"
  "Script (Steps (buildSetup L E N R S limits img tool commitTime jbsConfig recipe db
                    paramValues buildRequestProcessorImage) ! 2)
   = createKonfluxScripts (kf tool recipe commitTime buildRequestProcessorImage)
       (konfluxScript L E N tool recipe db paramValues commitTime)
     @ ''\<newline>''
     @ InstallKeystoreIntoBuildRequestProcessor L [konfluxArgs L (Name db) db jbsConfig]"
  by (simp_all add: buildSetup_def emptyStep_def)

lemma sample_build:
  \<open>build sampleLibrary sampleFiles ''maven'' sampleRecipe
   = ''# keystore\<newline>\<newline>ls $(workspaces.source.path)\<newline># settings\<newline>mvn "$@"\<newline>true''\<close>
  by code_simp

lemma sample_buildScript:
  \<open>buildScript sampleLibrary sampleFiles ''maven'' sampleRecipe [] 17
   = ''# keystore\<newline>\<newline>ls /var/workdir/workspace\<newline># settings\<newline>mvn "$@"\<newline>true''\<close>
  by code_simp

text \<open>
  C1, as the claim states it, fails: for the sample recipe, whose pre-build script names
  the source workspace, the script that the pre-build task writes to \<^verbatim>\<open>build.sh\<close>
  keeps the reference \<^verbatim>\<open>$(workspaces.source.path)\<close>, and the script of the
  diagnostic container file and of \<^verbatim>\<open>run-build.sh\<close> has the local path in its place.
\<close>

theorem build_script_differs_from_diagnostic:
  \<open>(case createPipelineSpec sampleLibrary sampleFiles sampleParamNames sampleResultNames
           sampleSecretNames ''maven'' 17 sampleConfig sampleSystem sampleRecipe sampleBuild []
           ''quay.io/hacbs-jvm-build-request-processor:dev'' ''build-1'' Map.empty of
      Return (Some ps, d, k, ks, err) \<Rightarrow>
        (case taskNamed PreBuildTaskName ps of
           Some pre \<Rightarrow>
             (case EmbeddedTask pre of
                Some spec \<Rightarrow>
                  Script (Steps spec ! 0)
                  = gitScript sampleParamNames sampleBuild sampleRecipe @ ''\<newline>''
                    @ createBuildScript
                        ''# keystore\<newline>\<newline>ls $(workspaces.source.path)\<newline># settings\<newline>mvn "$@"\<newline>true''
              | None \<Rightarrow> False)
         | None \<Rightarrow> False)
        \<and> ks = ''#!/bin/sh\<newline>'' @ envVars sampleParamNames sampleRecipe sampleBuild
                 @ ''\<newline>set -- "$@" '' @ cmdArgs sampleParamNames [] @ ''\<newline>\<newline>''
                 @ ''# keystore\<newline>\<newline>ls /var/workdir/workspace\<newline># settings\<newline>mvn "$@"\<newline>true''
        \<and> sublist
             (''\<newline>RUN echo ''
              @ EncodeToString
                  ''# keystore\<newline>\<newline>ls /var/workdir/workspace\<newline># settings\<newline>mvn "$@"\<newline>true''
              @ '' | base64 -d >/var/workdir/build.sh'') d
    | _ \<Rightarrow> False)
   \<and> ''# keystore\<newline>\<newline>ls $(workspaces.source.path)\<newline># settings\<newline>mvn "$@"\<newline>true''
       \<noteq> ''# keystore\<newline>\<newline>ls /var/workdir/workspace\<newline># settings\<newline>mvn "$@"\<newline>true''\<close>
proof -
  have r: "preBuildImageRequired sampleRecipe Map.empty"
    by (simp add: preBuildImageRequired_def mapIndex_def)
  have d: "sublist
             (''\<newline>RUN echo ''
              @ EncodeToString
                  (buildScript sampleLibrary sampleFiles ''maven'' sampleRecipe [] 17)
              @ '' | base64 -d >/var/workdir/build.sh'')
             (df sampleLibrary sampleFiles sampleParamNames ''maven'' sampleRecipe sampleBuild
                [] 17 ''quay.io/hacbs-jvm-build-request-processor:dev'')"
    by (rule df_embeds_buildScript)
  have ks: "konfluxScript sampleLibrary sampleFiles sampleParamNames ''maven'' sampleRecipe
              sampleBuild [] 17
            = ''#!/bin/sh\<newline>'' @ envVars sampleParamNames sampleRecipe sampleBuild
              @ [CHR 0x0A] @ ''set -- '' @ [CHR 0x22] @ ''$@'' @ [CHR 0x22] @ '' ''
              @ cmdArgs sampleParamNames [] @ ''\<newline>\<newline>''
              @ buildScript sampleLibrary sampleFiles ''maven'' sampleRecipe [] 17"
    by (simp add: konfluxScript_def)
  have s: "Script (Steps (buildSetup sampleLibrary sampleFiles sampleParamNames
                     sampleResultNames sampleSecretNames limits img ''maven'' 17 sampleConfig
                     sampleRecipe sampleBuild []
                     ''quay.io/hacbs-jvm-build-request-processor:dev'') ! 0)
           = gitScript sampleParamNames sampleBuild sampleRecipe @ ''\<newline>''
             @ createBuildScript (build sampleLibrary sampleFiles ''maven'' sampleRecipe)"
    for limits :: "(int, int) Quantity memLimits" and img
    by (rule buildSetup_scripts)
  show ?thesis
    unfolding createPipelineSpec_success [OF sample_memoryLimits sample_trustedArtifactsImage]
    using r d ks s
    by (simp add: taskNamed_pre_build withPassedParams_fields embedded_tasks sample_build
          sample_buildScript)
qed

text \<open>
  C1, amended: when plan generation succeeds, the diagnostic container file holds, in
  base 64, the same text with which the script of Konflux (\<^verbatim>\<open>run-build.sh\<close>) ends:
  the assembled script after \<^verbatim>\<open>doSubstitution\<close>. When the pre-build task is
  required, its first step writes the assembled script before that substitution to
  \<^verbatim>\<open>build.sh\<close>, and its third step writes the container file and the script of
  Konflux as they are returned. So the three texts are the same text exactly when the
  substitution leaves the assembled script as it is.
\<close>

theorem scripts_in_artifacts:
  assumes "createPipelineSpec L E N R S tool commitTime jbsConfig systemConfig recipe db
             paramValues buildRequestProcessorImage buildId existingImages
           = Return (Some ps, d, k, ks, err)"
  shows \<open>ks = ''#!/bin/sh\<newline>'' @ envVars N recipe db @ ''\<newline>set -- "$@" ''
              @ cmdArgs N paramValues @ ''\<newline>\<newline>''
              @ doSubstitution (build L E tool recipe) paramValues commitTime (buildRepos recipe)
         \<and> sublist
              (''\<newline>RUN echo ''
               @ EncodeToString
                   (doSubstitution (build L E tool recipe) paramValues commitTime
                      (buildRepos recipe))
               @ '' | base64 -d >/var/workdir/build.sh'') d
         \<and> (preBuildImageRequired recipe existingImages \<longrightarrow>
              (\<exists>pre spec.
                 taskNamed PreBuildTaskName ps = Some pre
                 \<and> EmbeddedTask pre = Some spec
                 \<and> Script (Steps spec ! 0)
                     = gitScript N db recipe @ ''\<newline>''
                       @ createBuildScript (build L E tool recipe)
                 \<and> sublist (createKonfluxScripts k ks) (Script (Steps spec ! 2))))\<close>
proof -
  obtain limits img where
    ps: "ps = pipelineSpec L E N R S limits img tool commitTime jbsConfig recipe db
                paramValues buildRequestProcessorImage buildId existingImages"
    and d: "d = df L E N tool recipe db paramValues commitTime buildRequestProcessorImage"
    and k: "k = kf tool recipe commitTime buildRequestProcessorImage"
    and ks: "ks = konfluxScript L E N tool recipe db paramValues commitTime"
    using createPipelineSpec_plan [OF assms] by blast
  have 1: \<open>ks = ''#!/bin/sh\<newline>'' @ envVars N recipe db @ ''\<newline>set -- "$@" ''
              @ cmdArgs N paramValues @ ''\<newline>\<newline>''
              @ doSubstitution (build L E tool recipe) paramValues commitTime
                  (buildRepos recipe)\<close>
    unfolding ks konfluxScript_def buildScript_def by (rule refl)
  have 2: "sublist
              (''\<newline>RUN echo ''
               @ EncodeToString
                   (doSubstitution (build L E tool recipe) paramValues commitTime
                      (buildRepos recipe))
               @ '' | base64 -d >/var/workdir/build.sh'') d"
    using df_embeds_buildScript [of L E tool recipe paramValues commitTime N db
            buildRequestProcessorImage]
    unfolding d buildScript_def .
  have 3: "preBuildImageRequired recipe existingImages \<longrightarrow>
              (\<exists>pre spec.
                 taskNamed PreBuildTaskName ps = Some pre
                 \<and> EmbeddedTask pre = Some spec
                 \<and> Script (Steps spec ! 0)
                     = gitScript N db recipe @ ''\<newline>''
                       @ createBuildScript (build L E tool recipe)
                 \<and> sublist (createKonfluxScripts k ks) (Script (Steps spec ! 2)))"
  proof
    assume r: "preBuildImageRequired recipe existingImages"
    let ?pre = "withPassedParams (pipelineParams N (cacheUrl jbsConfig recipe commitTime))
                  (preBuildTask L E N R S limits img tool commitTime jbsConfig recipe db
                     paramValues buildRequestProcessorImage)"
    let ?spec = "buildSetup L E N R S limits img tool commitTime jbsConfig recipe db paramValues
                   buildRequestProcessorImage"
    have a: "taskNamed PreBuildTaskName ps = Some ?pre"
      using r by (simp add: ps taskNamed_pre_build)
    have b: "EmbeddedTask ?pre = Some ?spec"
      by (simp add: withPassedParams_fields embedded_tasks)
    have c: "Script (Steps ?spec ! 0)
             = gitScript N db recipe @ ''\<newline>'' @ createBuildScript (build L E tool recipe)"
      by (rule buildSetup_scripts)
    have e: "sublist (createKonfluxScripts k ks) (Script (Steps ?spec ! 2))"
      unfolding k ks buildSetup_scripts by (rule sublist_append_rightI)
    from a b c e show
      "\<exists>pre spec.
         taskNamed PreBuildTaskName ps = Some pre
         \<and> EmbeddedTask pre = Some spec
         \<and> Script (Steps spec ! 0)
             = gitScript N db recipe @ ''\<newline>'' @ createBuildScript (build L E tool recipe)
         \<and> sublist (createKonfluxScripts k ks) (Script (Steps spec ! 2))"
      by blast
  qed
  from 1 2 3 show ?thesis
    by (intro conjI)
qed

theorem scripts_in_artifacts_witness:
  \<open>createPipelineSpec sampleLibrary sampleFiles sampleParamNames sampleResultNames
     sampleSecretNames ''maven'' 17 sampleConfig sampleSystem sampleRecipe sampleBuild []
     ''quay.io/hacbs-jvm-build-request-processor:dev'' ''build-1'' Map.empty
   = Return
       (Some (pipelineSpec sampleLibrary sampleFiles sampleParamNames sampleResultNames
                sampleSecretNames
                sampleLimits
                ''quay.io/konflux-ci/build-trusted-artifacts:latest'' ''maven'' 17 sampleConfig
                sampleRecipe sampleBuild [] ''quay.io/hacbs-jvm-build-request-processor:dev''
                ''build-1'' Map.empty),
        df sampleLibrary sampleFiles sampleParamNames ''maven'' sampleRecipe sampleBuild [] 17
          ''quay.io/hacbs-jvm-build-request-processor:dev'',
        kf ''maven'' sampleRecipe 17 ''quay.io/hacbs-jvm-build-request-processor:dev'',
        konfluxScript sampleLibrary sampleFiles sampleParamNames ''maven'' sampleRecipe
          sampleBuild [] 17,
        None)
   \<and> preBuildImageRequired sampleRecipe Map.empty
   \<and> konfluxScript sampleLibrary sampleFiles sampleParamNames ''maven'' sampleRecipe
        sampleBuild [] 17
      = ''#!/bin/sh\<newline>'' @ envVars sampleParamNames sampleRecipe sampleBuild
        @ ''\<newline>set -- "$@" '' @ cmdArgs sampleParamNames [] @ ''\<newline>\<newline>''
        @ doSubstitution (build sampleLibrary sampleFiles ''maven'' sampleRecipe) [] 17
            (buildRepos sampleRecipe)
   \<and> sublist
        (''\<newline>RUN echo ''
         @ EncodeToString
             (doSubstitution (build sampleLibrary sampleFiles ''maven'' sampleRecipe) [] 17
                (buildRepos sampleRecipe))
         @ '' | base64 -d >/var/workdir/build.sh'')
        (df sampleLibrary sampleFiles sampleParamNames ''maven'' sampleRecipe sampleBuild [] 17
           ''quay.io/hacbs-jvm-build-request-processor:dev'')
   \<and> (\<exists>pre spec.
         taskNamed PreBuildTaskName
           (pipelineSpec sampleLibrary sampleFiles sampleParamNames sampleResultNames
              sampleSecretNames
              sampleLimits
              ''quay.io/konflux-ci/build-trusted-artifacts:latest'' ''maven'' 17 sampleConfig
              sampleRecipe sampleBuild [] ''quay.io/hacbs-jvm-build-request-processor:dev''
              ''build-1'' Map.empty)
         = Some pre
         \<and> EmbeddedTask pre = Some spec
         \<and> Script (Steps spec ! 0)
             = gitScript sampleParamNames sampleBuild sampleRecipe @ ''\<newline>''
               @ createBuildScript (build sampleLibrary sampleFiles ''maven'' sampleRecipe)
         \<and> sublist
              (createKonfluxScripts
                 (kf ''maven'' sampleRecipe 17 ''quay.io/hacbs-jvm-build-request-processor:dev'')
                 (konfluxScript sampleLibrary sampleFiles sampleParamNames ''maven''
                    sampleRecipe sampleBuild [] 17))
              (Script (Steps spec ! 2)))\<close>
proof -
  have run: "createPipelineSpec sampleLibrary sampleFiles sampleParamNames sampleResultNames
     sampleSecretNames ''maven'' 17 sampleConfig sampleSystem sampleRecipe sampleBuild []
     ''quay.io/hacbs-jvm-build-request-processor:dev'' ''build-1'' Map.empty
   = Return
       (Some (pipelineSpec sampleLibrary sampleFiles sampleParamNames sampleResultNames
                sampleSecretNames
                sampleLimits
                ''quay.io/konflux-ci/build-trusted-artifacts:latest'' ''maven'' 17 sampleConfig
                sampleRecipe sampleBuild [] ''quay.io/hacbs-jvm-build-request-processor:dev''
                ''build-1'' Map.empty),
        df sampleLibrary sampleFiles sampleParamNames ''maven'' sampleRecipe sampleBuild [] 17
          ''quay.io/hacbs-jvm-build-request-processor:dev'',
        kf ''maven'' sampleRecipe 17 ''quay.io/hacbs-jvm-build-request-processor:dev'',
        konfluxScript sampleLibrary sampleFiles sampleParamNames ''maven'' sampleRecipe
          sampleBuild [] 17,
        None)"
    by (rule createPipelineSpec_success [OF sample_memoryLimits sample_trustedArtifactsImage])
  have r: "preBuildImageRequired sampleRecipe Map.empty"
    by (simp add: preBuildImageRequired_def mapIndex_def)
  from scripts_in_artifacts [OF run] run r show ?thesis
    by blast
qed

subsection \<open>Replacing in a text that is put together from parts\<close>

text \<open>
  The scan for \<open>old\<close> in \<open>x @ z\<close> is the scan in \<open>x\<close> followed by the scan in \<open>z\<close>,
  unless an occurrence of \<open>old\<close> begins in \<open>x\<close> and ends in \<open>z\<close>.
\<close>

lemma replaceFrom_append:
  assumes "old \<noteq> []"
      and "\<forall>us vs. us \<noteq> [] \<and> vs \<noteq> [] \<and> old = us @ vs \<longrightarrow> \<not> (suffix us x \<and> prefix vs z)"
  shows "replaceFrom old new (x @ z) = replaceFrom old new x @ replaceFrom old new z"
  using assms
proof (induction old new x rule: replaceFrom.induct)
  case (1 old new)
  then show ?case by simp
next
  case (2 old new c s)
  show ?case
  proof (cases "prefix old (c # s)")
    case True
    then have len: "length old - 1 \<le> length s"
      by (auto dest: prefix_length_le)
    have "\<forall>us vs. us \<noteq> [] \<and> vs \<noteq> [] \<and> old = us @ vs
            \<longrightarrow> \<not> (suffix us (drop (length old - 1) s) \<and> prefix vs z)"
    proof (intro allI impI)
      fix us vs
      assume a: "us \<noteq> [] \<and> vs \<noteq> [] \<and> old = us @ vs"
      show "\<not> (suffix us (drop (length old - 1) s) \<and> prefix vs z)"
      proof
        assume b: "suffix us (drop (length old - 1) s) \<and> prefix vs z"
        then have "suffix us (c # s)"
          by (meson suffix_drop suffix_order.trans suffix_ConsI)
        with a b "2.prems"(2) show False by blast
      qed
    qed
    with "2.IH"(1) [OF True "2.prems"(1)]
    have "replaceFrom old new (drop (length old - 1) s @ z)
          = replaceFrom old new (drop (length old - 1) s) @ replaceFrom old new z"
      by blast
    moreover have "prefix old (c # s @ z)"
      using True by (metis append_Cons prefix_prefix)
    ultimately show ?thesis
      using True len by simp
  next
    case False
    have no: "\<not> prefix old (c # s @ z)"
    proof
      assume "prefix old (c # s @ z)"
      then have "prefix old ((c # s) @ z)" by simp
      then consider "prefix old (c # s)" | us' where "old = (c # s) @ us'" "prefix us' z"
        unfolding prefix_append by blast
      then show False
      proof cases
        case 1
        with False show False by simp
      next
        case 2
        show False
        proof (cases "us' = []")
          case True
          with 2 False show False by simp
        next
          case False
          with 2 "2.prems"(2) show False
            by (metis list.distinct(1) suffix_order.refl)
        qed
      qed
    qed
    have "\<forall>us vs. us \<noteq> [] \<and> vs \<noteq> [] \<and> old = us @ vs \<longrightarrow> \<not> (suffix us s \<and> prefix vs z)"
    proof (intro allI impI notI)
      fix us vs
      assume a: "us \<noteq> [] \<and> vs \<noteq> [] \<and> old = us @ vs" and b: "suffix us s \<and> prefix vs z"
      from b have "suffix us (c # s)"
        by (simp add: suffix_ConsI)
      with a b "2.prems"(2) show False by blast
    qed
    with "2.IH"(2) [OF False "2.prems"(1)]
    have "replaceFrom old new (s @ z) = replaceFrom old new s @ replaceFrom old new z"
      by blast
    with False no show ?thesis by simp
  qed
qed

text \<open>Two ways to see that no occurrence lies across the border.\<close>

lemma replaceFrom_append_head:
  assumes "old \<noteq> []" and "c \<notin> set (tl old)"
  shows "replaceFrom old new (x @ c # z)
         = replaceFrom old new x @ replaceFrom old new (c # z)"
proof (rule replaceFrom_append [OF assms(1)], intro allI impI notI)
  fix us vs
  assume a: "us \<noteq> [] \<and> vs \<noteq> [] \<and> old = us @ vs" and b: "suffix us x \<and> prefix vs (c # z)"
  from a b have "hd vs = c"
    by (cases vs) auto
  moreover from a have "hd vs \<in> set (tl old)"
    by (cases us; cases vs) auto
  ultimately show False
    using assms(2) by simp
qed

lemma zip_tl_Cons: "p \<in> set (zip ys (tl ys)) \<Longrightarrow> p \<in> set (zip (y # ys) ys)"
  by (cases ys) auto

lemma pair_in_zip_tl: "(a, b) \<in> set (zip (us @ a # b # vs) (tl (us @ a # b # vs)))"
proof (induction us)
  case Nil
  show ?case by simp
next
  case (Cons u us)
  from zip_tl_Cons [OF Cons, of u] show ?case by simp
qed

lemma replaceFrom_append_two:
  assumes "old \<noteq> []" and "last old \<noteq> c" and "(c, c') \<notin> set (zip old (tl old))"
  shows "replaceFrom old new (x @ c # c' # z)
         = replaceFrom old new x @ replaceFrom old new (c # c' # z)"
proof (rule replaceFrom_append [OF assms(1)], intro allI impI notI)
  fix us vs
  assume a: "us \<noteq> [] \<and> vs \<noteq> [] \<and> old = us @ vs"
     and b: "suffix us x \<and> prefix vs (c # c' # z)"
  from a b consider "vs = [c]" | vs' where "vs = c # c' # vs'"
    by (cases vs; cases "tl vs") auto
  then show False
  proof cases
    case 1
    with a assms(2) show False by simp
  next
    case 2
    with a assms(3) pair_in_zip_tl [of c c' us vs'] show False by simp
  qed
qed

text \<open>A text without the first character of \<open>old\<close> is copied.\<close>

lemma replaceFrom_copies:
  assumes "old \<noteq> []" and "hd old \<notin> set r"
  shows "replaceFrom old new (r @ y) = r @ replaceFrom old new y"
  using assms
proof (induction r)
  case Nil
  then show ?case by simp
next
  case (Cons c r)
  then have "\<not> prefix old (c # r @ y)"
    by (cases old) auto
  with Cons show ?case by simp
qed

subsection \<open>The reference to the cache URL\<close>

lemma same_name:
  assumes "c \<notin> set n" and "c \<notin> set w" and "prefix (n @ [c]) (w @ c # b)"
  shows "n = w"
  using assms
proof (induction n arbitrary: w)
  case Nil
  then show ?case by (cases w) auto
next
  case (Cons y n)
  then show ?case by (cases w) auto
qed

lemma no_other_param_at_reference:
  assumes "CHR '')'' \<notin> set n" and "n \<noteq> ''CACHE_URL''"
  shows "\<not> prefix (''$(params.'' @ n @ '')'') (''$(params.CACHE_URL)'' @ b)"
proof
  assume "prefix (''$(params.'' @ n @ '')'') (''$(params.CACHE_URL)'' @ b)"
  then have "prefix (n @ [CHR '')'']) (''CACHE_URL'' @ CHR '')'' # b)"
    by simp
  from same_name [OF assms(1) _ this] assms(2) show False
    by simp
qed

lemma replace_param_around_reference:
  assumes "CHR ''$'' \<notin> set n" and "CHR '')'' \<notin> set n" and "n \<noteq> ''CACHE_URL''"
  shows "ReplaceAll (a @ ''$(params.CACHE_URL)'' @ b) (''$(params.'' @ n @ '')'') v
         = ReplaceAll a (''$(params.'' @ n @ '')'') v @ ''$(params.CACHE_URL)''
           @ ReplaceAll b (''$(params.'' @ n @ '')'') v"
proof -
  let ?old = "''$(params.'' @ n @ '')''"
  have ne: "?old \<noteq> []" by simp
  have tl: "CHR ''$'' \<notin> set (tl ?old)"
    using assms(1) by simp
  have hd: "hd ?old \<notin> set ''(params.CACHE_URL)''"
    by simp
  have 1: "replaceFrom ?old v (a @ CHR ''$'' # ''(params.CACHE_URL)'' @ b)
           = replaceFrom ?old v a @ replaceFrom ?old v (CHR ''$'' # ''(params.CACHE_URL)'' @ b)"
    by (rule replaceFrom_append_head [OF ne tl])
  have "\<not> prefix ?old (CHR ''$'' # ''(params.CACHE_URL)'' @ b)"
    using no_other_param_at_reference [OF assms(2,3), of b] by simp
  then have 2: "replaceFrom ?old v (CHR ''$'' # ''(params.CACHE_URL)'' @ b)
                = CHR ''$'' # replaceFrom ?old v (''(params.CACHE_URL)'' @ b)"
    by (simp only: replaceFrom.simps if_False)
  have 3: "replaceFrom ?old v (''(params.CACHE_URL)'' @ b)
           = ''(params.CACHE_URL)'' @ replaceFrom ?old v b"
    by (rule replaceFrom_copies [OF ne hd])
  have "replaceFrom ?old v (a @ ''$(params.CACHE_URL)'' @ b)
        = replaceFrom ?old v a @ ''$(params.CACHE_URL)'' @ replaceFrom ?old v b"
    using 1 2 3 by simp
  then show ?thesis
    by (simp add: ReplaceAll_def)
qed

lemma substParams_around_reference:
  assumes "\<forall>p\<in>set paramValues.
             ValueType (Value p) = ParamTypeString \<longrightarrow>
             ParamName p \<noteq> ''CACHE_URL'' \<and> CHR ''$'' \<notin> set (ParamName p)
             \<and> CHR '')'' \<notin> set (ParamName p)"
  shows "substParams (a @ ''$(params.CACHE_URL)'' @ b) paramValues
         = substParams a paramValues @ ''$(params.CACHE_URL)'' @ substParams b paramValues"
  using assms
proof (induction paramValues arbitrary: a b)
  case Nil
  show ?case by simp
next
  case (Cons p rest)
  have rest: "\<forall>p\<in>set rest.
           ValueType (Value p) = ParamTypeString \<longrightarrow>
           ParamName p \<noteq> ''CACHE_URL'' \<and> CHR ''$'' \<notin> set (ParamName p)
           \<and> CHR '')'' \<notin> set (ParamName p)"
    using Cons.prems by simp
  show ?case
  proof (cases "ValueType (Value p) = ParamTypeString")
    case True
    with Cons.prems have n: "CHR ''$'' \<notin> set (ParamName p)" "CHR '')'' \<notin> set (ParamName p)"
        "ParamName p \<noteq> ''CACHE_URL''"
      by auto
    have step: "substParams s (p # rest)
                = substParams
                    (ReplaceAll s (''$(params.'' @ ParamName p @ '')'') (StringVal (Value p)))
                    rest" for s
      using True by simp
    show ?thesis
      unfolding step replace_param_around_reference [OF n]
      by (rule Cons.IH [OF rest])
  next
    case False
    have step: "substParams s (p # rest) = substParams s rest" for s
      using False by simp
    show ?thesis
      unfolding step by (rule Cons.IH [OF rest])
  qed
qed

lemma replace_reference:
  "ReplaceAll (a @ ''$(params.CACHE_URL)'' @ b) ''$(params.CACHE_URL)'' url
   = ReplaceAll a ''$(params.CACHE_URL)'' url @ url @ ReplaceAll b ''$(params.CACHE_URL)'' url"
proof -
  let ?old = "''$(params.CACHE_URL)''"
  have ne: "?old \<noteq> []" by simp
  have tl: "CHR ''$'' \<notin> set (tl ?old)" by simp
  have 1: "replaceFrom ?old url (a @ CHR ''$'' # ''(params.CACHE_URL)'' @ b)
           = replaceFrom ?old url a
             @ replaceFrom ?old url (CHR ''$'' # ''(params.CACHE_URL)'' @ b)"
    by (rule replaceFrom_append_head [OF ne tl])
  have 2: "replaceFrom ?old url (CHR ''$'' # ''(params.CACHE_URL)'' @ b)
           = url @ replaceFrom ?old url b"
    by simp
  from 1 2 show ?thesis
    by (simp add: ReplaceAll_def)
qed

lemma digitChar_no_dollar: "digitChar d \<noteq> CHR ''$''"
proof -
  have "d mod 10 < length ''0123456789''"
    by simp
  then have "digitChar d \<in> set ''0123456789''"
    unfolding digitChar_def by (rule nth_mem)
  then show ?thesis
    by auto
qed

lemma natDigits_no_dollar: "CHR ''$'' \<notin> set (natDigits n)"
proof (induction n rule: natDigits.induct)
  case (1 n)
  show ?case
  proof (cases "n < 10")
    case True
    then have "natDigits n = [digitChar n]"
      by (subst natDigits.simps) simp
    with digitChar_no_dollar [of n] show ?thesis
      by simp
  next
    case False
    then have "natDigits n = natDigits (n div 10) @ [digitChar (n mod 10)]"
      by (subst natDigits.simps) simp
    with 1 [OF False] digitChar_no_dollar [of "n mod 10"] show ?thesis
      by simp
  qed
qed

lemma FormatInt_no_dollar: "CHR ''$'' \<notin> set (FormatInt n)"
  by (simp add: FormatInt_def natDigits_no_dollar)

lemma replace_workspace_around_url:
  assumes "old \<noteq> []" and "hd old = CHR ''$''" and "last old \<noteq> CHR ''h''"
      and "(CHR ''h'', CHR ''t'') \<notin> set (zip old (tl old))"
      and "CHR ''$'' \<notin> set repos"
  shows "ReplaceAll
           (a @ (''http://localhost:8080/v2/cache/rebuild'' @ repos @ ''/'' @ FormatInt t @ ''/'')
              @ b) old new
         = ReplaceAll a old new
           @ (''http://localhost:8080/v2/cache/rebuild'' @ repos @ ''/'' @ FormatInt t @ ''/'')
           @ ReplaceAll b old new"
proof -
  let ?rest = "''ttp://localhost:8080/v2/cache/rebuild'' @ repos @ ''/'' @ FormatInt t @ ''/''"
  have url: "''http://localhost:8080/v2/cache/rebuild'' @ repos @ ''/'' @ FormatInt t @ ''/''
             = CHR ''h'' # ?rest"
    by simp
  have free: "hd old \<notin> set (CHR ''h'' # ?rest)"
    using assms(2,5) FormatInt_no_dollar [of t] by simp
  have 1: "replaceFrom old new (a @ CHR ''h'' # CHR ''t'' # (tl ?rest @ b))
           = replaceFrom old new a @ replaceFrom old new (CHR ''h'' # CHR ''t'' # (tl ?rest @ b))"
    by (rule replaceFrom_append_two [OF assms(1,3,4)])
  have 2: "replaceFrom old new ((CHR ''h'' # ?rest) @ b)
           = (CHR ''h'' # ?rest) @ replaceFrom old new b"
    by (rule replaceFrom_copies [OF assms(1) free])
  have "replaceFrom old new (a @ (CHR ''h'' # ?rest) @ b)
        = replaceFrom old new a @ (CHR ''h'' # ?rest) @ replaceFrom old new b"
    using 1 2 by simp
  then show ?thesis
    using assms(1) unfolding url by (simp only: ReplaceAll_def if_False)
qed

text \<open>
  C8, as the claim states it, fails for a list of parameter values with a string entry
  named \<^verbatim>\<open>CACHE_URL\<close>: the loop over the list replaces the reference by the value
  of the entry before the fixed replacement looks for it, in a script and in the
  \<^verbatim>\<open>ENV CACHE_URL\<close> line of the diagnostic container file.
\<close>

theorem cache_url_entry_takes_precedence:
  "doSubstitution ''curl $(params.CACHE_URL)/x''
     [stringParam ''CACHE_URL'' ''http://other.example/cache''] 17 ''-central''
   = ''curl http://other.example/cache/x''
   \<and> \<not> sublist ''http://localhost:8080/v2/cache/rebuild''
         (doSubstitution ''curl $(params.CACHE_URL)/x''
            [stringParam ''CACHE_URL'' ''http://other.example/cache''] 17 ''-central'')
   \<and> sublist
        (''\<newline>ENV CACHE_URL='' @ ''http://other.example/cache''
         @ ''\<newline>RUN mkdir -p /var/workdir/software/settings /original-content/marker'')
        (df sampleLibrary sampleFiles sampleParamNames ''maven'' sampleRecipe sampleBuild
           [stringParam ''CACHE_URL'' ''http://other.example/cache''] 17
           ''quay.io/hacbs-jvm-build-request-processor:dev'')"
proof -
  have 1: "doSubstitution ''curl $(params.CACHE_URL)/x''
             [stringParam ''CACHE_URL'' ''http://other.example/cache''] 17 ''-central''
           = ''curl http://other.example/cache/x''"
    by code_simp
  have 2: "\<not> sublist ''http://localhost:8080/v2/cache/rebuild''
               ''curl http://other.example/cache/x''"
    by code_simp
  have e: "doSubstitution (''$(params.'' @ PipelineParamCacheUrl sampleParamNames @ '')'')
             [stringParam ''CACHE_URL'' ''http://other.example/cache''] 17
             (buildRepos sampleRecipe)
           = ''http://other.example/cache''"
    by code_simp
  have "sublist
          (''\<newline>ENV CACHE_URL=''
           @ doSubstitution (''$(params.'' @ PipelineParamCacheUrl sampleParamNames @ '')'')
               [stringParam ''CACHE_URL'' ''http://other.example/cache''] 17
               (buildRepos sampleRecipe)
           @ ''\<newline>RUN mkdir -p /var/workdir/software/settings /original-content/marker'')
          (df sampleLibrary sampleFiles sampleParamNames ''maven'' sampleRecipe sampleBuild
             [stringParam ''CACHE_URL'' ''http://other.example/cache''] 17
             ''quay.io/hacbs-jvm-build-request-processor:dev'')"
    unfolding df_def by (rule sublist_here | rule sublist_skip)+
  then have 3: "sublist
        (''\<newline>ENV CACHE_URL='' @ ''http://other.example/cache''
         @ ''\<newline>RUN mkdir -p /var/workdir/software/settings /original-content/marker'')
        (df sampleLibrary sampleFiles sampleParamNames ''maven'' sampleRecipe sampleBuild
           [stringParam ''CACHE_URL'' ''http://other.example/cache''] 17
           ''quay.io/hacbs-jvm-build-request-processor:dev'')"
    unfolding e .
  from 1 2 3 show ?thesis
    by (simp only: simp_thms)
qed

text \<open>
  C8, amended: let no string entry of the list of parameter values be named
  \<^verbatim>\<open>CACHE_URL\<close>, let the names of the string entries have no dollar sign and no
  closing parenthesis, and let the repository suffix have no dollar sign. Then
  \<^verbatim>\<open>doSubstitution\<close> replaces a reference \<^verbatim>\<open>$(params.CACHE_URL)\<close>, wherever it
  stands in the script, by the local URL, the repository suffix, a slash, the commit
  time and a slash, and substitutes in the text in front of it and in the text behind it
  as it does in these texts alone. So every occurrence of the reference is replaced.
\<close>

theorem cache_url_reference_replaced:
  assumes "\<forall>p\<in>set paramValues.
             ValueType (Value p) = ParamTypeString \<longrightarrow>
             ParamName p \<noteq> ''CACHE_URL'' \<and> CHR ''$'' \<notin> set (ParamName p)
             \<and> CHR '')'' \<notin> set (ParamName p)"
      and "CHR ''$'' \<notin> set repos"
  shows "doSubstitution (a @ ''$(params.CACHE_URL)'' @ b) paramValues commitTime repos
         = doSubstitution a paramValues commitTime repos
           @ (''http://localhost:8080/v2/cache/rebuild'' @ repos @ ''/''
              @ FormatInt commitTime @ ''/'')
           @ doSubstitution b paramValues commitTime repos"
proof -
  have settings: "ReplaceAll
           (x @ (''http://localhost:8080/v2/cache/rebuild'' @ repos @ ''/''
                 @ FormatInt commitTime @ ''/'') @ y)
           ''$(workspaces.build-settings.path)'' new
         = ReplaceAll x ''$(workspaces.build-settings.path)'' new
           @ (''http://localhost:8080/v2/cache/rebuild'' @ repos @ ''/''
              @ FormatInt commitTime @ ''/'')
           @ ReplaceAll y ''$(workspaces.build-settings.path)'' new" for x y new
    by (rule replace_workspace_around_url [OF _ _ _ _ assms(2)]) simp_all
  have source: "ReplaceAll
           (x @ (''http://localhost:8080/v2/cache/rebuild'' @ repos @ ''/''
                 @ FormatInt commitTime @ ''/'') @ y)
           ''$(workspaces.source.path)'' new
         = ReplaceAll x ''$(workspaces.source.path)'' new
           @ (''http://localhost:8080/v2/cache/rebuild'' @ repos @ ''/''
              @ FormatInt commitTime @ ''/'')
           @ ReplaceAll y ''$(workspaces.source.path)'' new" for x y new
    by (rule replace_workspace_around_url [OF _ _ _ _ assms(2)]) simp_all
  have tls: "ReplaceAll
           (x @ (''http://localhost:8080/v2/cache/rebuild'' @ repos @ ''/''
                 @ FormatInt commitTime @ ''/'') @ y)
           ''$(workspaces.tls.path)'' new
         = ReplaceAll x ''$(workspaces.tls.path)'' new
           @ (''http://localhost:8080/v2/cache/rebuild'' @ repos @ ''/''
              @ FormatInt commitTime @ ''/'')
           @ ReplaceAll y ''$(workspaces.tls.path)'' new" for x y new
    by (rule replace_workspace_around_url [OF _ _ _ _ assms(2)]) simp_all
  show ?thesis
    unfolding doSubstitution_def Let_def substParams_around_reference [OF assms(1)]
      replace_reference settings source tls
    by (rule refl)
qed

theorem cache_url_reference_replaced_witness:
  "CHR ''$'' \<notin> set ''-central''
   \<and> doSubstitution (''curl '' @ ''$(params.CACHE_URL)'' @ ''/x -o $(workspaces.source.path)/x'')
        [stringParam ''URL'' ''https://example.org/lib.git'',
         \<lparr>ParamName = ''GOALS'',
          Value = \<lparr>ValueType = ParamTypeArray, StringVal = [], ArrayVal = [''install'']\<rparr>\<rparr>]
        17 ''-central''
      = doSubstitution ''curl ''
          [stringParam ''URL'' ''https://example.org/lib.git'',
           \<lparr>ParamName = ''GOALS'',
            Value = \<lparr>ValueType = ParamTypeArray, StringVal = [], ArrayVal = [''install'']\<rparr>\<rparr>]
          17 ''-central''
        @ (''http://localhost:8080/v2/cache/rebuild'' @ ''-central'' @ ''/'' @ FormatInt 17 @ ''/'')
        @ doSubstitution ''/x -o $(workspaces.source.path)/x''
            [stringParam ''URL'' ''https://example.org/lib.git'',
             \<lparr>ParamName = ''GOALS'',
              Value = \<lparr>ValueType = ParamTypeArray, StringVal = [], ArrayVal = [''install'']\<rparr>\<rparr>]
            17 ''-central''
   \<and> doSubstitution (''curl '' @ ''$(params.CACHE_URL)'' @ ''/x -o $(workspaces.source.path)/x'')
        [stringParam ''URL'' ''https://example.org/lib.git'',
         \<lparr>ParamName = ''GOALS'',
          Value = \<lparr>ValueType = ParamTypeArray, StringVal = [], ArrayVal = [''install'']\<rparr>\<rparr>]
        17 ''-central''
      = ''curl http://localhost:8080/v2/cache/rebuild-central/17//x -o /var/workdir/workspace/x''"
proof -
  have h: "\<forall>p\<in>set [stringParam ''URL'' ''https://example.org/lib.git'',
                     \<lparr>ParamName = ''GOALS'',
                      Value = \<lparr>ValueType = ParamTypeArray, StringVal = [],
                               ArrayVal = [''install'']\<rparr>\<rparr>].
             ValueType (Value p) = ParamTypeString \<longrightarrow>
             ParamName p \<noteq> ''CACHE_URL'' \<and> CHR ''$'' \<notin> set (ParamName p)
             \<and> CHR '')'' \<notin> set (ParamName p)"
    by (simp add: stringParam_def)
  have r: "CHR ''$'' \<notin> set ''-central''"
    by simp
  have v: "doSubstitution (''curl '' @ ''$(params.CACHE_URL)'' @ ''/x -o $(workspaces.source.path)/x'')
        [stringParam ''URL'' ''https://example.org/lib.git'',
         \<lparr>ParamName = ''GOALS'',
          Value = \<lparr>ValueType = ParamTypeArray, StringVal = [], ArrayVal = [''install'']\<rparr>\<rparr>]
        17 ''-central''
      = ''curl http://localhost:8080/v2/cache/rebuild-central/17//x -o /var/workdir/workspace/x''"
    by code_simp
  from cache_url_reference_replaced [OF h r, of "''curl ''" "''/x -o $(workspaces.source.path)/x''" 17]
       r v
  show ?thesis
    by (simp only: simp_thms)
qed

end
